theory Spec2Isabelle
  imports Main "HOL-Library.Word"
begin

unbundle bit_operations_syntax

section \<open>Python values\<close>

text \<open>
  The values that travel through \<^verbatim>\<open>streamlit_ui.py\<close>: what the widgets return, what
  the session state holds and what a JSON schema contains. A dict keeps its insertion
  order, so it is an association list; every dict of the module is keyed by strings
  (property names, the text typed into the key field). A float is carried as its
  binary64 bit pattern; the arithmetic on floats is not part of the module and is
  taken as a parameter where it is used. \<open>PObj\<close> stands for the objects the module
  never looks into (\<^verbatim>\<open>datetime.time\<close>, \<^verbatim>\<open>datetime.date\<close>, an uploaded file),
  \<open>PModel\<close> for an instance of a pydantic model: its class name and its
  \<^verbatim>\<open>__dict__\<close>.
\<close>

datatype pyval =
    PNone
  | PBool bool
  | PInt int
  | PFloat "64 word"
  | PStr string
  | PBytes string
  | PList "pyval list"
  | PDict "(string \<times> pyval) list"
  | PObj string
  | PModel string "(string \<times> pyval) list"

text \<open>The exceptions the module can meet.\<close>

datatype exn =
    TypeError
  | KeyError
  | AttributeError
  | ValueError
  | OverflowError
  | ValidationError
  | UnsupportedProperty
  | RecursionError
  | Signal string
  | OtherError string

fun is_dict :: "pyval \<Rightarrow> bool" where
  "is_dict (PDict kvs) = True"
| "is_dict v = False"

subsection \<open>Dict operations\<close>

text \<open>
  \<^verbatim>\<open>d[k] = v\<close> on a dict: an existing key keeps its place, a new key goes to the end.
\<close>

fun dict_set :: "string \<Rightarrow> pyval \<Rightarrow> (string \<times> pyval) list \<Rightarrow> (string \<times> pyval) list" where
  "dict_set k v [] = [(k, v)]"
| "dict_set k v (p # ps) = (if fst p = k then (k, v) # ps else p # dict_set k v ps)"

definition dict_get :: "(string \<times> pyval) list \<Rightarrow> string \<Rightarrow> pyval option" where
  "dict_get kvs k = map_of kvs k"

definition dict_has :: "(string \<times> pyval) list \<Rightarrow> string \<Rightarrow> bool" where
  "dict_has kvs k = (dict_get kvs k \<noteq> None)"

text \<open>\<^verbatim>\<open>sub in s\<close> on two strings: \<open>sub\<close> occurs in \<open>s\<close> as a contiguous run.\<close>

fun str_in :: "string \<Rightarrow> string \<Rightarrow> bool" where
  "str_in sub [] = (sub = [])"
| "str_in sub (c # cs) = (take (length sub) (c # cs) = sub \<or> str_in sub cs)"

text \<open>
  \<^verbatim>\<open>k in d\<close> for a string \<open>k\<close>: key membership on a dict, element membership on a
  list, substring on a string. A model instance has \<^verbatim>\<open>__iter__\<close> (it yields pairs),
  so the test runs and finds no string; every other value raises \<^verbatim>\<open>TypeError\<close>.
\<close>

fun py_contains :: "pyval \<Rightarrow> string \<Rightarrow> exn + bool" where
  "py_contains (PDict kvs) k = Inr (dict_has kvs k)"
| "py_contains (PList xs) k = Inr (PStr k \<in> set xs)"
| "py_contains (PStr s) k = Inr (str_in k s)"
| "py_contains (PModel c fs) k = Inr False"
| "py_contains v k = Inl TypeError"

text \<open>\<^verbatim>\<open>d[k]\<close> for a string \<open>k\<close>: only a dict can be indexed by a string.\<close>

fun py_getitem :: "pyval \<Rightarrow> string \<Rightarrow> exn + pyval" where
  "py_getitem (PDict kvs) k = (case dict_get kvs k of None \<Rightarrow> Inl KeyError | Some v \<Rightarrow> Inr v)"
| "py_getitem v k = Inl TypeError"

text \<open>\<^verbatim>\<open>d[k] = v\<close> for a string \<open>k\<close>.\<close>

fun py_setitem :: "pyval \<Rightarrow> string \<Rightarrow> pyval \<Rightarrow> exn + pyval" where
  "py_setitem (PDict kvs) k v = Inr (PDict (dict_set k v kvs))"
| "py_setitem d k v = Inl TypeError"

subsection \<open>Strings\<close>

text \<open>\<^verbatim>\<open>key.split(".")\<close>: the pieces between the dots; never the empty list.\<close>

fun str_split :: "string \<Rightarrow> string list" where
  "str_split [] = [[]]"
| "str_split (c # cs) =
     (if c = CHR ''.'' then [] # str_split cs
      else (case str_split cs of [] \<Rightarrow> [[c]] | x # xs \<Rightarrow> (c # x) # xs))"

section \<open>The nested encoding of the session input data\<close>

text \<open>
  \<^verbatim>\<open>_store_value\<close> and \<^verbatim>\<open>_get_value\<close> walk down the session input data along the
  pieces of the key; \<^verbatim>\<open>data_element\<close> is a reference into the nested dicts, and what is
  assigned through it changes the session input data in place. Here a walk returns its
  outcome together with the element as the walk has left it, and the caller puts the
  changed child back under its key (\<open>put_back\<close>): the in-place update, written out. The
  element is returned on an exception too, since what was assigned before a raise stays
  assigned. The test \<^verbatim>\<open>i == len(key_elements) - 1\<close> holds exactly on the last piece.
\<close>

fun put_back :: "pyval \<Rightarrow> string \<Rightarrow> pyval \<Rightarrow> pyval" where
  "put_back (PDict kvs) k c = PDict (dict_set k c kvs)"
| "put_back d k c = d"

fun store_loop :: "pyval \<Rightarrow> string list \<Rightarrow> pyval \<Rightarrow> (exn + unit) \<times> pyval" where
  "store_loop d [] v = (Inr (), d)"
| "store_loop d (k # ks) v =
     (if ks = [] then
        (case py_setitem d k v of
           Inl e \<Rightarrow> (Inl e, d)
         | Inr d' \<Rightarrow> (Inr (), d'))
      else
        (case py_contains d k of
           Inl e \<Rightarrow> (Inl e, d)
         | Inr b \<Rightarrow>
            (case (if b then Inr d else py_setitem d k (PDict [])) of
               Inl e \<Rightarrow> (Inl e, d)
             | Inr d1 \<Rightarrow>
                (case py_getitem d1 k of
                   Inl e \<Rightarrow> (Inl e, d1)
                 | Inr c \<Rightarrow>
                    (case store_loop c ks v of
                       (r, c') \<Rightarrow> (r, put_back d1 k c'))))))"

definition store_value :: "pyval \<Rightarrow> string \<Rightarrow> pyval \<Rightarrow> (exn + unit) \<times> pyval" where
  "store_value input_data key v = store_loop input_data (str_split key) v"

fun get_loop :: "pyval \<Rightarrow> string list \<Rightarrow> (exn + pyval) \<times> pyval" where
  "get_loop d [] = (Inr PNone, d)"
| "get_loop d (k # ks) =
     (if ks = [] then
        (case py_contains d k of
           Inl e \<Rightarrow> (Inl e, d)
         | Inr b \<Rightarrow>
            (if \<not> b then (Inr PNone, d)
             else (case py_getitem d k of
                     Inl e \<Rightarrow> (Inl e, d)
                   | Inr x \<Rightarrow> (Inr x, d))))
      else
        (case py_contains d k of
           Inl e \<Rightarrow> (Inl e, d)
         | Inr b \<Rightarrow>
            (case (if b then Inr d else py_setitem d k (PDict [])) of
               Inl e \<Rightarrow> (Inl e, d)
             | Inr d1 \<Rightarrow>
                (case py_getitem d1 k of
                   Inl e \<Rightarrow> (Inl e, d1)
                 | Inr c \<Rightarrow>
                    (case get_loop c ks of
                       (r, c') \<Rightarrow> (r, put_back d1 k c'))))))"

definition get_value :: "pyval \<Rightarrow> string \<Rightarrow> (exn + pyval) \<times> pyval" where
  "get_value input_data key = get_loop input_data (str_split key)"


subsection \<open>Paths in the nested dicts\<close>

text \<open>
  \<open>lookup_path d ks\<close> is the value found by following the pieces \<open>ks\<close> through nested
  dicts, when every piece is a key of the dict reached so far.
\<close>

fun lookup_path :: "pyval \<Rightarrow> string list \<Rightarrow> pyval option" where
  "lookup_path d [] = Some d"
| "lookup_path d (k # ks) =
     (case d of
        PDict kvs \<Rightarrow> (case dict_get kvs k of None \<Rightarrow> None | Some c \<Rightarrow> lookup_path c ks)
      | _ \<Rightarrow> None)"

text \<open>
  \<open>prefixes_ok d ks\<close>: the session input data \<open>d\<close> is a dict and every proper prefix of
  the key pieces \<open>ks\<close> either is absent or maps to a dict.
\<close>

fun prefixes_ok :: "pyval \<Rightarrow> string list \<Rightarrow> bool" where
  "prefixes_ok d [] = True"
| "prefixes_ok d (k # ks) =
     (case d of
        PDict kvs \<Rightarrow>
          (if ks = [] then True
           else (case dict_get kvs k of None \<Rightarrow> True | Some c \<Rightarrow> prefixes_ok c ks))
      | _ \<Rightarrow> False)"

text \<open>
  \<open>insert_missing d ks\<close>: the data \<open>d\<close> with an empty dict inserted for each piece of
  \<open>ks\<close> that is missing on the way down, and nothing else changed.
\<close>

fun insert_missing :: "pyval \<Rightarrow> string list \<Rightarrow> pyval" where
  "insert_missing d [] = d"
| "insert_missing d (k # ks) =
     (case d of
        PDict kvs \<Rightarrow>
          (case dict_get kvs k of
             None \<Rightarrow> PDict (dict_set k (insert_missing (PDict []) ks) kvs)
           | Some c \<Rightarrow> PDict (dict_set k (insert_missing c ks) kvs))
      | _ \<Rightarrow> d)"


subsection \<open>Truth values, numbers and strings of the language\<close>

definition float_is_zero :: "64 word \<Rightarrow> bool" where
  "float_is_zero w = (take_bit 63 w = 0)"

fun py_truthy :: "pyval \<Rightarrow> bool" where
  "py_truthy PNone = False"
| "py_truthy (PBool b) = b"
| "py_truthy (PInt i) = (i \<noteq> 0)"
| "py_truthy (PFloat w) = (\<not> float_is_zero w)"
| "py_truthy (PStr s) = (s \<noteq> [])"
| "py_truthy (PBytes s) = (s \<noteq> [])"
| "py_truthy (PList xs) = (xs \<noteq> [])"
| "py_truthy (PDict kvs) = (kvs \<noteq> [])"
| "py_truthy (PObj n) = True"
| "py_truthy (PModel c fs) = True"

datatype libfn =
    NameToTitle
  | GuessExtension
  | TimeFromIso
  | DateFromIso
  | DatetimeFromIso
  | DateOf
  | TimeOf
  | DatetimeCombine
  | ListIndex
  | StrOf
  | IntOfStr
  | FloatOfStr
  | FloatOfInt
  | FloatAdd
  | FloatSub
  | JsonableEncoder
  | DataFrame
  | ModelDict
  | ModelJson
  | EnumValue
  | AsBytes
  | StrLower
  | StrStrip
  | StrReplace

type_synonym lib = "libfn \<Rightarrow> pyval list \<Rightarrow> exn + pyval"

definition int_of_float :: "64 word \<Rightarrow> exn + int" where
  "int_of_float w =
     (let e = uint (take_bit 11 (drop_bit 52 w));
          m = uint (take_bit 52 w)
      in if e = 2047 then (if m = 0 then Inl OverflowError else Inl ValueError)
         else
           (let mant = (if e = 0 then m else m + 2 ^ 52);
                ex = (if e = 0 then 1 else e);
                mag = (if 1075 \<le> ex then mant * 2 ^ nat (ex - 1075)
                       else mant div 2 ^ nat (1075 - ex))
            in Inr (if bit w 63 then - mag else mag)))"


type_synonym dict = "(string \<times> pyval) list"

text \<open>Exceptions in a result: the next step runs only when the one before returned.\<close>

definition ebind :: "exn + 'a \<Rightarrow> ('a \<Rightarrow> exn + 'b) \<Rightarrow> exn + 'b" where
  "ebind r f = (case r of Inl e \<Rightarrow> Inl e | Inr x \<Rightarrow> f x)"

text \<open>\<^verbatim>\<open>d.get(k)\<close> and \<^verbatim>\<open>d[k]\<close> on a dict.\<close>

definition prop_get :: "dict \<Rightarrow> string \<Rightarrow> pyval" where
  "prop_get d k = (case dict_get d k of None \<Rightarrow> PNone | Some v \<Rightarrow> v)"

definition dict_item :: "dict \<Rightarrow> string \<Rightarrow> exn + pyval" where
  "dict_item d k = (case dict_get d k of None \<Rightarrow> Inl KeyError | Some v \<Rightarrow> Inr v)"

text \<open>\<^verbatim>\<open>v.get(k)\<close> on a value: only a dict has the method.\<close>

fun py_get :: "pyval \<Rightarrow> string \<Rightarrow> exn + pyval" where
  "py_get (PDict kvs) k = Inr (prop_get kvs k)"
| "py_get v k = Inl AttributeError"

fun as_dict :: "pyval \<Rightarrow> exn + dict" where
  "as_dict (PDict kvs) = Inr kvs"
| "as_dict v = Inl AttributeError"

text \<open>What iterating over a value yields.\<close>

fun py_iter :: "pyval \<Rightarrow> exn + pyval list" where
  "py_iter (PList xs) = Inr xs"
| "py_iter (PDict kvs) = Inr (map (\<lambda>p. PStr (fst p)) kvs)"
| "py_iter (PStr s) = Inr (map (\<lambda>c. PStr [c]) s)"
| "py_iter (PBytes s) = Inr (map (\<lambda>c. PInt (of_char c)) s)"
| "py_iter (PModel c fs) = Inr (map (\<lambda>p. PList [PStr (fst p), snd p]) fs)"
| "py_iter v = Inl TypeError"

text \<open>\<^verbatim>\<open>a, b = v\<close>.\<close>

definition unpack2 :: "pyval \<Rightarrow> exn + pyval \<times> pyval" where
  "unpack2 v =
     ebind (py_iter v) (\<lambda>xs. case xs of [a, b] \<Rightarrow> Inr (a, b) | _ \<Rightarrow> Inl ValueError)"

text \<open>\<^verbatim>\<open>str(n)\<close> for an integer.\<close>

function str_of_nat :: "nat \<Rightarrow> string" where
  "str_of_nat n =
     (if n < 10 then [''0123456789'' ! n]
      else str_of_nat (n div 10) @ [''0123456789'' ! (n mod 10)])"
  by pat_completeness auto
termination
  by (relation "measure id") auto

definition str_of_int :: "int \<Rightarrow> string" where
  "str_of_int i = (if i < 0 then CHR ''-'' # str_of_nat (nat (- i)) else str_of_nat (nat i))"

text \<open>
  \<^verbatim>\<open>str(v)\<close>: written out for the values whose text is fixed by the language, asked
  from the library for the others (a float, a container, an object).
\<close>

fun py_str :: "lib \<Rightarrow> pyval \<Rightarrow> exn + string" where
  "py_str lib (PStr s) = Inr s"
| "py_str lib PNone = Inr ''None''"
| "py_str lib (PBool b) = Inr (if b then ''True'' else ''False'')"
| "py_str lib (PInt i) = Inr (str_of_int i)"
| "py_str lib v =
     (case lib StrOf [v] of
        Inl e \<Rightarrow> Inl e
      | Inr (PStr s) \<Rightarrow> Inr s
      | Inr _ \<Rightarrow> Inl TypeError)"

text \<open>
  \<^verbatim>\<open>int(v)\<close> and \<^verbatim>\<open>float(v)\<close>. Truncating a float is exact and written out; parsing a
  string and rounding an integer to a float are the library's.
\<close>

fun py_int :: "lib \<Rightarrow> pyval \<Rightarrow> exn + pyval" where
  "py_int lib (PInt i) = Inr (PInt i)"
| "py_int lib (PBool b) = Inr (PInt (if b then 1 else 0))"
| "py_int lib (PFloat w) = ebind (int_of_float w) (\<lambda>i. Inr (PInt i))"
| "py_int lib (PStr s) =
     (case lib IntOfStr [PStr s] of
        Inl e \<Rightarrow> Inl e
      | Inr (PInt i) \<Rightarrow> Inr (PInt i)
      | Inr _ \<Rightarrow> Inl TypeError)"
| "py_int lib (PBytes s) =
     (case lib IntOfStr [PBytes s] of
        Inl e \<Rightarrow> Inl e
      | Inr (PInt i) \<Rightarrow> Inr (PInt i)
      | Inr _ \<Rightarrow> Inl TypeError)"
| "py_int lib v = Inl TypeError"

definition lib_float :: "lib \<Rightarrow> libfn \<Rightarrow> pyval list \<Rightarrow> exn + pyval" where
  "lib_float lib f args =
     (case lib f args of
        Inl e \<Rightarrow> Inl e
      | Inr (PFloat w) \<Rightarrow> Inr (PFloat w)
      | Inr _ \<Rightarrow> Inl TypeError)"

fun py_float :: "lib \<Rightarrow> pyval \<Rightarrow> exn + pyval" where
  "py_float lib (PFloat w) = Inr (PFloat w)"
| "py_float lib (PInt i) = lib_float lib FloatOfInt [PInt i]"
| "py_float lib (PBool b) = lib_float lib FloatOfInt [PInt (if b then 1 else 0)]"
| "py_float lib (PStr s) = lib_float lib FloatOfStr [PStr s]"
| "py_float lib (PBytes s) = lib_float lib FloatOfStr [PBytes s]"
| "py_float lib v = Inl TypeError"

text \<open>
  \<^verbatim>\<open>a + b\<close> and \<^verbatim>\<open>a - b\<close> where \<open>b\<close> is a number (the step of a number input):
  exact on integers (a bool counts as 0 or 1); with a float on either side both are
  made floats and the library adds them; anything else raises \<^verbatim>\<open>TypeError\<close>.
\<close>

fun as_int :: "pyval \<Rightarrow> int option" where
  "as_int (PInt i) = Some i"
| "as_int (PBool b) = Some (if b then 1 else 0)"
| "as_int v = None"

fun is_float :: "pyval \<Rightarrow> bool" where
  "is_float (PFloat w) = True"
| "is_float v = False"

fun is_num :: "pyval \<Rightarrow> bool" where
  "is_num (PInt i) = True"
| "is_num (PBool b) = True"
| "is_num (PFloat w) = True"
| "is_num v = False"

definition py_arith :: "lib \<Rightarrow> libfn \<Rightarrow> (int \<Rightarrow> int \<Rightarrow> int) \<Rightarrow> pyval \<Rightarrow> pyval \<Rightarrow> exn + pyval" where
  "py_arith lib f op a b =
     (case (as_int a, as_int b) of
        (Some x, Some y) \<Rightarrow> Inr (PInt (op x y))
      | _ \<Rightarrow>
         (if is_num a \<and> is_num b then
            ebind (py_float lib a) (\<lambda>x. ebind (py_float lib b) (\<lambda>y. lib_float lib f [x, y]))
          else Inl TypeError))"

definition py_add :: "lib \<Rightarrow> pyval \<Rightarrow> pyval \<Rightarrow> exn + pyval" where
  "py_add lib a b = py_arith lib FloatAdd (\<lambda>x y. x + y) a b"

definition py_sub :: "lib \<Rightarrow> pyval \<Rightarrow> pyval \<Rightarrow> exn + pyval" where
  "py_sub lib a b = py_arith lib FloatSub (\<lambda>x y. x - y) a b"

text \<open>The floats \<^verbatim>\<open>0.01\<close> and \<^verbatim>\<open>0.0\<close>, as binary64.\<close>

definition float_0_01 :: "64 word" where
  "float_0_01 = 0x3F847AE147AE147B"

definition float_0 :: "64 word" where
  "float_0 = 0"

section \<open>The widget host and the session\<close>

text \<open>
  Every call into Streamlit is a call on a receiver: the module \<^verbatim>\<open>st\<close>, the sidebar
  \<^verbatim>\<open>st.sidebar\<close>, or an object that an earlier call returned (a column, a container,
  an uploaded file). A call has the name of the method, its positional and its keyword
  arguments. The host answers a call with a value or with an exception.
\<close>

datatype receiver = St | Sidebar | Obj pyval

datatype call = Call receiver string "pyval list" dict

type_synonym host = "call \<Rightarrow> exn + pyval"

text \<open>
  The session state (the class is in \<^verbatim>\<open>streamlit_utils\<close>; the module reads and writes
  these four attributes of it), together with the calls made so far.
\<close>

record state =
  input_data :: pyval
  output_data :: pyval
  latest_operation_input :: pyval
  run_id :: pyval
  trace :: "call list"

text \<open>
  A piece of the module is an action: it starts in a state and ends in one, with a value
  or an exception. After an exception the state is the one reached when it was raised.
\<close>

type_synonym 'a action = "state \<Rightarrow> (exn + 'a) \<times> state"

definition ret :: "'a \<Rightarrow> 'a action" where
  "ret x = (\<lambda>s. (Inr x, s))"

definition throw :: "exn \<Rightarrow> 'a action" where
  "throw e = (\<lambda>s. (Inl e, s))"

definition lift :: "exn + 'a \<Rightarrow> 'a action" where
  "lift r = (\<lambda>s. (r, s))"

definition seq :: "'a action \<Rightarrow> ('a \<Rightarrow> 'b action) \<Rightarrow> 'b action" where
  "seq m f = (\<lambda>s. case m s of (Inl e, s') \<Rightarrow> (Inl e, s') | (Inr x, s') \<Rightarrow> f x s')"

text \<open>
  \<^verbatim>\<open>except Exception\<close> catches the exceptions derived from \<^verbatim>\<open>Exception\<close>; the signals
  by which the host stops or reruns a script derive from \<^verbatim>\<open>BaseException\<close> and pass
  through (\<open>Signal\<close>).
\<close>

fun is_exception :: "exn \<Rightarrow> bool" where
  "is_exception (Signal n) = False"
| "is_exception e = True"

definition attempt :: "'a action \<Rightarrow> (exn \<Rightarrow> 'a action) \<Rightarrow> 'a action" where
  "attempt m handler =
     (\<lambda>s. case m s of
             (Inl e, s') \<Rightarrow> (if is_exception e then handler e s' else (Inl e, s'))
           | (Inr x, s') \<Rightarrow> (Inr x, s'))"

definition widget :: "host \<Rightarrow> receiver \<Rightarrow> string \<Rightarrow> pyval list \<Rightarrow> dict \<Rightarrow> pyval action" where
  "widget h r m args kw = (\<lambda>s. (h (Call r m args kw), s\<lparr>trace := trace s @ [Call r m args kw]\<rparr>))"

text \<open>
  The values the host returns are used by the module in two more ways: a method is
  called on them (\<^verbatim>\<open>uploaded_file.getvalue()\<close>, \<^verbatim>\<open>uploaded_file.read()\<close>,
  \<^verbatim>\<open>show_json.button(...)\<close>, \<^verbatim>\<open>show_json.json(...)\<close>) and they are entered as
  context managers. An object of the host, or an instance of a class of the user,
  answers by its class, which is outside the module: the call is a call on the host.
  The other values (\<^verbatim>\<open>None\<close>, a number, a string, bytes, a list, a dict) have none of
  these methods and are no context managers: the interpreter raises
  \<^verbatim>\<open>AttributeError\<close> for the method and \<^verbatim>\<open>TypeError\<close> for the \<^verbatim>\<open>with\<close> statement
  (\<^verbatim>\<open>AttributeError\<close> before Python 3.11) without calling anything.
\<close>

fun is_object :: "pyval \<Rightarrow> bool" where
  "is_object (PObj n) = True"
| "is_object (PModel c fs) = True"
| "is_object v = False"

definition call_method :: "host \<Rightarrow> pyval \<Rightarrow> string \<Rightarrow> pyval list \<Rightarrow> dict \<Rightarrow> pyval action" where
  "call_method h obj m args kw =
     (if is_object obj then widget h (Obj obj) m args kw else throw AttributeError)"

text \<open>
  \<^verbatim>\<open>with cm: body\<close>: \<^verbatim>\<open>__enter__\<close>, the body, \<^verbatim>\<open>__exit__\<close>, which is called when the
  body raises too. The context managers of the host (a column, a container, a spinner)
  do not swallow an exception: after \<^verbatim>\<open>__exit__\<close> the outcome of the body stands.
\<close>

definition with_cm :: "host \<Rightarrow> pyval \<Rightarrow> 'a action \<Rightarrow> 'a action" where
  "with_cm h cm body =
     (if is_object cm then
        seq (widget h (Obj cm) ''__enter__'' [] []) (\<lambda>_. \<lambda>s.
          case body s of
            (r, s') \<Rightarrow>
              (case widget h (Obj cm) ''__exit__'' [] [] s' of
                 (Inl e, s'') \<Rightarrow> (Inl e, s'')
               | (Inr _, s'') \<Rightarrow> (r, s'')))
      else throw TypeError)"

section \<open>The input widgets\<close>

text \<open>
  \<^verbatim>\<open>_get_default_streamlit_input_kwargs\<close>: the keyword arguments every input widget
  starts from. \<open>rid\<close> is the run id of the session.
\<close>

definition default_kwargs :: "lib \<Rightarrow> pyval \<Rightarrow> string \<Rightarrow> dict \<Rightarrow> exn + dict" where
  "default_kwargs lib rid key property =
     ebind (py_str lib rid) (\<lambda>r.
       let streamlit_kwargs =
             [(''label'', prop_get property ''title''), (''key'', PStr (r @ ''-'' @ key))]
       in if py_truthy (prop_get property ''description'')
          then Inr (dict_set ''help'' (prop_get property ''description'') streamlit_kwargs)
          else Inr streamlit_kwargs)"

definition get_default_streamlit_input_kwargs :: "lib \<Rightarrow> string \<Rightarrow> dict \<Rightarrow> dict action" where
  "get_default_streamlit_input_kwargs lib key property =
     (\<lambda>s. (default_kwargs lib (run_id s) key property, s))"

text \<open>
  \<^verbatim>\<open>_render_single_number_input\<close>, up to the choice of the widget: the keyword
  arguments it builds. \<open>number_transform\<close> is \<^verbatim>\<open>float\<close> for the type
  \<^verbatim>\<open>"number"\<close> and \<^verbatim>\<open>int\<close> otherwise.
\<close>

definition number_transform :: "lib \<Rightarrow> dict \<Rightarrow> pyval \<Rightarrow> exn + pyval" where
  "number_transform lib property =
     (if prop_get property ''type'' = PStr ''number'' then py_float lib else py_int lib)"

text \<open>
  The blocks of \<^verbatim>\<open>_render_single_number_input\<close>, in the order of the source.
  \<^item> \<open>set_format\<close>: \<^verbatim>\<open>if property.get("type") == "number": kwargs["format"] = "%f"\<close>.
  \<^item> \<open>set_step\<close>: the step is the transformed \<^verbatim>\<open>multipleOf\<close> when the key is
    there, else 1 for \<^verbatim>\<open>int\<close> and 0.01 for \<^verbatim>\<open>float\<close>.
  \<^item> \<open>set_bound name arg\<close>:
    \<^verbatim>\<open>if name in property: kwargs[arg] = number_transform(property[name])\<close>.
  \<^item> \<open>set_exclusive_bound name arg op\<close>:
    \<^verbatim>\<open>if name in property: kwargs[arg] = number_transform(property[name] op kwargs["step"])\<close>.
  \<^item> \<open>set_value\<close>: the initial value.
\<close>

definition set_format :: "dict \<Rightarrow> dict \<Rightarrow> exn + dict" where
  "set_format property kw =
     (if prop_get property ''type'' = PStr ''number''
      then Inr (dict_set ''format'' (PStr ''%f'') kw) else Inr kw)"

definition set_step :: "lib \<Rightarrow> dict \<Rightarrow> dict \<Rightarrow> exn + dict" where
  "set_step lib property kw =
     (if dict_has property ''multipleOf'' then
        ebind (dict_item property ''multipleOf'') (\<lambda>m.
        ebind (number_transform lib property m) (\<lambda>v. Inr (dict_set ''step'' v kw)))
      else if prop_get property ''type'' \<noteq> PStr ''number'' then
        Inr (dict_set ''step'' (PInt 1) kw)
      else Inr (dict_set ''step'' (PFloat float_0_01) kw))"

definition set_bound :: "lib \<Rightarrow> dict \<Rightarrow> string \<Rightarrow> string \<Rightarrow> dict \<Rightarrow> exn + dict" where
  "set_bound lib property name arg kw =
     (if dict_has property name then
        ebind (dict_item property name) (\<lambda>m.
        ebind (number_transform lib property m) (\<lambda>v. Inr (dict_set arg v kw)))
      else Inr kw)"

definition set_exclusive_bound ::
  "lib \<Rightarrow> dict \<Rightarrow> string \<Rightarrow> string \<Rightarrow> (lib \<Rightarrow> pyval \<Rightarrow> pyval \<Rightarrow> exn + pyval) \<Rightarrow> dict \<Rightarrow> exn + dict" where
  "set_exclusive_bound lib property name arg op kw =
     (if dict_has property name then
        ebind (dict_item property name) (\<lambda>m.
        ebind (dict_item kw ''step'') (\<lambda>st.
        ebind (op lib m st) (\<lambda>x.
        ebind (number_transform lib property x) (\<lambda>v. Inr (dict_set arg v kw)))))
      else Inr kw)"

definition set_value :: "lib \<Rightarrow> dict \<Rightarrow> dict \<Rightarrow> exn + dict" where
  "set_value lib property kw =
     (if prop_get property ''default'' \<noteq> PNone then
        ebind (number_transform lib property (prop_get property ''default'')) (\<lambda>v.
          Inr (dict_set ''value'' v kw))
      else if dict_has kw ''min_value'' then
        ebind (dict_item kw ''min_value'') (\<lambda>v. Inr (dict_set ''value'' v kw))
      else if prop_get property ''type'' \<noteq> PStr ''number'' then
        Inr (dict_set ''value'' (PInt 0) kw)
      else
        ebind (dict_item kw ''step'') (\<lambda>st.
        ebind (number_transform lib property st) (\<lambda>v. Inr (dict_set ''value'' v kw))))"

definition number_input_kwargs :: "lib \<Rightarrow> pyval \<Rightarrow> string \<Rightarrow> dict \<Rightarrow> exn + dict" where
  "number_input_kwargs lib rid key property =
     ebind (default_kwargs lib rid key property) (\<lambda>kw0.
     ebind (set_format property kw0) (\<lambda>kw1.
     ebind (set_step lib property kw1) (\<lambda>kw2.
     ebind (set_bound lib property ''minimum'' ''min_value'' kw2) (\<lambda>kw3.
     ebind (set_exclusive_bound lib property ''exclusiveMinimum'' ''min_value'' py_add kw3) (\<lambda>kw4.
     ebind (set_bound lib property ''maximum'' ''max_value'' kw4) (\<lambda>kw5.
     ebind (set_exclusive_bound lib property ''exclusiveMaximum'' ''max_value'' py_sub kw5) (\<lambda>kw6.
     set_value lib property kw6)))))))"

definition render_single_number_input ::
  "lib \<Rightarrow> host \<Rightarrow> receiver \<Rightarrow> string \<Rightarrow> dict \<Rightarrow> pyval action" where
  "render_single_number_input lib h streamlit_app key property =
     seq (\<lambda>s. (number_input_kwargs lib (run_id s) key property, s)) (\<lambda>streamlit_kwargs.
       if dict_has streamlit_kwargs ''min_value'' \<and> dict_has streamlit_kwargs ''max_value''
       then widget h streamlit_app ''slider'' [] streamlit_kwargs
       else widget h streamlit_app ''number_input'' [] streamlit_kwargs)"

text \<open>A library in which every function raises: for the runs that never consult it.\<close>

definition no_lib :: lib where
  "no_lib f args = Inl (OtherError ''library'')"

section \<open>The schema helpers and the input class\<close>

text \<open>
  The module \<^verbatim>\<open>schema_utils\<close> is not part of this file: its shape tests and its two
  resolvers are parameters. A shape test answers for a property (some of them also look
  at the definitions of the schema); a resolver returns the dict a reference stands
  for, or raises.
\<close>

record schema_utils =
  is_single_enum_property :: "dict \<Rightarrow> pyval \<Rightarrow> bool"
  is_multi_enum_property :: "dict \<Rightarrow> pyval \<Rightarrow> bool"
  is_single_file_property :: "dict \<Rightarrow> bool"
  is_multi_file_property :: "dict \<Rightarrow> bool"
  is_single_datetime_property :: "dict \<Rightarrow> bool"
  is_single_boolean_property :: "dict \<Rightarrow> bool"
  is_single_dict_property :: "dict \<Rightarrow> bool"
  is_single_number_property :: "dict \<Rightarrow> bool"
  is_single_string_property :: "dict \<Rightarrow> bool"
  is_single_object :: "dict \<Rightarrow> pyval \<Rightarrow> bool"
  is_object_list_property :: "dict \<Rightarrow> pyval \<Rightarrow> bool"
  is_property_list :: "dict \<Rightarrow> bool"
  is_single_reference :: "dict \<Rightarrow> bool"
  resolve_reference :: "pyval \<Rightarrow> pyval \<Rightarrow> exn + dict"
  get_single_reference_item :: "dict \<Rightarrow> pyval \<Rightarrow> exn + dict"

text \<open>
  The input class of the operation, a pydantic model class: the schema it reports (with
  aliases) and, when the class has one, its own \<^verbatim>\<open>render_input_ui\<close>, which is user code
  that draws on the host and returns a model instance.
\<close>

record input_class =
  class_schema :: dict
  render_input_ui :: "(host \<Rightarrow> pyval \<Rightarrow> pyval action) option"

text \<open>
  \<^verbatim>\<open>InputUI\<close>: the object holds the library and the schema helpers it calls, and what
  \<^verbatim>\<open>__init__\<close> reads from the schema.
\<close>

record input_ui =
  library :: lib
  utils :: schema_utils
  input_cls :: input_class
  schema_properties :: pyval
  schema_references :: pyval

definition dict_get_default :: "dict \<Rightarrow> string \<Rightarrow> pyval \<Rightarrow> pyval" where
  "dict_get_default d k dflt = (case dict_get d k of None \<Rightarrow> dflt | Some v \<Rightarrow> v)"

definition new_input_ui :: "lib \<Rightarrow> schema_utils \<Rightarrow> input_class \<Rightarrow> input_ui" where
  "new_input_ui lb su cls =
     \<lparr>library = lb, utils = su, input_cls = cls,
      schema_properties = dict_get_default (class_schema cls) ''properties'' (PDict []),
      schema_references = dict_get_default (class_schema cls) ''definitions'' (PDict [])\<rparr>"

definition has_input_ui_renderer :: "input_class \<Rightarrow> bool" where
  "has_input_ui_renderer cls = (render_input_ui cls \<noteq> None)"

definition is_compatible_audio :: "pyval \<Rightarrow> bool" where
  "is_compatible_audio mime_type =
     (mime_type \<in> set [PStr ''audio/mpeg'', PStr ''audio/ogg'', PStr ''audio/wav''])"

definition is_compatible_image :: "pyval \<Rightarrow> bool" where
  "is_compatible_image mime_type = (mime_type \<in> set [PStr ''image/png'', PStr ''image/jpeg''])"

definition is_compatible_video :: "pyval \<Rightarrow> bool" where
  "is_compatible_video mime_type = (mime_type \<in> set [PStr ''video/mp4''])"

subsection \<open>The session input data, from inside an action\<close>

definition store_value_act :: "string \<Rightarrow> pyval \<Rightarrow> unit action" where
  "store_value_act key v =
     (\<lambda>s. case store_value (input_data s) key v of (r, d) \<Rightarrow> (r, s\<lparr>input_data := d\<rparr>))"

definition get_value_act :: "string \<Rightarrow> pyval action" where
  "get_value_act key =
     (\<lambda>s. case get_value (input_data s) key of (r, d) \<Rightarrow> (r, s\<lparr>input_data := d\<rparr>))"

text \<open>
  What \<^verbatim>\<open>_get_value\<close> returns is the stored object itself, not a copy. The renderers
  of a dict and of a list keep it in a local variable and change it in place
  (\<^verbatim>\<open>current_dict[k] = v\<close>, \<^verbatim>\<open>current_list.append(v)\<close>), which changes the session
  input data before anything is stored. The local variable is therefore either
  \<open>Stored\<close>, the object found under the key in the session input data, or a \<open>Fresh\<close>
  value that only the renderer holds. Reading a \<open>Stored\<close> variable reads the session
  input data under the key; changing it writes there. (No two places of the session
  input data hold the same object: the model is a tree.)
\<close>

datatype local_ref = Stored | Fresh pyval

definition deref :: "string \<Rightarrow> local_ref \<Rightarrow> pyval action" where
  "deref key cur =
     (case cur of
        Fresh v \<Rightarrow> ret v
      | Stored \<Rightarrow>
          (\<lambda>s. (Inr (case lookup_path (input_data s) (str_split key) of
                         None \<Rightarrow> PNone | Some v \<Rightarrow> v), s)))"

definition assign :: "string \<Rightarrow> local_ref \<Rightarrow> pyval \<Rightarrow> local_ref action" where
  "assign key cur v =
     (case cur of
        Fresh _ \<Rightarrow> ret (Fresh v)
      | Stored \<Rightarrow> (\<lambda>s. (Inr Stored, s\<lparr>input_data := snd (store_value (input_data s) key v)\<rparr>)))"

text \<open>
  A dict of the model is keyed by strings, and the key typed into a text input is a
  string; another value as a key is refused.
\<close>

fun key_of :: "pyval \<Rightarrow> exn + string" where
  "key_of (PStr k) = Inr k"
| "key_of v = Inl TypeError"

text \<open>\<^verbatim>\<open>current_dict[k] = v\<close>.\<close>

definition set_item :: "string \<Rightarrow> local_ref \<Rightarrow> pyval \<Rightarrow> pyval \<Rightarrow> local_ref action" where
  "set_item key cur k v =
     seq (deref key cur) (\<lambda>d.
     seq (lift (ebind (key_of k) (\<lambda>ks. py_setitem d ks v))) (\<lambda>d'.
     assign key cur d'))"

text \<open>\<^verbatim>\<open>current_list.append(v)\<close>: only a list has the method.\<close>

fun py_append :: "pyval \<Rightarrow> pyval \<Rightarrow> exn + pyval" where
  "py_append (PList xs) v = Inr (PList (xs @ [v]))"
| "py_append d v = Inl AttributeError"

definition append_item :: "string \<Rightarrow> local_ref \<Rightarrow> pyval \<Rightarrow> local_ref action" where
  "append_item key cur v =
     seq (deref key cur) (\<lambda>d.
     seq (lift (py_append d v)) (\<lambda>d'.
     assign key cur d'))"

subsection \<open>The renderers of one property\<close>

text \<open>
  \<^verbatim>\<open>if property.get("default"): try: kwargs["value"] = parse(property.get("default"))
  except Exception: pass\<close>, the block the three date and time formats share.
\<close>

definition default_from_iso :: "lib \<Rightarrow> libfn \<Rightarrow> dict \<Rightarrow> dict \<Rightarrow> dict action" where
  "default_from_iso lb parse property streamlit_kwargs =
     (if py_truthy (prop_get property ''default'') then
        attempt
          (lift (ebind (lb parse [prop_get property ''default''])
             (\<lambda>v. Inr (dict_set ''value'' v streamlit_kwargs))))
          (\<lambda>e. ret streamlit_kwargs)
      else ret streamlit_kwargs)"

text \<open>
  \<^verbatim>\<open>if streamlit_kwargs.get("value"): try: kwargs["value"] = streamlit_kwargs.get("value").part()
  except Exception: pass\<close>, for the date and the time of a date-time.
\<close>

definition part_of_value :: "lib \<Rightarrow> libfn \<Rightarrow> dict \<Rightarrow> dict \<Rightarrow> dict action" where
  "part_of_value lb part streamlit_kwargs part_kwargs =
     (if py_truthy (prop_get streamlit_kwargs ''value'') then
        attempt
          (lift (ebind (lb part [prop_get streamlit_kwargs ''value''])
             (\<lambda>v. Inr (dict_set ''value'' v part_kwargs))))
          (\<lambda>e. ret part_kwargs)
      else ret part_kwargs)"

definition render_single_datetime_input ::
  "input_ui \<Rightarrow> host \<Rightarrow> receiver \<Rightarrow> string \<Rightarrow> dict \<Rightarrow> pyval action" where
  "render_single_datetime_input ui h streamlit_app key property =
     seq (get_default_streamlit_input_kwargs (library ui) key property) (\<lambda>kw.
       if prop_get property ''format'' = PStr ''time'' then
         seq (default_from_iso (library ui) TimeFromIso property kw) (\<lambda>streamlit_kwargs.
           widget h streamlit_app ''time_input'' [] streamlit_kwargs)
       else if prop_get property ''format'' = PStr ''date'' then
         seq (default_from_iso (library ui) DateFromIso property kw) (\<lambda>streamlit_kwargs.
           widget h streamlit_app ''date_input'' [] streamlit_kwargs)
       else if prop_get property ''format'' = PStr ''date-time'' then
         seq (default_from_iso (library ui) DatetimeFromIso property kw) (\<lambda>streamlit_kwargs.
         seq (widget h St ''beta_container'' [] []) (\<lambda>container.
         with_cm h container
           (seq (widget h St ''subheader'' [prop_get streamlit_kwargs ''label''] []) (\<lambda>_.
            seq (if py_truthy (prop_get streamlit_kwargs ''description'')
                 then widget h St ''text'' [prop_get streamlit_kwargs ''description''] []
                 else ret PNone) (\<lambda>_.
            seq (widget h St ''beta_columns'' [PInt 2] []) (\<lambda>cols.
            seq (lift (unpack2 cols)) (\<lambda>(date_col, time_col).
            seq (with_cm h date_col
                   (seq (part_of_value (library ui) DateOf streamlit_kwargs
                           [(''label'', PStr ''Date''), (''key'', PStr (key @ ''-date-input''))])
                      (\<lambda>date_kwargs. widget h St ''date_input'' [] date_kwargs))) (\<lambda>selected_date.
            seq (with_cm h time_col
                   (seq (part_of_value (library ui) TimeOf streamlit_kwargs
                           [(''label'', PStr ''Time''), (''key'', PStr (key @ ''-time-input''))])
                      (\<lambda>time_kwargs. widget h St ''time_input'' [] time_kwargs))) (\<lambda>selected_time.
            lift (library ui DatetimeCombine [selected_date, selected_time]))))))))))
       else
         seq (lift (py_str (library ui) (prop_get property ''format''))) (\<lambda>fmt.
         seq (widget h streamlit_app ''warning''
                [PStr (''Date format is not supported: '' @ fmt)] []) (\<lambda>_.
         ret PNone)))"

text \<open>
  \<^verbatim>\<open>file_extension = None; if "mime_type" in property: file_extension =
  mimetypes.guess_extension(property["mime_type"])\<close>.
\<close>

definition guess_file_extension :: "lib \<Rightarrow> dict \<Rightarrow> exn + pyval" where
  "guess_file_extension lb property =
     (if dict_has property ''mime_type''
      then ebind (dict_item property ''mime_type'') (\<lambda>m. lb GuessExtension [m])
      else Inr PNone)"

definition render_single_file_input ::
  "input_ui \<Rightarrow> host \<Rightarrow> receiver \<Rightarrow> string \<Rightarrow> dict \<Rightarrow> pyval action" where
  "render_single_file_input ui h streamlit_app key property =
     seq (get_default_streamlit_input_kwargs (library ui) key property) (\<lambda>streamlit_kwargs.
     seq (lift (guess_file_extension (library ui) property)) (\<lambda>file_extension.
     seq (widget h streamlit_app ''file_uploader'' []
            (dict_set ''type'' file_extension
               (dict_set ''accept_multiple_files'' (PBool False) streamlit_kwargs))) (\<lambda>uploaded_file.
       if uploaded_file = PNone then ret PNone
       else
         seq (call_method h uploaded_file ''getvalue'' [] []) (\<lambda>bytes.
         seq (if py_truthy (prop_get property ''mime_type'') then
                seq (lift (dict_item property ''mime_type'')) (\<lambda>mime_type.
                seq (if is_compatible_audio mime_type
                     then widget h streamlit_app ''audio'' [bytes]
                            [(''format'', prop_get property ''mime_type'')]
                     else ret PNone) (\<lambda>_.
                seq (if is_compatible_image mime_type
                     then widget h streamlit_app ''image'' [bytes] []
                     else ret PNone) (\<lambda>_.
                if is_compatible_video mime_type
                then widget h streamlit_app ''video'' [bytes]
                       [(''format'', prop_get property ''mime_type'')]
                else ret PNone)))
              else ret PNone) (\<lambda>_.
         ret bytes)))))"

text \<open>
  The test of \<^verbatim>\<open>_render_single_string_input\<close> for a single-line input:
  \<^verbatim>\<open>format or (maxLength is not None and int(maxLength) < 140) or writeOnly\<close>.
\<close>

definition wants_text_input :: "lib \<Rightarrow> dict \<Rightarrow> exn + bool" where
  "wants_text_input lb property =
     (if py_truthy (prop_get property ''format'') then Inr True
      else if prop_get property ''maxLength'' \<noteq> PNone then
        ebind (py_int lb (prop_get property ''maxLength'')) (\<lambda>n.
          case n of
            PInt i \<Rightarrow> (if i < 140 then Inr True else Inr (py_truthy (prop_get property ''writeOnly'')))
          | _ \<Rightarrow> Inl TypeError)
      else Inr (py_truthy (prop_get property ''writeOnly'')))"

definition render_single_string_input ::
  "input_ui \<Rightarrow> host \<Rightarrow> receiver \<Rightarrow> string \<Rightarrow> dict \<Rightarrow> pyval action" where
  "render_single_string_input ui h streamlit_app key property =
     seq (get_default_streamlit_input_kwargs (library ui) key property) (\<lambda>kw0.
       let kw1 = (if py_truthy (prop_get property ''default'')
                  then dict_set ''value'' (prop_get property ''default'') kw0
                  else if py_truthy (prop_get property ''example'')
                  then dict_set ''value'' (prop_get property ''example'') kw0
                  else kw0);
           streamlit_kwargs = (if prop_get property ''maxLength'' \<noteq> PNone
                  then dict_set ''max_chars'' (prop_get property ''maxLength'') kw1
                  else kw1)
       in
       seq (lift (wants_text_input (library ui) property)) (\<lambda>single.
         if single then
           widget h streamlit_app ''text_input'' []
             (if py_truthy (prop_get property ''writeOnly'')
              then dict_set ''type'' (PStr ''password'') streamlit_kwargs
              else streamlit_kwargs)
         else widget h streamlit_app ''text_area'' [] streamlit_kwargs))"

text \<open>\<^verbatim>\<open>schema_utils.resolve_reference(property["items"]["$ref"], references)\<close>.\<close>

definition resolve_items_reference :: "input_ui \<Rightarrow> dict \<Rightarrow> exn + dict" where
  "resolve_items_reference ui property =
     ebind (dict_item property ''items'') (\<lambda>items.
     ebind (py_getitem items ''$ref'') (\<lambda>ref.
     resolve_reference (utils ui) ref (schema_references ui)))"

definition render_multi_enum_input ::
  "input_ui \<Rightarrow> host \<Rightarrow> receiver \<Rightarrow> string \<Rightarrow> dict \<Rightarrow> pyval action" where
  "render_multi_enum_input ui h streamlit_app key property =
     seq (get_default_streamlit_input_kwargs (library ui) key property) (\<lambda>streamlit_kwargs.
     seq (lift (resolve_items_reference ui property)) (\<lambda>reference_item.
     seq (lift (dict_item reference_item ''enum'')) (\<lambda>options.
     widget h streamlit_app ''multiselect'' [] (dict_set ''options'' options streamlit_kwargs))))"

definition render_single_enum_input ::
  "input_ui \<Rightarrow> host \<Rightarrow> receiver \<Rightarrow> string \<Rightarrow> dict \<Rightarrow> pyval action" where
  "render_single_enum_input ui h streamlit_app key property =
     seq (get_default_streamlit_input_kwargs (library ui) key property) (\<lambda>kw.
     seq (lift (get_single_reference_item (utils ui) property (schema_references ui))) (\<lambda>reference_item.
     seq (if prop_get property ''default'' \<noteq> PNone then
            attempt
              (lift (ebind (dict_item reference_item ''enum'') (\<lambda>enum.
                     ebind (library ui ListIndex [enum, prop_get property ''default'']) (\<lambda>i.
                     Inr (dict_set ''index'' i kw)))))
              (\<lambda>e. ret kw)
          else ret kw) (\<lambda>streamlit_kwargs.
     seq (lift (dict_item reference_item ''enum'')) (\<lambda>options.
     widget h streamlit_app ''selectbox'' [] (dict_set ''options'' options streamlit_kwargs)))))"

text \<open>
  The value input that the dict renderer and the list renderer share: a number input
  starting at 0 for \<^verbatim>\<open>"integer"\<close>, one starting at 0.0 with the format \<^verbatim>\<open>"%f"\<close> for
  \<^verbatim>\<open>"number"\<close>, a text input otherwise.
\<close>

definition new_value_input :: "host \<Rightarrow> receiver \<Rightarrow> string \<Rightarrow> pyval \<Rightarrow> pyval action" where
  "new_value_input h streamlit_app key item_type =
     (if item_type = PStr ''integer'' then
        widget h streamlit_app ''number_input'' []
          [(''label'', PStr ''Value''), (''key'', PStr (key @ ''-new-value'')), (''value'', PInt 0)]
      else if item_type = PStr ''number'' then
        widget h streamlit_app ''number_input'' []
          [(''label'', PStr ''Value''), (''key'', PStr (key @ ''-new-value'')),
           (''value'', PFloat float_0), (''format'', PStr ''%f'')]
      else
        widget h streamlit_app ''text_input'' []
          [(''label'', PStr ''Value''), (''key'', PStr (key @ ''-new-value'')), (''value'', PStr [])])"

text \<open>The title, the description when there is one, and a rule.\<close>

definition render_heading :: "host \<Rightarrow> receiver \<Rightarrow> dict \<Rightarrow> unit action" where
  "render_heading h streamlit_app property =
     seq (widget h streamlit_app ''subheader'' [prop_get property ''title''] []) (\<lambda>_.
     seq (if py_truthy (prop_get property ''description'')
          then widget h streamlit_app ''markdown'' [prop_get property ''description''] []
          else ret PNone) (\<lambda>_.
     ret ()))"

definition render_rule :: "host \<Rightarrow> receiver \<Rightarrow> unit action" where
  "render_rule h streamlit_app =
     seq (widget h streamlit_app ''markdown'' [PStr ''---''] []) (\<lambda>_. ret ())"

text \<open>
  \<^verbatim>\<open>current = self._get_value(key); if not current: current = fresh\<close>.
\<close>

definition current_or :: "string \<Rightarrow> pyval \<Rightarrow> local_ref action" where
  "current_or key fresh =
     seq (get_value_act key) (\<lambda>v. ret (if py_truthy v then Stored else Fresh fresh))"

text \<open>
  The block of the two buttons, the same in the renderers of a dict, of a list of values
  and of a list of objects: inside a container with two columns, \<^verbatim>\<open>Clear Items\<close>
  replaces the current collection by a fresh empty one, and \<^verbatim>\<open>Add Item\<close>, when it is
  pressed and the renderer's own condition holds, adds to the current collection in
  place.
\<close>

definition item_buttons ::
  "host \<Rightarrow> receiver \<Rightarrow> string \<Rightarrow> local_ref \<Rightarrow> pyval \<Rightarrow> bool \<Rightarrow>
   (local_ref \<Rightarrow> local_ref action) \<Rightarrow> local_ref action" where
  "item_buttons h streamlit_app key current0 fresh cond add =
     seq (widget h streamlit_app ''beta_container'' [] []) (\<lambda>container.
     with_cm h container
       (seq (widget h streamlit_app ''beta_columns'' [PList [PInt 1, PInt 2]] []) (\<lambda>cols.
        seq (lift (unpack2 cols)) (\<lambda>(clear_col, add_col).
        seq (with_cm h clear_col
               (seq (widget h streamlit_app ''button'' [PStr ''Clear Items'']
                       [(''key'', PStr (key @ ''-clear-items''))]) (\<lambda>pressed.
                ret (if py_truthy pressed then Fresh fresh else current0)))) (\<lambda>current1.
        with_cm h add_col
          (seq (widget h streamlit_app ''button'' [PStr ''Add Item'']
                  [(''key'', PStr (key @ ''-add-item''))]) (\<lambda>pressed.
           if py_truthy pressed \<and> cond then add current1 else ret current1)))))))"

text \<open>\<^verbatim>\<open>streamlit_app.write(current); return current\<close>.\<close>

definition write_current :: "host \<Rightarrow> receiver \<Rightarrow> string \<Rightarrow> local_ref \<Rightarrow> pyval action" where
  "write_current h streamlit_app key current =
     seq (deref key current) (\<lambda>v.
     seq (widget h streamlit_app ''write'' [v] []) (\<lambda>_.
     ret v))"

definition render_single_dict_input ::
  "input_ui \<Rightarrow> host \<Rightarrow> receiver \<Rightarrow> string \<Rightarrow> dict \<Rightarrow> pyval action" where
  "render_single_dict_input ui h streamlit_app key property =
     seq (render_heading h streamlit_app property) (\<lambda>_.
     seq (render_rule h streamlit_app) (\<lambda>_.
     seq (current_or key (PDict [])) (\<lambda>current0.
     seq (widget h streamlit_app ''beta_columns'' [PInt 2] []) (\<lambda>cols.
     seq (lift (unpack2 cols)) (\<lambda>(key_col, value_col).
     seq (with_cm h key_col
            (widget h streamlit_app ''text_input'' [PStr ''Key'']
               [(''value'', PStr []), (''key'', PStr (key @ ''-new-key''))])) (\<lambda>updated_key.
     seq (with_cm h value_col
            (seq (lift (ebind (dict_item property ''additionalProperties'')
                          (\<lambda>ap. py_get ap ''type''))) (\<lambda>item_type.
             new_value_input h streamlit_app key item_type))) (\<lambda>updated_value.
     seq (render_rule h streamlit_app) (\<lambda>_.
     seq (item_buttons h streamlit_app key current0 (PDict []) (py_truthy updated_key)
            (\<lambda>current1. set_item key current1 updated_key updated_value)) (\<lambda>current_dict.
     write_current h streamlit_app key current_dict)))))))))"

definition render_single_boolean_input ::
  "input_ui \<Rightarrow> host \<Rightarrow> receiver \<Rightarrow> string \<Rightarrow> dict \<Rightarrow> pyval action" where
  "render_single_boolean_input ui h streamlit_app key property =
     seq (get_default_streamlit_input_kwargs (library ui) key property) (\<lambda>kw.
       widget h streamlit_app ''checkbox'' []
         (if py_truthy (prop_get property ''default'')
          then dict_set ''value'' (prop_get property ''default'') kw else kw))"

text \<open>\<^verbatim>\<open>for uploaded_file in uploaded_files: bytes.append(uploaded_file.read())\<close>.\<close>

fun read_files :: "host \<Rightarrow> pyval list \<Rightarrow> pyval list action" where
  "read_files h [] = ret []"
| "read_files h (uploaded_file # files) =
     seq (call_method h uploaded_file ''read'' [] []) (\<lambda>b.
     seq (read_files h files) (\<lambda>bs. ret (b # bs)))"

definition render_multi_file_input ::
  "input_ui \<Rightarrow> host \<Rightarrow> receiver \<Rightarrow> string \<Rightarrow> dict \<Rightarrow> pyval action" where
  "render_multi_file_input ui h streamlit_app key property =
     seq (get_default_streamlit_input_kwargs (library ui) key property) (\<lambda>streamlit_kwargs.
     seq (lift (guess_file_extension (library ui) property)) (\<lambda>file_extension.
     seq (widget h streamlit_app ''file_uploader'' []
            (dict_set ''type'' file_extension
               (dict_set ''accept_multiple_files'' (PBool True) streamlit_kwargs))) (\<lambda>uploaded_files.
       if py_truthy uploaded_files then
         seq (lift (py_iter uploaded_files)) (\<lambda>files.
         seq (read_files h files) (\<lambda>uploaded_files_bytes. ret (PList uploaded_files_bytes)))
       else ret (PList []))))"


definition render_property_list_input ::
  "input_ui \<Rightarrow> host \<Rightarrow> receiver \<Rightarrow> string \<Rightarrow> dict \<Rightarrow> pyval action" where
  "render_property_list_input ui h streamlit_app key property =
     seq (render_heading h streamlit_app property) (\<lambda>_.
     seq (render_rule h streamlit_app) (\<lambda>_.
     seq (current_or key (PList [])) (\<lambda>current0.
     seq (lift (ebind (dict_item property ''items'') (\<lambda>items. py_getitem items ''type''))) (\<lambda>item_type.
     seq (new_value_input h streamlit_app key item_type) (\<lambda>new_value.
     seq (render_rule h streamlit_app) (\<lambda>_.
     seq (item_buttons h streamlit_app key current0 (PList []) (new_value \<noteq> PNone)
            (\<lambda>current1. append_item key current1 new_value)) (\<lambda>current_list.
     write_current h streamlit_app key current_list)))))))"

text \<open>
  \<^verbatim>\<open>if not property.get("title"): property["title"] = name_to_title(property_key)\<close>.
  The assignment changes the property inside the schema; within a run only the renderer
  that is handed the property reads it again, so the changed property is passed on.
\<close>

definition title_fallback :: "lib \<Rightarrow> string \<Rightarrow> dict \<Rightarrow> exn + dict" where
  "title_fallback lb property_key property =
     (if \<not> py_truthy (prop_get property ''title'')
      then ebind (lb NameToTitle [PStr property_key]) (\<lambda>t. Inr (dict_set ''title'' t property))
      else Inr property)"

text \<open>
  The renderers that render properties inside a property take \<^verbatim>\<open>_render_property\<close>
  as \<open>rp\<close>. The loop of \<^verbatim>\<open>_render_object_input\<close> collects the values of the
  properties of an object under their keys; the key of an inner property is the key of
  the object, a dot, and its own key.
\<close>

fun render_object_properties ::
  "lib \<Rightarrow> (receiver \<Rightarrow> string \<Rightarrow> dict \<Rightarrow> pyval action) \<Rightarrow> receiver \<Rightarrow> string \<Rightarrow> pyval \<Rightarrow>
   string list \<Rightarrow> dict \<Rightarrow> pyval action" where
  "render_object_properties lb rp streamlit_app key properties [] object_inputs =
     ret (PDict object_inputs)"
| "render_object_properties lb rp streamlit_app key properties (property_key # rest) object_inputs =
     seq (lift (ebind (py_getitem properties property_key) as_dict)) (\<lambda>property0.
     seq (lift (title_fallback lb property_key property0)) (\<lambda>property.
     seq (rp streamlit_app (key @ ''.'' @ property_key) property) (\<lambda>v.
     render_object_properties lb rp streamlit_app key properties rest
       (dict_set property_key v object_inputs))))"

definition render_object_input ::
  "lib \<Rightarrow> (receiver \<Rightarrow> string \<Rightarrow> dict \<Rightarrow> pyval action) \<Rightarrow> receiver \<Rightarrow> string \<Rightarrow> dict \<Rightarrow>
   pyval action" where
  "render_object_input lb rp streamlit_app key property =
     seq (lift (dict_item property ''properties'')) (\<lambda>properties.
       case properties of
         PDict kvs \<Rightarrow>
           render_object_properties lb rp streamlit_app key properties (map fst kvs) []
       | _ \<Rightarrow>
           seq (lift (py_iter properties)) (\<lambda>xs.
             if xs = [] then ret (PDict []) else throw TypeError))"

definition render_single_object_input ::
  "input_ui \<Rightarrow> (receiver \<Rightarrow> string \<Rightarrow> dict \<Rightarrow> pyval action) \<Rightarrow> host \<Rightarrow> receiver \<Rightarrow> string \<Rightarrow>
   dict \<Rightarrow> pyval action" where
  "render_single_object_input ui rp h streamlit_app key property =
     seq (render_heading h streamlit_app property) (\<lambda>_.
     seq (lift (get_single_reference_item (utils ui) property (schema_references ui))) (\<lambda>object_reference.
     render_object_input (library ui) rp streamlit_app key object_reference))"

definition render_single_reference ::
  "input_ui \<Rightarrow> (receiver \<Rightarrow> string \<Rightarrow> dict \<Rightarrow> pyval action) \<Rightarrow> receiver \<Rightarrow> string \<Rightarrow> dict \<Rightarrow>
   pyval action" where
  "render_single_reference ui rp streamlit_app key property =
     seq (lift (get_single_reference_item (utils ui) property (schema_references ui))) (\<lambda>reference_item.
     rp streamlit_app key reference_item)"

definition render_object_list_input ::
  "input_ui \<Rightarrow> (receiver \<Rightarrow> string \<Rightarrow> dict \<Rightarrow> pyval action) \<Rightarrow> host \<Rightarrow> receiver \<Rightarrow> string \<Rightarrow>
   dict \<Rightarrow> pyval action" where
  "render_object_list_input ui rp h streamlit_app key property =
     seq (render_heading h streamlit_app property) (\<lambda>_.
     seq (render_rule h streamlit_app) (\<lambda>_.
     seq (current_or key (PList [])) (\<lambda>current0.
     seq (lift (resolve_items_reference ui property)) (\<lambda>object_reference.
     seq (render_object_input (library ui) rp streamlit_app key object_reference) (\<lambda>input_data.
     seq (render_rule h streamlit_app) (\<lambda>_.
     seq (item_buttons h streamlit_app key current0 (PList []) (py_truthy input_data)
            (\<lambda>current1. append_item key current1 input_data)) (\<lambda>current_list.
     write_current h streamlit_app key current_list)))))))"

text \<open>
  The end of \<^verbatim>\<open>_render_property\<close>, reached when no shape test holds: a warning that
  names the property, then \<^verbatim>\<open>raise Exception("Unsupported property")\<close>.
\<close>

definition unsupported_property :: "lib \<Rightarrow> host \<Rightarrow> receiver \<Rightarrow> dict \<Rightarrow> pyval action" where
  "unsupported_property lb h streamlit_app property =
     seq (lift (py_str lb (prop_get property ''title''))) (\<lambda>title.
     seq (widget h streamlit_app ''warning''
            [PStr (''The type of the following property is currently not supported: '' @ title)]
            []) (\<lambda>_.
     throw UnsupportedProperty))"

text \<open>
  \<^verbatim>\<open>_render_property\<close>. The first argument bounds the depth of the calls of
  \<^verbatim>\<open>_render_property\<close> inside one another: a schema may refer to itself, and the
  interpreter ends a recursion that is too deep with \<^verbatim>\<open>RecursionError\<close>.
\<close>

fun render_property ::
  "input_ui \<Rightarrow> host \<Rightarrow> nat \<Rightarrow> receiver \<Rightarrow> string \<Rightarrow> dict \<Rightarrow> pyval action" where
  "render_property ui h 0 streamlit_app key property = throw RecursionError"
| "render_property ui h (Suc depth) streamlit_app key property =
     (if is_single_enum_property (utils ui) property (schema_references ui) then
        render_single_enum_input ui h streamlit_app key property
      else if is_multi_enum_property (utils ui) property (schema_references ui) then
        render_multi_enum_input ui h streamlit_app key property
      else if is_single_file_property (utils ui) property then
        render_single_file_input ui h streamlit_app key property
      else if is_multi_file_property (utils ui) property then
        render_multi_file_input ui h streamlit_app key property
      else if is_single_datetime_property (utils ui) property then
        render_single_datetime_input ui h streamlit_app key property
      else if is_single_boolean_property (utils ui) property then
        render_single_boolean_input ui h streamlit_app key property
      else if is_single_dict_property (utils ui) property then
        render_single_dict_input ui h streamlit_app key property
      else if is_single_number_property (utils ui) property then
        render_single_number_input (library ui) h streamlit_app key property
      else if is_single_string_property (utils ui) property then
        render_single_string_input ui h streamlit_app key property
      else if is_single_object (utils ui) property (schema_references ui) then
        render_single_object_input ui (render_property ui h depth) h streamlit_app key property
      else if is_object_list_property (utils ui) property (schema_references ui) then
        render_object_list_input ui (render_property ui h depth) h streamlit_app key property
      else if is_property_list (utils ui) property then
        render_property_list_input ui h streamlit_app key property
      else if is_single_reference (utils ui) property then
        render_single_reference ui (render_property ui h depth) streamlit_app key property
      else unsupported_property (library ui) h streamlit_app property)"

text \<open>
  The dispatch as a table, in the order of priority: the shape tests of a property, the
  renderer that belongs to each, and the position of the first test that holds.
\<close>

definition shape_tests :: "input_ui \<Rightarrow> dict \<Rightarrow> bool list" where
  "shape_tests ui property =
     [is_single_enum_property (utils ui) property (schema_references ui),
      is_multi_enum_property (utils ui) property (schema_references ui),
      is_single_file_property (utils ui) property,
      is_multi_file_property (utils ui) property,
      is_single_datetime_property (utils ui) property,
      is_single_boolean_property (utils ui) property,
      is_single_dict_property (utils ui) property,
      is_single_number_property (utils ui) property,
      is_single_string_property (utils ui) property,
      is_single_object (utils ui) property (schema_references ui),
      is_object_list_property (utils ui) property (schema_references ui),
      is_property_list (utils ui) property,
      is_single_reference (utils ui) property]"

definition shape_renderers ::
  "input_ui \<Rightarrow> host \<Rightarrow> nat \<Rightarrow> receiver \<Rightarrow> string \<Rightarrow> dict \<Rightarrow> pyval action list" where
  "shape_renderers ui h depth streamlit_app key property =
     [render_single_enum_input ui h streamlit_app key property,
      render_multi_enum_input ui h streamlit_app key property,
      render_single_file_input ui h streamlit_app key property,
      render_multi_file_input ui h streamlit_app key property,
      render_single_datetime_input ui h streamlit_app key property,
      render_single_boolean_input ui h streamlit_app key property,
      render_single_dict_input ui h streamlit_app key property,
      render_single_number_input (library ui) h streamlit_app key property,
      render_single_string_input ui h streamlit_app key property,
      render_single_object_input ui (render_property ui h depth) h streamlit_app key property,
      render_object_list_input ui (render_property ui h depth) h streamlit_app key property,
      render_property_list_input ui h streamlit_app key property,
      render_single_reference ui (render_property ui h depth) streamlit_app key property]"

fun first_true :: "bool list \<Rightarrow> nat option" where
  "first_true [] = None"
| "first_true (b # bs) = (if b then Some 0 else map_option Suc (first_true bs))"

subsection \<open>\<^verbatim>\<open>InputUI.render_ui\<close>\<close>

text \<open>\<^verbatim>\<open>d.keys()\<close>: only a dict has the method.\<close>

fun py_keys :: "pyval \<Rightarrow> exn + string list" where
  "py_keys (PDict kvs) = Inr (map fst kvs)"
| "py_keys v = Inl AttributeError"

text \<open>
  One turn of the loop over the property keys, and the loop. The title and the test
  \<^verbatim>\<open>property_key in required_properties\<close> are outside the \<^verbatim>\<open>try\<close>; rendering the
  property and storing its value are inside, and \<^verbatim>\<open>except Exception: pass\<close> ends the
  turn when one of them raises.
\<close>

definition render_ui_property :: "input_ui \<Rightarrow> host \<Rightarrow> nat \<Rightarrow> pyval \<Rightarrow> string \<Rightarrow> unit action" where
  "render_ui_property ui h depth required_properties property_key =
     seq (lift (ebind (py_getitem (schema_properties ui) property_key) as_dict)) (\<lambda>property0.
     seq (lift (title_fallback (library ui) property_key property0)) (\<lambda>property.
     seq (lift (py_contains required_properties property_key)) (\<lambda>required.
     attempt
       (seq (render_property ui h depth (if required then St else Sidebar) property_key property)
          (\<lambda>v. store_value_act property_key v))
       (\<lambda>e. ret ()))))"

fun render_ui_loop :: "input_ui \<Rightarrow> host \<Rightarrow> nat \<Rightarrow> pyval \<Rightarrow> string list \<Rightarrow> unit action" where
  "render_ui_loop ui h depth required_properties [] = ret ()"
| "render_ui_loop ui h depth required_properties (property_key # rest) =
     seq (render_ui_property ui h depth required_properties property_key) (\<lambda>_.
     render_ui_loop ui h depth required_properties rest)"

text \<open>
  \<^verbatim>\<open>InputUI.render_ui\<close>. With a renderer of its own the input class draws the whole
  form, and the dict of the model it returns (\<^verbatim>\<open>.dict()\<close>, pydantic's) becomes the
  session input data.
\<close>

definition set_input_data :: "pyval \<Rightarrow> unit action" where
  "set_input_data d = (\<lambda>s. (Inr (), s\<lparr>input_data := d\<rparr>))"

definition render_ui :: "input_ui \<Rightarrow> host \<Rightarrow> nat \<Rightarrow> unit action" where
  "render_ui ui h depth =
     (case render_input_ui (input_cls ui) of
        Some render \<Rightarrow>
          seq (\<lambda>s. render h (input_data s) s) (\<lambda>model.
          seq (lift (library ui ModelDict [model])) (\<lambda>d.
          set_input_data d))
      | None \<Rightarrow>
          seq (lift (py_keys (schema_properties ui))) (\<lambda>keys.
          render_ui_loop ui h depth
            (dict_get_default (class_schema (input_cls ui)) ''required'' (PList [])) keys))"

section \<open>The output\<close>

text \<open>
  What the output side asks of the values it is given, which pydantic and the user's
  classes answer: the schema of a model instance (without aliases), the
  \<^verbatim>\<open>render_output_ui\<close> method of a value when it has one (user code that draws on the
  host; it is handed the input when it is called with one), and the names of the
  parameters of that method, as \<^verbatim>\<open>inspect.signature\<close> reports them.
\<close>

record output_env =
  model_schema :: "pyval \<Rightarrow> exn + dict"
  output_renderer :: "pyval \<Rightarrow> (host \<Rightarrow> pyval option \<Rightarrow> pyval action) option"
  renderer_parameters :: "pyval \<Rightarrow> exn + string list"

definition has_output_ui_renderer :: "output_env \<Rightarrow> pyval \<Rightarrow> bool" where
  "has_output_ui_renderer env data_item = (output_renderer env data_item \<noteq> None)"

text \<open>
  \<^verbatim>\<open>function_has_named_arg\<close>: the test is for the name \<^verbatim>\<open>"input"\<close>, whatever the
  second argument is; an exception of \<^verbatim>\<open>inspect.signature\<close> gives \<^verbatim>\<open>False\<close>.
\<close>

definition function_has_named_arg :: "exn + string list \<Rightarrow> string \<Rightarrow> exn + bool" where
  "function_has_named_arg sig parameter =
     (case sig of
        Inl e \<Rightarrow> (if is_exception e then Inr False else Inl e)
      | Inr names \<Rightarrow> Inr (''input'' \<in> set names))"

text \<open>\<^verbatim>\<open>OutputUI\<close>: what the object holds.\<close>

record output_ui =
  out_library :: lib
  out_utils :: schema_utils
  out_env :: output_env
  ui_output_data :: pyval
  ui_input_data :: pyval

text \<open>The value by which an exception is shown: an object named after its class.\<close>

fun exn_obj :: "exn \<Rightarrow> pyval" where
  "exn_obj TypeError = PObj ''TypeError''"
| "exn_obj KeyError = PObj ''KeyError''"
| "exn_obj AttributeError = PObj ''AttributeError''"
| "exn_obj ValueError = PObj ''ValueError''"
| "exn_obj OverflowError = PObj ''OverflowError''"
| "exn_obj ValidationError = PObj ''ValidationError''"
| "exn_obj UnsupportedProperty = PObj ''Exception''"
| "exn_obj RecursionError = PObj ''RecursionError''"
| "exn_obj (Signal n) = PObj n"
| "exn_obj (OtherError n) = PObj n"

definition render_single_text_property :: "lib \<Rightarrow> host \<Rightarrow> dict \<Rightarrow> pyval \<Rightarrow> unit action" where
  "render_single_text_property lb h property_schema v =
     seq (render_heading h St property_schema) (\<lambda>_.
       if v = PNone \<or> v = PStr [] then
         seq (widget h St ''info'' [PStr ''No value returned!''] []) (\<lambda>_. ret ())
       else
         seq (lift (py_str lb v)) (\<lambda>text.
         seq (widget h St ''code'' [PStr text] [(''language'', PStr ''plain'')]) (\<lambda>_. ret ())))"

text \<open>\<^verbatim>\<open>guess_extension(mime_type) or ""\<close>.\<close>

definition extension_or_empty :: "lib \<Rightarrow> pyval \<Rightarrow> exn + pyval" where
  "extension_or_empty lb mime_type =
     ebind (lb GuessExtension [mime_type]) (\<lambda>ext. Inr (if py_truthy ext then ext else PStr []))"

text \<open>
  The download link of a file: the name is
  \<^verbatim>\<open>(title + file_extension).lower().strip().replace(" ", "-")\<close>, by the string
  methods of the library, and the markup holds the text of the value and the name.
\<close>

definition download_markup :: "lib \<Rightarrow> dict \<Rightarrow> pyval \<Rightarrow> pyval \<Rightarrow> exn + string" where
  "download_markup lb property_schema file_extension v =
     ebind (dict_item property_schema ''title'') (\<lambda>title.
     ebind (case (title, file_extension) of
              (PStr t, PStr x) \<Rightarrow> Inr (PStr (t @ x))
            | _ \<Rightarrow> Inl TypeError) (\<lambda>name0.
     ebind (lb StrLower [name0]) (\<lambda>name1.
     ebind (lb StrStrip [name1]) (\<lambda>name2.
     ebind (lb StrReplace [name2, PStr '' '', PStr ''-'']) (\<lambda>filename.
     ebind (py_str lb v) (\<lambda>text.
     ebind (py_str lb filename) (\<lambda>fname.
     Inr (''<a href=\"data:application/octet-stream;base64,'' @ text @ ''\" download=\"'' @ fname
          @ ''\"><input type=\"button\" value=\"Download File\"></a>''))))))))"

definition render_single_file_property :: "lib \<Rightarrow> host \<Rightarrow> dict \<Rightarrow> pyval \<Rightarrow> unit action" where
  "render_single_file_property lb h property_schema v =
     seq (render_heading h St property_schema) (\<lambda>_.
       if v = PNone \<or> v = PStr [] then
         seq (widget h St ''info'' [PStr ''No value returned!''] []) (\<lambda>_. ret ())
       else if dict_has property_schema ''mime_type'' then
         seq (lift (dict_item property_schema ''mime_type'')) (\<lambda>mime_type.
         seq (lift (extension_or_empty lb mime_type)) (\<lambda>file_extension.
           if is_compatible_audio mime_type then
             seq (lift (lb AsBytes [v])) (\<lambda>b.
             seq (widget h St ''audio'' [b] [(''format'', mime_type)]) (\<lambda>_. ret ()))
           else if is_compatible_image mime_type then
             seq (lift (lb AsBytes [v])) (\<lambda>b.
             seq (widget h St ''image'' [b] []) (\<lambda>_. ret ()))
           else if is_compatible_video mime_type then
             seq (lift (lb AsBytes [v])) (\<lambda>b.
             seq (widget h St ''video'' [b] [(''format'', mime_type)]) (\<lambda>_. ret ()))
           else
             seq (lift (download_markup lb property_schema file_extension v)) (\<lambda>markup.
             seq (widget h St ''markdown'' [PStr markup] [(''unsafe_allow_html'', PBool True)])
               (\<lambda>_. ret ()))))
       else
         seq (lift (download_markup lb property_schema (PStr []) v)) (\<lambda>markup.
         seq (widget h St ''markdown'' [PStr markup] [(''unsafe_allow_html'', PBool True)])
           (\<lambda>_. ret ())))"

definition render_single_complex_property :: "lib \<Rightarrow> host \<Rightarrow> dict \<Rightarrow> pyval \<Rightarrow> unit action" where
  "render_single_complex_property lb h property_schema v =
     seq (render_heading h St property_schema) (\<lambda>_.
     seq (lift (lb JsonableEncoder [v])) (\<lambda>j.
     seq (widget h St ''json'' [j] []) (\<lambda>_. ret ())))"

text \<open>
  The custom rendering at the head of \<^verbatim>\<open>_render_single_output\<close>: \<open>True\<close> when the
  value has a renderer and it returned. It is inside a \<^verbatim>\<open>try\<close>; after an exception
  the automatic rendering takes over (the log entry is not a call on the host).
\<close>

definition render_custom_output :: "output_ui \<Rightarrow> host \<Rightarrow> pyval \<Rightarrow> bool action" where
  "render_custom_output ui h data =
     attempt
       (case output_renderer (out_env ui) data of
          None \<Rightarrow> ret False
        | Some render \<Rightarrow>
            seq (lift (function_has_named_arg (renderer_parameters (out_env ui) data) ''input''))
              (\<lambda>takes_input.
            seq (if takes_input then render h (Some (ui_input_data ui)) else render h None)
              (\<lambda>_. ret True)))
       (\<lambda>e. ret False)"

text \<open>
  The schema-driven rendering of one property of a model instance that is neither
  rendered by itself nor a model.
\<close>

definition render_output_property :: "output_ui \<Rightarrow> host \<Rightarrow> pyval \<Rightarrow> dict \<Rightarrow> pyval \<Rightarrow> unit action" where
  "render_output_property ui h definitions property_schema v =
     (if property_schema \<noteq> [] then
        (if is_single_file_property (out_utils ui) property_schema then
           render_single_file_property (out_library ui) h property_schema v
         else if is_single_string_property (out_utils ui) property_schema
               \<or> is_single_number_property (out_utils ui) property_schema
               \<or> is_single_datetime_property (out_utils ui) property_schema
               \<or> is_single_boolean_property (out_utils ui) property_schema then
           render_single_text_property (out_library ui) h property_schema v
         else if py_truthy definitions
               \<and> is_single_enum_property (out_utils ui) property_schema definitions then
           seq (lift (out_library ui EnumValue [v])) (\<lambda>x.
           render_single_text_property (out_library ui) h property_schema x)
         else render_single_complex_property (out_library ui) h property_schema v)
      else ret ())"

text \<open>
  \<^verbatim>\<open>_render_single_output\<close>, with the bound on the depth of its calls inside one
  another, the loop over the \<^verbatim>\<open>__dict__\<close> of the instance as \<open>rso\<close> for the inner
  calls.
\<close>

fun render_output_fields ::
  "output_ui \<Rightarrow> host \<Rightarrow> (pyval \<Rightarrow> unit action) \<Rightarrow> pyval \<Rightarrow> pyval \<Rightarrow> (string \<times> pyval) list \<Rightarrow> unit action"
  where
  "render_output_fields ui h rso model_properties definitions [] = ret ()"
| "render_output_fields ui h rso model_properties definitions ((property_key, v) # rest) =
     seq (lift (ebind (py_get model_properties property_key) as_dict)) (\<lambda>schema0.
       let property_schema =
             (if \<not> py_truthy (prop_get schema0 ''title'')
              then dict_set ''title'' (PStr property_key) schema0 else schema0)
       in
       seq (case output_renderer (out_env ui) v of
              Some render \<Rightarrow> seq (render h None) (\<lambda>_. ret ())
            | None \<Rightarrow>
               (case v of
                  PModel c fs \<Rightarrow>
                    seq (render_heading h St property_schema) (\<lambda>_. rso v)
                | _ \<Rightarrow> render_output_property ui h definitions property_schema v)) (\<lambda>_.
       render_output_fields ui h rso model_properties definitions rest))"

fun render_single_output :: "output_ui \<Rightarrow> host \<Rightarrow> nat \<Rightarrow> pyval \<Rightarrow> unit action" where
  "render_single_output ui h 0 data = throw RecursionError"
| "render_single_output ui h (Suc depth) data =
     seq (render_custom_output ui h data) (\<lambda>rendered.
       if rendered then ret ()
       else
         seq (lift (model_schema (out_env ui) data)) (\<lambda>schema.
           if py_truthy (prop_get schema ''properties'') then
             (case data of
                PModel c fs \<Rightarrow>
                  render_output_fields ui h (render_single_output ui h depth)
                    (prop_get schema ''properties'') (prop_get schema ''definitions'') fs
              | _ \<Rightarrow> throw AttributeError)
           else
             seq (lift (out_library ui JsonableEncoder [data])) (\<lambda>j.
             seq (widget h St ''json'' [j] []) (\<lambda>_. ret ()))))"

text \<open>\<^verbatim>\<open>_render_list_output\<close>.\<close>

fun collect_list_items :: "output_ui \<Rightarrow> host \<Rightarrow> pyval list \<Rightarrow> pyval list \<Rightarrow> pyval list action" where
  "collect_list_items ui h [] data_items = ret data_items"
| "collect_list_items ui h (data_item # rest) data_items =
     (case output_renderer (out_env ui) data_item of
        Some render \<Rightarrow>
          seq (render h None) (\<lambda>_. collect_list_items ui h rest data_items)
      | None \<Rightarrow>
          seq (lift (out_library ui ModelDict [data_item])) (\<lambda>d.
          collect_list_items ui h rest (data_items @ [d])))"

definition render_list_output :: "output_ui \<Rightarrow> host \<Rightarrow> pyval \<Rightarrow> unit action" where
  "render_list_output ui h data =
     attempt
       (seq (lift (py_iter data)) (\<lambda>items.
        seq (collect_list_items ui h items []) (\<lambda>data_items.
        seq (lift (out_library ui DataFrame [PList data_items])) (\<lambda>frame.
        seq (widget h St ''table'' [frame] []) (\<lambda>_. ret ())))))
       (\<lambda>e.
        seq (lift (out_library ui JsonableEncoder [data])) (\<lambda>j.
        seq (widget h St ''json'' [j] []) (\<lambda>_. ret ())))"

text \<open>
  \<^verbatim>\<open>OutputUI.render_ui\<close>: a model instance, a list, or neither; an exception of the
  rendering is shown, followed by the output as JSON.
\<close>

definition render_exception :: "output_ui \<Rightarrow> host \<Rightarrow> exn \<Rightarrow> unit action" where
  "render_exception ui h ex =
     seq (widget h St ''exception'' [exn_obj ex] []) (\<lambda>_.
     seq (lift (out_library ui JsonableEncoder [ui_output_data ui])) (\<lambda>j.
     seq (widget h St ''json'' [j] []) (\<lambda>_. ret ())))"

definition output_render_ui :: "output_ui \<Rightarrow> host \<Rightarrow> nat \<Rightarrow> unit action" where
  "output_render_ui ui h depth =
     attempt
       (case ui_output_data ui of
          PModel c fs \<Rightarrow> render_single_output ui h depth (ui_output_data ui)
        | PList xs \<Rightarrow> render_list_output ui h (ui_output_data ui)
        | _ \<Rightarrow> ret ())
       (render_exception ui h)"

section \<open>The page\<close>

text \<open>
  The operation (\<^verbatim>\<open>Opyrator\<close>, from the core of the package): its name and description,
  its input class, pydantic's \<^verbatim>\<open>parse_obj_as\<close> for that class, and the call of the
  operation, which is user code.
\<close>

record opyrator =
  op_name :: string
  op_description :: pyval
  input_type :: input_class
  parse_obj_as :: "pyval \<Rightarrow> exn + pyval"
  operation :: "host \<Rightarrow> pyval \<Rightarrow> pyval action"

text \<open>
  What else the page needs from outside the module: the library, the schema helpers,
  the output side of the models, the style sheet \<^verbatim>\<open>CUSTOM_STREAMLIT_CSS\<close>, the method
  \<^verbatim>\<open>clear\<close> of the session state, and the bound on the depth of recursion.
\<close>

record app =
  app_library :: lib
  app_utils :: schema_utils
  app_env :: output_env
  custom_css :: string
  session_clear :: "state \<Rightarrow> state"
  recursion_limit :: nat

text \<open>\<^verbatim>\<open>except ValidationError\<close> catches that exception only.\<close>

definition attempt_validation :: "'a action \<Rightarrow> (exn \<Rightarrow> 'a action) \<Rightarrow> 'a action" where
  "attempt_validation m handler =
     (\<lambda>s. case m s of
             (Inl e, s') \<Rightarrow> (if e = ValidationError then handler e s' else (Inl e, s'))
           | (Inr x, s') \<Rightarrow> (Inr x, s'))"

definition page_title :: "lib \<Rightarrow> string \<Rightarrow> exn + string" where
  "page_title lb name =
     ebind (lb StrLower [PStr name]) (\<lambda>lower.
     ebind (py_contains lower ''opyrator'') (\<lambda>found.
     Inr (if \<not> found then name @ '' - Opyrator'' else name)))"

text \<open>The body of \<^verbatim>\<open>if execute_selected:\<close>.\<close>

definition execute :: "opyrator \<Rightarrow> host \<Rightarrow> unit action" where
  "execute op h =
     seq (widget h St ''spinner'' [PStr ''Executing operation. Please wait...''] []) (\<lambda>spinner.
     with_cm h spinner
       (attempt_validation
          (seq (\<lambda>s. (parse_obj_as op (input_data s), s)) (\<lambda>input_data_obj.
           seq (operation op h input_data_obj) (\<lambda>out.
           (\<lambda>s. (Inr (), s\<lparr>output_data := out, latest_operation_input := input_data_obj\<rparr>)))))
          (\<lambda>ex. seq (widget h St ''error'' [exn_obj ex] []) (\<lambda>_. ret ()))))"

text \<open>The body of \<^verbatim>\<open>if session_state.output_data:\<close>.\<close>

definition new_output_ui :: "app \<Rightarrow> pyval \<Rightarrow> pyval \<Rightarrow> output_ui" where
  "new_output_ui a out inp =
     \<lparr>out_library = app_library a, out_utils = app_utils a, out_env = app_env a,
      ui_output_data = out, ui_input_data = inp\<rparr>"

definition show_json_button :: "app \<Rightarrow> host \<Rightarrow> unit action" where
  "show_json_button a h =
     seq (widget h St ''markdown'' [PStr ''---''] []) (\<lambda>_.
     seq (widget h St ''empty'' [] []) (\<lambda>show_json.
     seq (call_method h show_json ''button'' [PStr ''Show JSON Output''] []) (\<lambda>pressed.
       if py_truthy pressed then
         seq (\<lambda>s. (app_library a ModelJson [output_data s], s)) (\<lambda>j.
         seq (call_method h show_json ''json'' [j] []) (\<lambda>_. ret ()))
       else ret ())))"

definition show_output :: "app \<Rightarrow> host \<Rightarrow> unit action" where
  "show_output a h =
     seq (\<lambda>s. output_render_ui (new_output_ui a (output_data s) (latest_operation_input s))
                h (recursion_limit a) s) (\<lambda>_.
     show_json_button a h)"

text \<open>
  The end of \<^verbatim>\<open>render_streamlit_ui\<close>, from \<^verbatim>\<open>if execute_selected:\<close> on.
\<close>

definition execute_and_show :: "app \<Rightarrow> opyrator \<Rightarrow> host \<Rightarrow> pyval \<Rightarrow> unit action" where
  "execute_and_show a op h execute_selected =
     seq (if py_truthy execute_selected then execute op h else ret ()) (\<lambda>_.
     (\<lambda>s. if py_truthy (output_data s) then show_output a h s else (Inr (), s)))"

definition render_streamlit_ui :: "app \<Rightarrow> opyrator \<Rightarrow> host \<Rightarrow> unit action" where
  "render_streamlit_ui a op h =
     seq (lift (page_title (app_library a) (op_name op))) (\<lambda>title.
     seq (widget h St ''title'' [PStr title] []) (\<lambda>_.
     seq (widget h St ''markdown'' [PStr (''<style>'' @ custom_css a @ ''</style>'')]
            [(''unsafe_allow_html'', PBool True)]) (\<lambda>_.
     seq (if py_truthy (op_description op)
          then widget h St ''markdown'' [op_description op] [] else ret PNone) (\<lambda>_.
     seq (render_ui (new_input_ui (app_library a) (app_utils a) (input_type op)) h
            (recursion_limit a)) (\<lambda>_.
     seq (widget h St ''markdown'' [PStr ''---''] []) (\<lambda>_.
     seq (widget h St ''beta_columns'' [PList [PInt 1, PInt 2]] []) (\<lambda>cols.
     seq (lift (unpack2 cols)) (\<lambda>(clear_col, execute_col).
     seq (with_cm h clear_col
            (seq (widget h St ''button'' [PStr ''Clear''] []) (\<lambda>pressed.
             if py_truthy pressed then
               seq (\<lambda>s. (Inr (), (session_clear a s)\<lparr>trace := trace s\<rparr>)) (\<lambda>_.
               seq (widget h St ''experimental_rerun'' [] []) (\<lambda>_. ret ()))
             else ret ()))) (\<lambda>_.
     seq (with_cm h execute_col (widget h St ''button'' [PStr ''Execute''] [])) (\<lambda>execute_selected.
     execute_and_show a op h execute_selected))))))))))"

section \<open>Concrete instances\<close>

text \<open>
  Small instances on which the model is run: schema helpers that tell the shapes by the
  \<^verbatim>\<open>type\<close> and \<^verbatim>\<open>format\<close> entries and know no references, a host that answers every
  call with \<^verbatim>\<open>None\<close>, an output side without renderers of its own, and a session at
  its start.
\<close>

definition plain_utils :: schema_utils where
  "plain_utils =
     \<lparr>is_single_enum_property = (\<lambda>p r. False),
      is_multi_enum_property = (\<lambda>p r. False),
      is_single_file_property =
        (\<lambda>p. prop_get p ''type'' = PStr ''string'' \<and> prop_get p ''format'' = PStr ''byte''),
      is_multi_file_property = (\<lambda>p. False),
      is_single_datetime_property =
        (\<lambda>p. prop_get p ''type'' = PStr ''string'' \<and>
             prop_get p ''format'' \<in> set [PStr ''date-time'', PStr ''time'', PStr ''date'']),
      is_single_boolean_property = (\<lambda>p. prop_get p ''type'' = PStr ''boolean''),
      is_single_dict_property = (\<lambda>p. False),
      is_single_number_property =
        (\<lambda>p. prop_get p ''type'' \<in> set [PStr ''integer'', PStr ''number'']),
      is_single_string_property = (\<lambda>p. prop_get p ''type'' = PStr ''string''),
      is_single_object = (\<lambda>p r. False),
      is_object_list_property = (\<lambda>p r. False),
      is_property_list = (\<lambda>p. False),
      is_single_reference = (\<lambda>p. False),
      resolve_reference = (\<lambda>r d. Inl KeyError),
      get_single_reference_item = (\<lambda>p d. Inl KeyError)\<rparr>"

definition quiet_host :: host where
  "quiet_host c = Inr PNone"

definition plain_env :: output_env where
  "plain_env =
     \<lparr>model_schema = (\<lambda>v. Inr []),
      output_renderer = (\<lambda>v. None),
      renderer_parameters = (\<lambda>v. Inr [])\<rparr>"

definition start_state :: state where
  "start_state =
     \<lparr>input_data = PDict [], output_data = PNone, latest_operation_input = PNone,
      run_id = PInt 0, trace = []\<rparr>"

text \<open>
  An operation with one required text field: parsing accepts a dict that has the field,
  and the operation answers with a model instance.
\<close>

definition echo_op :: opyrator where
  "echo_op =
     \<lparr>op_name = ''Echo'',
      op_description = PNone,
      input_type =
        \<lparr>class_schema =
           [(''properties'', PDict [(''text'', PDict [(''type'', PStr ''string'')])]),
            (''required'', PList [PStr ''text''])],
         render_input_ui = None\<rparr>,
      parse_obj_as =
        (\<lambda>d. case d of
               PDict kvs \<Rightarrow>
                 (if dict_has kvs ''text'' then Inr (PModel ''Input'' kvs) else Inl ValidationError)
             | _ \<Rightarrow> Inl ValidationError),
      operation = (\<lambda>h obj. ret (PModel ''Output'' [(''text'', PStr ''ok'')]))\<rparr>"

definition plain_app :: app where
  "plain_app =
     \<lparr>app_library = no_lib, app_utils = plain_utils, app_env = plain_env, custom_css = [],
      session_clear = (\<lambda>s. start_state), recursion_limit = 10\<rparr>"

text \<open>
  An input class with two properties, one of a shape that no test knows and a required
  text without a title; a library that knows the title of that one name; a host that
  answers a text area with a text and every other call with \<^verbatim>\<open>None\<close>.
\<close>

definition demo_class :: input_class where
  "demo_class =
     \<lparr>class_schema =
        [(''properties'',
          PDict [(''odd'', PDict [(''title'', PStr ''Odd''), (''type'', PStr ''null'')]),
                 (''text'', PDict [(''type'', PStr ''string'')])]),
         (''required'', PList [PStr ''text''])],
      render_input_ui = None\<rparr>"

definition demo_lib :: lib where
  "demo_lib f args =
     (if f = NameToTitle \<and> args = [PStr ''text''] then Inr (PStr ''Text'')
      else Inl (OtherError ''library''))"

fun demo_host :: host where
  "demo_host (Call r m args kw) = (if m = ''text_area'' then Inr (PStr ''hello'') else Inr PNone)"

text \<open>
  A host that answers as the library does: a spinner, a container and a placeholder are
  objects, \<^verbatim>\<open>beta_columns\<close> gives two column objects, a button is pressed when it is the
  \<^verbatim>\<open>Execute\<close> button, a text area and a text input hold a text, and every other call
  returns \<^verbatim>\<open>None\<close>.
\<close>

fun page_host :: host where
  "page_host (Call r m args kw) =
     (if m = ''spinner'' then Inr (PObj ''spinner'')
      else if m = ''beta_container'' then Inr (PObj ''container'')
      else if m = ''empty'' then Inr (PObj ''placeholder'')
      else if m = ''beta_columns'' then Inr (PList [PObj ''column1'', PObj ''column2''])
      else if m = ''button'' then Inr (PBool (args = [PStr ''Execute'']))
      else if m = ''text_area'' then Inr (PStr ''hello'')
      else if m = ''text_input'' then Inr (PStr [])
      else Inr PNone)"

text \<open>A second host, which differs from the first in its answer to a checkbox.\<close>

fun other_host :: host where
  "other_host (Call r m args kw) =
     (if m = ''checkbox'' then Inr (PBool True) else page_host (Call r m args kw))"

text \<open>
  An input class with two properties of the shape of a dict, \<^verbatim>\<open>a\<close> and, under an alias
  with dots, \<^verbatim>\<open>a.b.c\<close>; the \<^verbatim>\<open>additionalProperties\<close> of the second is \<^verbatim>\<open>true\<close>, which a
  JSON schema allows and which has no \<^verbatim>\<open>get\<close>. The schema helpers take a property of
  the type \<^verbatim>\<open>"object"\<close> that has \<^verbatim>\<open>additionalProperties\<close> for a dict.
\<close>

definition nested_class :: input_class where
  "nested_class =
     \<lparr>class_schema =
        [(''properties'',
          PDict [(''a'', PDict [(''title'', PStr ''A''), (''type'', PStr ''object''),
                               (''additionalProperties'', PDict [(''type'', PStr ''string'')])]),
                 (''a.b.c'', PDict [(''title'', PStr ''C''), (''type'', PStr ''object''),
                                   (''additionalProperties'', PBool True)])])],
      render_input_ui = None\<rparr>"

definition dict_utils :: schema_utils where
  "dict_utils =
     plain_utils\<lparr>is_single_dict_property :=
       (\<lambda>p. prop_get p ''type'' = PStr ''object'' \<and> dict_has p ''additionalProperties'')\<rparr>"

text \<open>An input class whose one property, a date with a time, is not required.\<close>

definition when_class :: input_class where
  "when_class =
     \<lparr>class_schema =
        [(''properties'',
          PDict [(''when'', PDict [(''title'', PStr ''When''), (''type'', PStr ''string''),
                                  (''format'', PStr ''date-time'')])])],
      render_input_ui = None\<rparr>"

text \<open>
  A library that knows what the page of the operation \<^verbatim>\<open>Echo\<close> asks of it: the name
  in lower case, the title of the one field, and the JSON form of the output.
\<close>

definition page_lib :: lib where
  "page_lib f args =
     (if f = StrLower \<and> args = [PStr ''Echo''] then Inr (PStr ''echo'')
      else if f = NameToTitle \<and> args = [PStr ''text''] then Inr (PStr ''Text'')
      else if f = JsonableEncoder \<and> args = [PModel ''Output'' [(''text'', PStr ''ok'')]]
        then Inr (PDict [(''text'', PStr ''ok'')])
      else Inl (OtherError ''library''))"

definition page_app :: app where
  "page_app = plain_app\<lparr>app_library := page_lib\<rparr>"

section \<open>What a renderer leaves alone\<close>

text \<open>
  \<open>keeps K m\<close>: started on a session whose input data is a dict, the action \<open>m\<close> leaves
  it a dict, changes no entry of it whose key is outside \<open>K\<close>, and changes neither the
  output data, nor the latest operation input, nor the run id.
\<close>

definition keeps :: "string set \<Rightarrow> 'a action \<Rightarrow> bool" where
  "keeps K m =
     (\<forall>s r s'. m s = (r, s') \<longrightarrow> is_dict (input_data s) \<longrightarrow>
        is_dict (input_data s') \<and>
        (\<forall>k. k \<notin> K \<longrightarrow> lookup_path (input_data s') [k] = lookup_path (input_data s) [k]) \<and>
        output_data s' = output_data s \<and>
        latest_operation_input s' = latest_operation_input s \<and>
        run_id s' = run_id s)"

named_theorems keeps_intros

section \<open>Where a renderer draws\<close>

text \<open>
  \<open>draws_on R m\<close>: the action \<open>m\<close> only adds calls to the trace, and every call it
  adds is made on \<open>R\<close> (the page \<^verbatim>\<open>st\<close> or the sidebar) or on an object that the host
  returned (a column, a container, an uploaded file).
\<close>

fun on_receiver :: "receiver \<Rightarrow> call \<Rightarrow> bool" where
  "on_receiver R (Call r m args kw) = (r = R \<or> (case r of Obj v \<Rightarrow> True | _ \<Rightarrow> False))"

definition draws_on :: "receiver \<Rightarrow> 'a action \<Rightarrow> bool" where
  "draws_on R m =
     (\<forall>s. \<exists>cs. trace (snd (m s)) = trace s @ cs \<and> (\<forall>c \<in> set cs. on_receiver R c))"

named_theorems draws_intros

section \<open>Runs that depend on the host only through its answers\<close>

text \<open>
  \<open>host_local m\<close>, for a piece \<open>m\<close> of the module that is given the host: a run of
  \<open>m\<close> only adds calls to the trace, and a second host that answers those calls as the
  first one does gives the same run: the same outcome, the same session, the same
  calls.
\<close>

definition host_local :: "(host \<Rightarrow> 'a action) \<Rightarrow> bool" where
  "host_local m =
     (\<forall>h1 h2 s. \<exists>cs. trace (snd (m h1 s)) = trace s @ cs \<and>
        ((\<forall>c \<in> set cs. h1 c = h2 c) \<longrightarrow> m h2 s = m h1 s))"

named_theorems local_intros

text \<open>
  The user code that a run may call: the renderer of the input class, the renderers of
  output values, and the operation.
\<close>

definition user_code_local :: "app \<Rightarrow> opyrator \<Rightarrow> bool" where
  "user_code_local a op =
     ((\<forall>f d. render_input_ui (input_type op) = Some f \<longrightarrow> host_local (\<lambda>h. f h d)) \<and>
      (\<forall>v f i. output_renderer (app_env a) v = Some f \<longrightarrow> host_local (\<lambda>h. f h i)) \<and>
      (\<forall>obj. host_local (\<lambda>h. operation op h obj)))"

section \<open>Properties of the nested encoding\<close>

lemma dict_get_set_same: "dict_get (dict_set k v kvs) k = Some v"
  by (induction kvs) (auto simp: dict_get_def)

lemma dict_get_set_other: "k' \<noteq> k \<Longrightarrow> dict_get (dict_set k v kvs) k' = dict_get kvs k'"
  by (induction kvs) (auto simp: dict_get_def)

lemma dict_set_twice: "dict_set k v (dict_set k w kvs) = dict_set k v kvs"
  by (induction kvs) auto

lemma dict_set_same: "dict_get kvs k = Some v \<Longrightarrow> dict_set k v kvs = kvs"
  by (induction kvs) (auto simp: dict_get_def split: if_splits)

lemma str_split_nonempty: "str_split s \<noteq> []"
  by (induction s) (auto split: list.splits)

lemma prefixes_ok_empty_dict: "prefixes_ok (PDict []) ks"
  by (cases ks) (auto simp: dict_get_def)

lemma store_then_get:
  "prefixes_ok d ks \<Longrightarrow> ks \<noteq> [] \<Longrightarrow>
   \<exists>d'. store_loop d ks v = (Inr (), d') \<and> get_loop d' ks = (Inr v, d')"
proof (induction ks arbitrary: d)
  case Nil
  then show ?case by simp
next
  case (Cons k ks)
  from Cons.prems obtain kvs where d: "d = PDict kvs"
    by (cases d) auto
  show ?case
  proof (cases "ks = []")
    case True
    then show ?thesis
      by (simp add: d dict_has_def dict_get_set_same)
  next
    case False
    show ?thesis
    proof (cases "dict_get kvs k")
      case None
      from Cons.IH [OF prefixes_ok_empty_dict False]
      obtain c' where c': "store_loop (PDict []) ks v = (Inr (), c')"
        "get_loop c' ks = (Inr v, c')" by blast
      then show ?thesis using False None
        by (simp add: d dict_has_def dict_get_set_same dict_set_twice)
    next
      case (Some c)
      with Cons.prems False have "prefixes_ok c ks" by (simp add: d)
      from Cons.IH [OF this False]
      obtain c' where c': "store_loop c ks v = (Inr (), c')"
        "get_loop c' ks = (Inr v, c')" by blast
      then show ?thesis using False Some
        by (simp add: d dict_has_def dict_get_set_same dict_set_twice)
    qed
  qed
qed

lemma get_loop_present:
  "lookup_path d ks = Some x \<Longrightarrow> ks \<noteq> [] \<Longrightarrow> get_loop d ks = (Inr x, d)"
proof (induction ks arbitrary: d)
  case Nil
  then show ?case by simp
next
  case (Cons k ks)
  from Cons.prems obtain kvs c where d: "d = PDict kvs" and c: "dict_get kvs k = Some c"
    and l: "lookup_path c ks = Some x"
    by (cases d) (auto split: option.splits)
  show ?case
  proof (cases "ks = []")
    case True
    with l c show ?thesis by (simp add: d dict_has_def)
  next
    case False
    from Cons.IH [OF l False] c False show ?thesis
      by (simp add: d dict_has_def dict_set_same)
  qed
qed

lemma get_loop_walk:
  "prefixes_ok d ks \<Longrightarrow> ks \<noteq> [] \<Longrightarrow>
   get_loop d ks =
     (Inr (case lookup_path d ks of None \<Rightarrow> PNone | Some x \<Rightarrow> x),
      insert_missing d (butlast ks))"
proof (induction ks arbitrary: d)
  case Nil
  then show ?case by simp
next
  case (Cons k ks)
  from Cons.prems obtain kvs where d: "d = PDict kvs"
    by (cases d) auto
  show ?case
  proof (cases "ks = []")
    case True
    then show ?thesis
      by (simp add: d dict_has_def split: option.splits)
  next
    case False
    show ?thesis
    proof (cases "dict_get kvs k")
      case None
      have l: "lookup_path (PDict []) ks = None"
        using False by (cases ks) (auto simp: dict_get_def)
      from Cons.IH [OF prefixes_ok_empty_dict False] l False None show ?thesis
        by (simp add: d dict_has_def dict_get_set_same dict_set_twice)
    next
      case (Some c)
      with Cons.prems False have "prefixes_ok c ks" by (simp add: d)
      from Cons.IH [OF this False] False Some show ?thesis
        by (simp add: d dict_has_def)
    qed
  qed
qed

lemma lookup_insert_missing:
  "is_dict d \<Longrightarrow> prefixes_ok d (ks @ [k']) \<Longrightarrow>
   \<exists>kvs. lookup_path (insert_missing d ks) ks = Some (PDict kvs)"
proof (induction ks arbitrary: d)
  case Nil
  then show ?case by (cases d) auto
next
  case (Cons k ks)
  from Cons.prems obtain kvs where d: "d = PDict kvs"
    by (cases d) auto
  show ?case
  proof (cases "dict_get kvs k")
    case None
    have "prefixes_ok (PDict []) (ks @ [k'])" by (rule prefixes_ok_empty_dict)
    from Cons.IH [OF _ this] None show ?thesis
      by (simp add: d dict_get_set_same)
  next
    case (Some c)
    with Cons.prems have p: "prefixes_ok c (ks @ [k'])" by (simp add: d)
    then have "is_dict c" by (cases c; cases ks) auto
    from Cons.IH [OF this p] Some show ?thesis
      by (simp add: d dict_get_set_same)
  qed
qed

lemma insert_missing_changes:
  assumes "prefixes_ok d ks" "ks \<noteq> []" "lookup_path d (butlast ks) = None"
  shows "insert_missing d (butlast ks) \<noteq> d"
proof -
  from assms(2) obtain p k' where ks: "ks = p @ [k']"
    by (metis append_butlast_last_id)
  from assms(1) have "is_dict d" using assms(2) by (cases d; cases ks) auto
  from lookup_insert_missing [OF this assms(1) [unfolded ks]]
  show ?thesis using assms(3) by (auto simp: ks)
qed

lemma insert_missing_present:
  "lookup_path d ks = Some x \<Longrightarrow> insert_missing d ks = d"
proof (induction ks arbitrary: d)
  case Nil
  then show ?case by simp
next
  case (Cons k ks)
  from Cons.prems obtain kvs c where d: "d = PDict kvs" and c: "dict_get kvs k = Some c"
    and l: "lookup_path c ks = Some x"
    by (cases d) (auto split: option.splits)
  from Cons.IH [OF l] c show ?case
    by (simp add: d dict_set_same)
qed

text \<open>
  C2. Round trip of the nested encoding: when the session input data is a dict and every
  proper prefix of the key is absent or maps to a dict, \<^verbatim>\<open>_store_value(k, v)\<close> returns
  without an exception and \<^verbatim>\<open>_get_value(k)\<close>, called on the data it leaves, returns
  exactly \<open>v\<close> (and changes nothing).
\<close>

theorem store_value_get_value_roundtrip:
  assumes "prefixes_ok data (str_split key)"
  shows "\<exists>d'. store_value data key v = (Inr (), d') \<and> get_value d' key = (Inr v, d')"
  unfolding store_value_def get_value_def
  using store_then_get [OF assms str_split_nonempty] .

theorem store_value_get_value_roundtrip_witness:
  "prefixes_ok (PDict [(''a'', PDict [(''x'', PInt 1)])]) (str_split ''a.b.c'') \<and>
   (\<exists>d'. store_value (PDict [(''a'', PDict [(''x'', PInt 1)])]) ''a.b.c'' (PStr ''v'') = (Inr (), d')
      \<and> get_value d' ''a.b.c'' = (Inr (PStr ''v''), d'))"
proof -
  have h: "prefixes_ok (PDict [(''a'', PDict [(''x'', PInt 1)])]) (str_split ''a.b.c'')"
    by (simp add: dict_get_def)
  from store_value_get_value_roundtrip [OF h] h show ?thesis by blast
qed

text \<open>
  C8, as stated, for every key: a key whose final piece is absent returns \<^verbatim>\<open>None\<close>. It
  fails where a prefix of the key maps to a value that is no dict: with the input data
  \<^verbatim>\<open>{"a": 5}\<close> the key \<^verbatim>\<open>"a.b"\<close> is absent, and the lookup raises \<^verbatim>\<open>TypeError\<close>
  (the test \<^verbatim>\<open>"b" not in 5\<close>) instead of returning \<^verbatim>\<open>None\<close>.
\<close>

theorem get_value_absent_raises_counterexample:
  "lookup_path (PDict [(''a'', PInt 5)]) (str_split ''a.b'') = None \<and>
   fst (get_value (PDict [(''a'', PInt 5)]) ''a.b'') = Inl TypeError \<and>
   fst (get_value (PDict [(''a'', PInt 5)]) ''a.b'') \<noteq> Inr PNone"
  by (simp add: get_value_def dict_get_def dict_has_def)

text \<open>
  C8, amended: \<^verbatim>\<open>_get_value\<close> is not read-only. When the session input data is a dict
  and every proper prefix of the key is absent or maps to a dict, the lookup returns
  without an exception; a key that is absent returns \<^verbatim>\<open>None\<close>; the input data it leaves
  is the old one with an empty dict inserted for each missing intermediate piece, so
  the lookup changes the input data exactly when an intermediate piece of the key is
  missing (the pieces before the last one do not all lead to a value); a lookup of an
  absent key whose intermediate pieces are all there changes nothing; and a key that is
  fully present returns its value and leaves the input data unchanged.
\<close>

theorem get_value_not_read_only:
  assumes "prefixes_ok data (str_split key)"
  shows "(lookup_path data (str_split key) = None \<longrightarrow>
            fst (get_value data key) = Inr PNone)
       \<and> snd (get_value data key) = insert_missing data (butlast (str_split key))
       \<and> (snd (get_value data key) \<noteq> data \<longleftrightarrow>
            lookup_path data (butlast (str_split key)) = None)
       \<and> (\<forall>x. lookup_path data (str_split key) = Some x \<longrightarrow>
            get_value data key = (Inr x, data))"
proof -
  note w = get_loop_walk [OF assms str_split_nonempty]
  have 1: "lookup_path data (str_split key) = None \<longrightarrow>
            fst (get_value data key) = Inr PNone"
    by (simp add: get_value_def w)
  have 2: "snd (get_value data key) = insert_missing data (butlast (str_split key))"
    by (simp add: get_value_def w)
  have 3: "snd (get_value data key) \<noteq> data \<longleftrightarrow>
            lookup_path data (butlast (str_split key)) = None"
  proof (cases "lookup_path data (butlast (str_split key))")
    case None
    with insert_missing_changes [OF assms str_split_nonempty] show ?thesis
      by (simp add: 2)
  next
    case (Some x)
    with insert_missing_present [OF Some] show ?thesis
      by (simp add: 2)
  qed
  have 4: "\<forall>x. lookup_path data (str_split key) = Some x \<longrightarrow>
            get_value data key = (Inr x, data)"
    using get_loop_present [OF _ str_split_nonempty] by (simp add: get_value_def)
  from 1 2 3 4 show ?thesis by blast
qed

theorem get_value_not_read_only_witness:
  "prefixes_ok (PDict [(''a'', PInt 1)]) (str_split ''b.c.d'') \<and>
   lookup_path (PDict [(''a'', PInt 1)]) (str_split ''b.c.d'') = None \<and>
   lookup_path (PDict [(''a'', PInt 1)]) (butlast (str_split ''b.c.d'')) = None \<and>
   fst (get_value (PDict [(''a'', PInt 1)]) ''b.c.d'') = Inr PNone \<and>
   snd (get_value (PDict [(''a'', PInt 1)]) ''b.c.d'') =
     PDict [(''a'', PInt 1), (''b'', PDict [(''c'', PDict [])])] \<and>
   snd (get_value (PDict [(''a'', PInt 1)]) ''b.c.d'') \<noteq> PDict [(''a'', PInt 1)] \<and>
   prefixes_ok (PDict [(''b'', PDict [])]) (str_split ''b.c'') \<and>
   lookup_path (PDict [(''b'', PDict [])]) (str_split ''b.c'') = None \<and>
   lookup_path (PDict [(''b'', PDict [])]) (butlast (str_split ''b.c'')) = Some (PDict []) \<and>
   get_value (PDict [(''b'', PDict [])]) ''b.c'' = (Inr PNone, PDict [(''b'', PDict [])]) \<and>
   prefixes_ok (PDict [(''b'', PDict [(''c'', PInt 2)])]) (str_split ''b.c'') \<and>
   lookup_path (PDict [(''b'', PDict [(''c'', PInt 2)])]) (str_split ''b.c'') = Some (PInt 2) \<and>
   get_value (PDict [(''b'', PDict [(''c'', PInt 2)])]) ''b.c'' =
     (Inr (PInt 2), PDict [(''b'', PDict [(''c'', PInt 2)])])"
proof -
  have h1: "prefixes_ok (PDict [(''a'', PInt 1)]) (str_split ''b.c.d'')"
    by (simp add: dict_get_def)
  have n1: "lookup_path (PDict [(''a'', PInt 1)]) (str_split ''b.c.d'') = None"
    by (simp add: dict_get_def)
  have n2: "lookup_path (PDict [(''a'', PInt 1)]) (butlast (str_split ''b.c.d'')) = None"
    by (simp add: dict_get_def)
  have h2: "prefixes_ok (PDict [(''b'', PDict [(''c'', PInt 2)])]) (str_split ''b.c'')"
    by (simp add: dict_get_def)
  have p2: "lookup_path (PDict [(''b'', PDict [(''c'', PInt 2)])]) (str_split ''b.c'') = Some (PInt 2)"
    by (simp add: dict_get_def)
  have h3: "prefixes_ok (PDict [(''b'', PDict [])]) (str_split ''b.c'')"
    by (simp add: dict_get_def)
  have n3: "lookup_path (PDict [(''b'', PDict [])]) (str_split ''b.c'') = None"
    by (simp add: dict_get_def)
  have p3: "lookup_path (PDict [(''b'', PDict [])]) (butlast (str_split ''b.c'')) = Some (PDict [])"
    by (simp add: dict_get_def)
  have i: "insert_missing (PDict [(''a'', PInt 1)]) (butlast (str_split ''b.c.d'')) =
     PDict [(''a'', PInt 1), (''b'', PDict [(''c'', PDict [])])]"
    by (simp add: dict_get_def)
  have i3: "insert_missing (PDict [(''b'', PDict [])]) (butlast (str_split ''b.c'')) =
     PDict [(''b'', PDict [])]"
    by (simp add: dict_get_def)
  from get_value_not_read_only [OF h1] h1 n1 n2 i
  have a: "prefixes_ok (PDict [(''a'', PInt 1)]) (str_split ''b.c.d'') \<and>
   lookup_path (PDict [(''a'', PInt 1)]) (str_split ''b.c.d'') = None \<and>
   lookup_path (PDict [(''a'', PInt 1)]) (butlast (str_split ''b.c.d'')) = None \<and>
   fst (get_value (PDict [(''a'', PInt 1)]) ''b.c.d'') = Inr PNone \<and>
   snd (get_value (PDict [(''a'', PInt 1)]) ''b.c.d'') =
     PDict [(''a'', PInt 1), (''b'', PDict [(''c'', PDict [])])] \<and>
   snd (get_value (PDict [(''a'', PInt 1)]) ''b.c.d'') \<noteq> PDict [(''a'', PInt 1)]"
    by simp
  from get_value_not_read_only [OF h3] h3 n3 p3 i3
  have b: "prefixes_ok (PDict [(''b'', PDict [])]) (str_split ''b.c'') \<and>
   lookup_path (PDict [(''b'', PDict [])]) (str_split ''b.c'') = None \<and>
   lookup_path (PDict [(''b'', PDict [])]) (butlast (str_split ''b.c'')) = Some (PDict []) \<and>
   get_value (PDict [(''b'', PDict [])]) ''b.c'' = (Inr PNone, PDict [(''b'', PDict [])])"
    by (simp add: prod_eq_iff)
  from get_value_not_read_only [OF h2] h2 p2
  have c: "prefixes_ok (PDict [(''b'', PDict [(''c'', PInt 2)])]) (str_split ''b.c'') \<and>
   lookup_path (PDict [(''b'', PDict [(''c'', PInt 2)])]) (str_split ''b.c'') = Some (PInt 2) \<and>
   get_value (PDict [(''b'', PDict [(''c'', PInt 2)])]) ''b.c'' =
     (Inr (PInt 2), PDict [(''b'', PDict [(''c'', PInt 2)])])"
    by simp
  from a b c show ?thesis by blast
qed

section \<open>The number input\<close>

lemma ebind_Inr_iff: "ebind r f = Inr y \<longleftrightarrow> (\<exists>x. r = Inr x \<and> f x = Inr y)"
  by (cases r) (auto simp: ebind_def)

lemma dict_item_Inr_iff: "dict_item d k = Inr v \<longleftrightarrow> dict_get d k = Some v"
  by (auto simp: dict_item_def split: option.splits)

lemma default_kwargs_keys:
  assumes "default_kwargs lib rid key property = Inr kw" "k \<notin> {''label'', ''key'', ''help''}"
  shows "dict_get kw k = None"
  using assms
  by (auto simp: default_kwargs_def ebind_Inr_iff Let_def dict_get_def split: if_splits)

lemma set_format_other:
  assumes "set_format property kw = Inr kw'" "k \<noteq> ''format''"
  shows "dict_get kw' k = dict_get kw k"
  using assms by (auto simp: set_format_def dict_get_set_other split: if_splits)

lemma set_step_sets:
  assumes "set_step lib property kw = Inr kw'"
  shows "\<exists>step. dict_get kw' ''step'' = Some step \<and>
     (case dict_get property ''multipleOf'' of
        Some m \<Rightarrow> number_transform lib property m = Inr step
      | None \<Rightarrow> step = (if prop_get property ''type'' = PStr ''number''
                        then PFloat float_0_01 else PInt 1))"
  using assms
  by (auto simp: set_step_def ebind_Inr_iff dict_item_Inr_iff dict_has_def dict_get_set_same
      split: if_splits)

lemma set_step_other:
  assumes "set_step lib property kw = Inr kw'" "k \<noteq> ''step''"
  shows "dict_get kw' k = dict_get kw k"
  using assms
  by (auto simp: set_step_def ebind_Inr_iff dict_get_set_other split: if_splits)

lemma set_bound_sets:
  assumes "set_bound lib property name arg kw = Inr kw'"
  shows "(case dict_get property name of
            Some m \<Rightarrow> \<exists>v. number_transform lib property m = Inr v \<and> dict_get kw' arg = Some v
          | None \<Rightarrow> kw' = kw)"
  using assms
  by (auto simp: set_bound_def ebind_Inr_iff dict_item_Inr_iff dict_has_def dict_get_set_same
      split: if_splits)

lemma set_bound_other:
  assumes "set_bound lib property name arg kw = Inr kw'" "k \<noteq> arg"
  shows "dict_get kw' k = dict_get kw k"
  using assms
  by (auto simp: set_bound_def ebind_Inr_iff dict_get_set_other split: if_splits)

lemma set_exclusive_bound_sets:
  assumes "set_exclusive_bound lib property name arg op kw = Inr kw'"
  shows "(case dict_get property name of
            Some e \<Rightarrow> \<exists>st x v. dict_get kw ''step'' = Some st \<and> op lib e st = Inr x \<and>
                       number_transform lib property x = Inr v \<and> dict_get kw' arg = Some v
          | None \<Rightarrow> kw' = kw)"
  using assms
  by (auto simp: set_exclusive_bound_def ebind_Inr_iff dict_item_Inr_iff dict_has_def
      dict_get_set_same split: if_splits)

lemma set_exclusive_bound_other:
  assumes "set_exclusive_bound lib property name arg op kw = Inr kw'" "k \<noteq> arg"
  shows "dict_get kw' k = dict_get kw k"
  using assms
  by (auto simp: set_exclusive_bound_def ebind_Inr_iff dict_get_set_other split: if_splits)

lemma set_value_sets:
  assumes "set_value lib property kw = Inr kw'"
  shows "\<exists>v. dict_get kw' ''value'' = Some v \<and>
     (if prop_get property ''default'' \<noteq> PNone
      then number_transform lib property (prop_get property ''default'') = Inr v
      else (case dict_get kw ''min_value'' of
              Some m \<Rightarrow> v = m
            | None \<Rightarrow>
               (if prop_get property ''type'' \<noteq> PStr ''number'' then v = PInt 0
                else \<exists>st. dict_get kw ''step'' = Some st \<and>
                       number_transform lib property st = Inr v)))"
  using assms
  by (auto simp: set_value_def ebind_Inr_iff dict_item_Inr_iff dict_has_def dict_get_set_same
      split: if_splits)

lemma set_value_other:
  assumes "set_value lib property kw = Inr kw'" "k \<noteq> ''value''"
  shows "dict_get kw' k = dict_get kw k"
  using assms
  by (auto simp: set_value_def ebind_Inr_iff dict_get_set_other split: if_splits)


lemma number_input_kwargs_stages:
  assumes "number_input_kwargs lib rid key property = Inr kw"
  obtains kw0 kw1 kw2 kw3 kw4 kw5 kw6 where
    "default_kwargs lib rid key property = Inr kw0"
    "set_format property kw0 = Inr kw1"
    "set_step lib property kw1 = Inr kw2"
    "set_bound lib property ''minimum'' ''min_value'' kw2 = Inr kw3"
    "set_exclusive_bound lib property ''exclusiveMinimum'' ''min_value'' py_add kw3 = Inr kw4"
    "set_bound lib property ''maximum'' ''max_value'' kw4 = Inr kw5"
    "set_exclusive_bound lib property ''exclusiveMaximum'' ''max_value'' py_sub kw5 = Inr kw6"
    "set_value lib property kw6 = Inr kw"
  using assms unfolding number_input_kwargs_def ebind_Inr_iff by blast

lemma number_kwargs_step:
  assumes "number_input_kwargs lib rid key property = Inr kw"
  shows "\<exists>step. dict_get kw ''step'' = Some step \<and>
     (case dict_get property ''multipleOf'' of
        Some m \<Rightarrow> number_transform lib property m = Inr step
      | None \<Rightarrow> step = (if prop_get property ''type'' = PStr ''number''
                        then PFloat float_0_01 else PInt 1))"
proof -
  from assms obtain kw0 kw1 kw2 kw3 kw4 kw5 kw6 where st:
    "set_step lib property kw1 = Inr kw2"
    "set_bound lib property ''minimum'' ''min_value'' kw2 = Inr kw3"
    "set_exclusive_bound lib property ''exclusiveMinimum'' ''min_value'' py_add kw3 = Inr kw4"
    "set_bound lib property ''maximum'' ''max_value'' kw4 = Inr kw5"
    "set_exclusive_bound lib property ''exclusiveMaximum'' ''max_value'' py_sub kw5 = Inr kw6"
    "set_value lib property kw6 = Inr kw"
    by (rule number_input_kwargs_stages)
  have "dict_get kw ''step'' = dict_get kw2 ''step''"
    using set_bound_other [OF st(2), of "''step''"] set_exclusive_bound_other [OF st(3), of "''step''"]
      set_bound_other [OF st(4), of "''step''"] set_exclusive_bound_other [OF st(5), of "''step''"]
      set_value_other [OF st(6), of "''step''"]
    by simp
  with set_step_sets [OF st(1)] show ?thesis by simp
qed

lemma number_kwargs_min:
  assumes "number_input_kwargs lib rid key property = Inr kw"
    and "dict_get kw ''step'' = Some step"
  shows "(case dict_get property ''exclusiveMinimum'' of
            Some e \<Rightarrow> \<exists>x v. py_add lib e step = Inr x \<and> number_transform lib property x = Inr v \<and>
                       dict_get kw ''min_value'' = Some v
          | None \<Rightarrow>
             (case dict_get property ''minimum'' of
                Some m \<Rightarrow> \<exists>v. number_transform lib property m = Inr v \<and>
                           dict_get kw ''min_value'' = Some v
              | None \<Rightarrow> dict_get kw ''min_value'' = None))"
proof -
  from assms(1) obtain kw0 kw1 kw2 kw3 kw4 kw5 kw6 where st:
    "default_kwargs lib rid key property = Inr kw0"
    "set_format property kw0 = Inr kw1"
    "set_step lib property kw1 = Inr kw2"
    "set_bound lib property ''minimum'' ''min_value'' kw2 = Inr kw3"
    "set_exclusive_bound lib property ''exclusiveMinimum'' ''min_value'' py_add kw3 = Inr kw4"
    "set_bound lib property ''maximum'' ''max_value'' kw4 = Inr kw5"
    "set_exclusive_bound lib property ''exclusiveMaximum'' ''max_value'' py_sub kw5 = Inr kw6"
    "set_value lib property kw6 = Inr kw"
    by (rule number_input_kwargs_stages)
  have s3: "dict_get kw3 ''step'' = Some step"
    using assms(2) set_exclusive_bound_other [OF st(5), of "''step''"]
      set_bound_other [OF st(6), of "''step''"] set_exclusive_bound_other [OF st(7), of "''step''"]
      set_value_other [OF st(8), of "''step''"]
    by simp
  have m2: "dict_get kw2 ''min_value'' = None"
    using default_kwargs_keys [OF st(1), of "''min_value''"] set_format_other [OF st(2), of "''min_value''"]
      set_step_other [OF st(3), of "''min_value''"]
    by simp
  have m4: "dict_get kw ''min_value'' = dict_get kw4 ''min_value''"
    using set_bound_other [OF st(6), of "''min_value''"]
      set_exclusive_bound_other [OF st(7), of "''min_value''"]
      set_value_other [OF st(8), of "''min_value''"]
    by simp
  show ?thesis
    using set_bound_sets [OF st(4)] set_exclusive_bound_sets [OF st(5)] s3 m2 m4
    by (auto split: option.splits)
qed

lemma number_kwargs_max:
  assumes "number_input_kwargs lib rid key property = Inr kw"
    and "dict_get kw ''step'' = Some step"
  shows "(case dict_get property ''exclusiveMaximum'' of
            Some e \<Rightarrow> \<exists>x v. py_sub lib e step = Inr x \<and> number_transform lib property x = Inr v \<and>
                       dict_get kw ''max_value'' = Some v
          | None \<Rightarrow>
             (case dict_get property ''maximum'' of
                Some m \<Rightarrow> \<exists>v. number_transform lib property m = Inr v \<and>
                           dict_get kw ''max_value'' = Some v
              | None \<Rightarrow> dict_get kw ''max_value'' = None))"
proof -
  from assms(1) obtain kw0 kw1 kw2 kw3 kw4 kw5 kw6 where st:
    "default_kwargs lib rid key property = Inr kw0"
    "set_format property kw0 = Inr kw1"
    "set_step lib property kw1 = Inr kw2"
    "set_bound lib property ''minimum'' ''min_value'' kw2 = Inr kw3"
    "set_exclusive_bound lib property ''exclusiveMinimum'' ''min_value'' py_add kw3 = Inr kw4"
    "set_bound lib property ''maximum'' ''max_value'' kw4 = Inr kw5"
    "set_exclusive_bound lib property ''exclusiveMaximum'' ''max_value'' py_sub kw5 = Inr kw6"
    "set_value lib property kw6 = Inr kw"
    by (rule number_input_kwargs_stages)
  have s5: "dict_get kw5 ''step'' = Some step"
    using assms(2) set_exclusive_bound_other [OF st(7), of "''step''"]
      set_value_other [OF st(8), of "''step''"]
    by simp
  have m4: "dict_get kw4 ''max_value'' = None"
    using default_kwargs_keys [OF st(1), of "''max_value''"] set_format_other [OF st(2), of "''max_value''"]
      set_step_other [OF st(3), of "''max_value''"] set_bound_other [OF st(4), of "''max_value''"]
      set_exclusive_bound_other [OF st(5), of "''max_value''"]
    by simp
  have m6: "dict_get kw ''max_value'' = dict_get kw6 ''max_value''"
    using set_value_other [OF st(8), of "''max_value''"] by simp
  show ?thesis
    using set_bound_sets [OF st(6)] set_exclusive_bound_sets [OF st(7)] s5 m4 m6
    by (auto split: option.splits)
qed

lemma number_kwargs_value:
  assumes "number_input_kwargs lib rid key property = Inr kw"
    and "dict_get kw ''step'' = Some step"
  shows "\<exists>v. dict_get kw ''value'' = Some v \<and>
     (if prop_get property ''default'' \<noteq> PNone
      then number_transform lib property (prop_get property ''default'') = Inr v
      else (case dict_get kw ''min_value'' of
              Some m \<Rightarrow> v = m
            | None \<Rightarrow>
               (if prop_get property ''type'' \<noteq> PStr ''number'' then v = PInt 0
                else number_transform lib property step = Inr v)))"
proof -
  from assms(1) obtain kw6 where st: "set_value lib property kw6 = Inr kw"
    by (rule number_input_kwargs_stages)
  have "dict_get kw6 ''step'' = Some step" "dict_get kw6 ''min_value'' = dict_get kw ''min_value''"
    using assms(2) set_value_other [OF st, of "''step''"] set_value_other [OF st, of "''min_value''"]
    by simp_all
  with set_value_sets [OF st] show ?thesis
    by (auto split: option.splits if_splits)
qed


lemma py_int_is_int: "py_int lib x = Inr v \<Longrightarrow> \<exists>i. v = PInt i"
  by (cases x) (auto simp: ebind_Inr_iff split: sum.splits pyval.splits)

lemma number_transform_int:
  "prop_get property ''type'' \<noteq> PStr ''number'' \<Longrightarrow>
   number_transform lib property (PInt i) = Inr (PInt i)"
  by (simp add: number_transform_def)

lemma py_add_int: "py_add lib (PInt a) (PInt b) = Inr (PInt (a + b))"
  by (simp add: py_add_def py_arith_def)

lemma py_sub_int: "py_sub lib (PInt a) (PInt b) = Inr (PInt (a - b))"
  by (simp add: py_sub_def py_arith_def)

lemma number_kwargs_integer:
  assumes "number_input_kwargs lib rid key property = Inr kw"
    and "dict_get kw ''step'' = Some step"
    and "prop_get property ''type'' \<noteq> PStr ''number''"
  shows "\<exists>st. step = PInt st \<and>
     (\<forall>m. dict_get property ''multipleOf'' = Some (PInt m) \<longrightarrow> st = m) \<and>
     (\<forall>e. dict_get property ''exclusiveMinimum'' = Some (PInt e) \<longrightarrow>
        dict_get kw ''min_value'' = Some (PInt (e + st)) \<and> (0 < st \<longrightarrow> e < e + st)) \<and>
     (\<forall>m. dict_get property ''exclusiveMinimum'' = None \<longrightarrow>
        dict_get property ''minimum'' = Some (PInt m) \<longrightarrow>
        dict_get kw ''min_value'' = Some (PInt m)) \<and>
     (\<forall>e. dict_get property ''exclusiveMaximum'' = Some (PInt e) \<longrightarrow>
        dict_get kw ''max_value'' = Some (PInt (e - st)) \<and> (0 < st \<longrightarrow> e - st < e)) \<and>
     (\<forall>m. dict_get property ''exclusiveMaximum'' = None \<longrightarrow>
        dict_get property ''maximum'' = Some (PInt m) \<longrightarrow>
        dict_get kw ''max_value'' = Some (PInt m))"
proof -
  from number_kwargs_step [OF assms(1)] assms(2)
  have sp: "(case dict_get property ''multipleOf'' of
        Some m \<Rightarrow> number_transform lib property m = Inr step
      | None \<Rightarrow> step = (if prop_get property ''type'' = PStr ''number''
                        then PFloat float_0_01 else PInt 1))"
    by simp
  have "\<exists>st. step = PInt st"
    using sp assms(3) py_int_is_int [of lib _ step]
    by (auto simp: number_transform_def split: option.splits)
  then obtain st where st: "step = PInt st" ..
  have 1: "\<forall>m. dict_get property ''multipleOf'' = Some (PInt m) \<longrightarrow> st = m"
    using sp assms(3) by (auto simp: st number_transform_def)
  have 2: "\<forall>e. dict_get property ''exclusiveMinimum'' = Some (PInt e) \<longrightarrow>
        dict_get kw ''min_value'' = Some (PInt (e + st)) \<and> (0 < st \<longrightarrow> e < e + st)"
    using number_kwargs_min [OF assms(1,2)] assms(3)
    by (auto simp: st py_add_int number_transform_int)
  have 3: "\<forall>m. dict_get property ''exclusiveMinimum'' = None \<longrightarrow>
        dict_get property ''minimum'' = Some (PInt m) \<longrightarrow>
        dict_get kw ''min_value'' = Some (PInt m)"
    using number_kwargs_min [OF assms(1,2)] assms(3)
    by (auto simp: number_transform_int)
  have 4: "\<forall>e. dict_get property ''exclusiveMaximum'' = Some (PInt e) \<longrightarrow>
        dict_get kw ''max_value'' = Some (PInt (e - st)) \<and> (0 < st \<longrightarrow> e - st < e)"
    using number_kwargs_max [OF assms(1,2)] assms(3)
    by (auto simp: st py_sub_int number_transform_int)
  have 5: "\<forall>m. dict_get property ''exclusiveMaximum'' = None \<longrightarrow>
        dict_get property ''maximum'' = Some (PInt m) \<longrightarrow>
        dict_get kw ''max_value'' = Some (PInt m)"
    using number_kwargs_max [OF assms(1,2)] assms(3)
    by (auto simp: number_transform_int)
  from st 1 2 3 4 5 show ?thesis by blast
qed

lemma render_single_number_input_widget:
  assumes "number_input_kwargs lib (run_id s) key property = Inr kw"
  shows "render_single_number_input lib h app key property s =
     widget h app
       (if dict_has kw ''min_value'' \<and> dict_has kw ''max_value'' then ''slider'' else ''number_input'')
       [] kw s"
  using assms by (simp add: render_single_number_input_def seq_def)

text \<open>
  C3, amended: what \<^verbatim>\<open>_render_single_number_input\<close> passes to the widget, whenever it
  gets as far as the widget. With \<open>number_transform\<close> being \<^verbatim>\<open>float\<close> for the type
  \<^verbatim>\<open>"number"\<close> and \<^verbatim>\<open>int\<close> otherwise:
  \<^item> \<open>step\<close> is the transformed \<^verbatim>\<open>multipleOf\<close> when present, else 1 for \<^verbatim>\<open>int\<close> and
    0.01 for \<^verbatim>\<open>float\<close>;
  \<^item> \<open>min_value\<close> is the transformed \<^verbatim>\<open>exclusiveMinimum + step\<close> when
    \<^verbatim>\<open>exclusiveMinimum\<close> is present, else the transformed \<^verbatim>\<open>minimum\<close> when that is
    present, else it is not set; \<open>max_value\<close> likewise from
    \<^verbatim>\<open>exclusiveMaximum - step\<close> and \<^verbatim>\<open>maximum\<close>;
  \<^item> \<open>value\<close> is the transformed default when the schema has one, else \<open>min_value\<close>
    when that is set, else 0 for \<^verbatim>\<open>int\<close> and the step for \<^verbatim>\<open>float\<close>;
  \<^item> the widget is a slider exactly when both \<open>min_value\<close> and \<open>max_value\<close> are set, a
    plain number input otherwise, called with these keyword arguments;
  \<^item> for a property that is not of type \<^verbatim>\<open>"number"\<close> the step is an integer, and
    integer entries of the schema arrive unchanged: \<open>step\<close> is \<^verbatim>\<open>multipleOf\<close>,
    \<open>min_value\<close> is \<^verbatim>\<open>exclusiveMinimum + step\<close> (strictly greater than
    \<^verbatim>\<open>exclusiveMinimum\<close> for a positive step) or \<^verbatim>\<open>minimum\<close>, \<open>max_value\<close> is
    \<^verbatim>\<open>exclusiveMaximum - step\<close> (strictly smaller for a positive step) or
    \<^verbatim>\<open>maximum\<close>.
\<close>

theorem number_input_configuration:
  assumes "number_input_kwargs lib (run_id s) key property = Inr kw"
  shows "\<exists>step value.
     dict_get kw ''step'' = Some step \<and>
     (case dict_get property ''multipleOf'' of
        Some m \<Rightarrow> number_transform lib property m = Inr step
      | None \<Rightarrow> step = (if prop_get property ''type'' = PStr ''number''
                        then PFloat float_0_01 else PInt 1)) \<and>
     (case dict_get property ''exclusiveMinimum'' of
        Some e \<Rightarrow> \<exists>x v. py_add lib e step = Inr x \<and> number_transform lib property x = Inr v \<and>
                   dict_get kw ''min_value'' = Some v
      | None \<Rightarrow>
         (case dict_get property ''minimum'' of
            Some m \<Rightarrow> \<exists>v. number_transform lib property m = Inr v \<and>
                       dict_get kw ''min_value'' = Some v
          | None \<Rightarrow> dict_get kw ''min_value'' = None)) \<and>
     (case dict_get property ''exclusiveMaximum'' of
        Some e \<Rightarrow> \<exists>x v. py_sub lib e step = Inr x \<and> number_transform lib property x = Inr v \<and>
                   dict_get kw ''max_value'' = Some v
      | None \<Rightarrow>
         (case dict_get property ''maximum'' of
            Some m \<Rightarrow> \<exists>v. number_transform lib property m = Inr v \<and>
                       dict_get kw ''max_value'' = Some v
          | None \<Rightarrow> dict_get kw ''max_value'' = None)) \<and>
     dict_get kw ''value'' = Some value \<and>
     (if prop_get property ''default'' \<noteq> PNone
      then number_transform lib property (prop_get property ''default'') = Inr value
      else (case dict_get kw ''min_value'' of
              Some m \<Rightarrow> value = m
            | None \<Rightarrow>
               (if prop_get property ''type'' \<noteq> PStr ''number'' then value = PInt 0
                else number_transform lib property step = Inr value))) \<and>
     render_single_number_input lib h streamlit_app key property s =
       widget h streamlit_app
         (if dict_has kw ''min_value'' \<and> dict_has kw ''max_value''
          then ''slider'' else ''number_input'') [] kw s \<and>
     (prop_get property ''type'' \<noteq> PStr ''number'' \<longrightarrow>
        (\<exists>st. step = PInt st \<and>
          (\<forall>m. dict_get property ''multipleOf'' = Some (PInt m) \<longrightarrow> st = m) \<and>
          (\<forall>e. dict_get property ''exclusiveMinimum'' = Some (PInt e) \<longrightarrow>
             dict_get kw ''min_value'' = Some (PInt (e + st)) \<and> (0 < st \<longrightarrow> e < e + st)) \<and>
          (\<forall>m. dict_get property ''exclusiveMinimum'' = None \<longrightarrow>
             dict_get property ''minimum'' = Some (PInt m) \<longrightarrow>
             dict_get kw ''min_value'' = Some (PInt m)) \<and>
          (\<forall>e. dict_get property ''exclusiveMaximum'' = Some (PInt e) \<longrightarrow>
             dict_get kw ''max_value'' = Some (PInt (e - st)) \<and> (0 < st \<longrightarrow> e - st < e)) \<and>
          (\<forall>m. dict_get property ''exclusiveMaximum'' = None \<longrightarrow>
             dict_get property ''maximum'' = Some (PInt m) \<longrightarrow>
             dict_get kw ''max_value'' = Some (PInt m))))"
proof -
  from number_kwargs_step [OF assms] obtain step where
    s1: "dict_get kw ''step'' = Some step" and
    s2: "(case dict_get property ''multipleOf'' of
        Some m \<Rightarrow> number_transform lib property m = Inr step
      | None \<Rightarrow> step = (if prop_get property ''type'' = PStr ''number''
                        then PFloat float_0_01 else PInt 1))"
    by blast
  from number_kwargs_value [OF assms s1] obtain "value" where
    v1: "dict_get kw ''value'' = Some value" and
    v2: "(if prop_get property ''default'' \<noteq> PNone
      then number_transform lib property (prop_get property ''default'') = Inr value
      else (case dict_get kw ''min_value'' of
              Some m \<Rightarrow> value = m
            | None \<Rightarrow>
               (if prop_get property ''type'' \<noteq> PStr ''number'' then value = PInt 0
                else number_transform lib property step = Inr value)))"
    by blast
  note a = number_kwargs_min [OF assms s1]
  note b = number_kwargs_max [OF assms s1]
  note c = render_single_number_input_widget [OF assms, of h streamlit_app]
  have d: "prop_get property ''type'' \<noteq> PStr ''number'' \<longrightarrow>
        (\<exists>st. step = PInt st \<and>
          (\<forall>m. dict_get property ''multipleOf'' = Some (PInt m) \<longrightarrow> st = m) \<and>
          (\<forall>e. dict_get property ''exclusiveMinimum'' = Some (PInt e) \<longrightarrow>
             dict_get kw ''min_value'' = Some (PInt (e + st)) \<and> (0 < st \<longrightarrow> e < e + st)) \<and>
          (\<forall>m. dict_get property ''exclusiveMinimum'' = None \<longrightarrow>
             dict_get property ''minimum'' = Some (PInt m) \<longrightarrow>
             dict_get kw ''min_value'' = Some (PInt m)) \<and>
          (\<forall>e. dict_get property ''exclusiveMaximum'' = Some (PInt e) \<longrightarrow>
             dict_get kw ''max_value'' = Some (PInt (e - st)) \<and> (0 < st \<longrightarrow> e - st < e)) \<and>
          (\<forall>m. dict_get property ''exclusiveMaximum'' = None \<longrightarrow>
             dict_get property ''maximum'' = Some (PInt m) \<longrightarrow>
             dict_get kw ''max_value'' = Some (PInt m)))"
    using number_kwargs_integer [OF assms s1] by blast
  show ?thesis
    apply (rule exI [of _ step])
    apply (rule exI [of _ "value"])
    apply (intro conjI)
           apply (rule s1)
          apply (rule s2)
         apply (rule a)
        apply (rule b)
       apply (rule v1)
      apply (rule v2)
     apply (rule c)
    apply (rule d)
    done
qed

theorem number_input_configuration_witness:
  "number_input_kwargs no_lib
     (run_id \<lparr>input_data = PDict [], output_data = PNone, latest_operation_input = PNone,
        run_id = PInt 3, trace = []\<rparr>) ''age''
     [(''title'', PStr ''Age''), (''type'', PStr ''integer''), (''exclusiveMinimum'', PInt 0),
      (''maximum'', PInt 120)]
   = Inr [(''label'', PStr ''Age''), (''key'', PStr ''3-age''), (''step'', PInt 1),
          (''min_value'', PInt 1), (''max_value'', PInt 120), (''value'', PInt 1)] \<and>
   render_single_number_input no_lib (\<lambda>c. Inr PNone) St ''age''
     [(''title'', PStr ''Age''), (''type'', PStr ''integer''), (''exclusiveMinimum'', PInt 0),
      (''maximum'', PInt 120)]
     \<lparr>input_data = PDict [], output_data = PNone, latest_operation_input = PNone,
        run_id = PInt 3, trace = []\<rparr>
   = widget (\<lambda>c. Inr PNone) St ''slider'' []
       [(''label'', PStr ''Age''), (''key'', PStr ''3-age''), (''step'', PInt 1),
        (''min_value'', PInt 1), (''max_value'', PInt 120), (''value'', PInt 1)]
       \<lparr>input_data = PDict [], output_data = PNone, latest_operation_input = PNone,
          run_id = PInt 3, trace = []\<rparr>"
proof -
  have h: "number_input_kwargs no_lib
     (run_id \<lparr>input_data = PDict [], output_data = PNone, latest_operation_input = PNone,
        run_id = PInt 3, trace = []\<rparr>) ''age''
     [(''title'', PStr ''Age''), (''type'', PStr ''integer''), (''exclusiveMinimum'', PInt 0),
      (''maximum'', PInt 120)]
   = Inr [(''label'', PStr ''Age''), (''key'', PStr ''3-age''), (''step'', PInt 1),
          (''min_value'', PInt 1), (''max_value'', PInt 120), (''value'', PInt 1)]"
    by (simp add: number_input_kwargs_def default_kwargs_def set_format_def set_step_def
      set_bound_def set_exclusive_bound_def set_value_def number_transform_def ebind_def
      prop_get_def dict_get_def dict_has_def dict_item_def str_of_int_def py_add_def py_sub_def
      py_arith_def)
  from number_input_configuration [OF h, of "\<lambda>c. Inr PNone" St] h show ?thesis
    by (auto simp: dict_has_def dict_get_def)
qed

lemma int_of_float_half: "int_of_float 0x3FE0000000000000 = Inr 0"
  by code_simp

text \<open>
  C3, as stated: \<open>min_value\<close> is set to \<^verbatim>\<open>minimum\<close>. For the property
  \<^verbatim>\<open>{"title": "N", "type": "integer", "minimum": 0.5}\<close> (the float 0.5 is
  \<^verbatim>\<open>0x3FE0000000000000\<close>) the widget gets \<^verbatim>\<open>min_value = int(0.5) = 0\<close>, which is not
  the minimum and lies below it.
\<close>

theorem number_input_minimum_counterexample:
  "number_input_kwargs no_lib (PInt 0) ''n''
     [(''title'', PStr ''N''), (''type'', PStr ''integer''), (''minimum'', PFloat 0x3FE0000000000000)]
   = Inr [(''label'', PStr ''N''), (''key'', PStr ''0-n''), (''step'', PInt 1),
          (''min_value'', PInt 0), (''value'', PInt 0)] \<and>
   dict_get [(''label'', PStr ''N''), (''key'', PStr ''0-n''), (''step'', PInt 1),
          (''min_value'', PInt 0), (''value'', PInt 0)] ''min_value''
   \<noteq> dict_get [(''title'', PStr ''N''), (''type'', PStr ''integer''),
          (''minimum'', PFloat 0x3FE0000000000000)] ''minimum''"
  by (simp add: number_input_kwargs_def default_kwargs_def set_format_def set_step_def
      set_bound_def set_exclusive_bound_def set_value_def number_transform_def ebind_def
      prop_get_def dict_get_def dict_has_def dict_item_def str_of_int_def int_of_float_half)

section \<open>The dispatch, the output and the execution\<close>

lemma render_property_table:
  "render_property ui h (Suc depth) streamlit_app key property =
     (case first_true (shape_tests ui property) of
        Some i \<Rightarrow> shape_renderers ui h depth streamlit_app key property ! i
      | None \<Rightarrow> unsupported_property (library ui) h streamlit_app property)"
  by (simp add: shape_tests_def shape_renderers_def)

lemma first_true_None: "first_true bs = None \<longleftrightarrow> (\<forall>b \<in> set bs. \<not> b)"
  by (induction bs) auto

lemma first_true_Some:
  "first_true bs = Some i \<longleftrightarrow> i < length bs \<and> bs ! i \<and> (\<forall>j < i. \<not> bs ! j)"
proof (induction bs arbitrary: i)
  case Nil
  then show ?case by simp
next
  case (Cons b bs)
  show ?case
  proof (cases b)
    case True
    then show ?thesis by (cases i) auto
  next
    case False
    show ?thesis
    proof (cases i)
      case 0
      with False show ?thesis by simp
    next
      case (Suc n)
      have "(\<forall>j<Suc n. \<not> (b # bs) ! j) = (\<forall>j<n. \<not> bs ! j)"
        using False by (auto simp: less_Suc_eq_0_disj)
      with False Suc Cons.IH [of n] show ?thesis by auto
    qed
  qed
qed

lemma unsupported_property_raises:
  "\<exists>e s'. unsupported_property lb h streamlit_app property s = (Inl e, s')"
  by (auto simp: unsupported_property_def seq_def lift_def widget_def throw_def
      split: sum.splits prod.splits)

lemma unsupported_property_warns:
  assumes "py_str lb (prop_get property ''title'') = Inr t"
  shows "trace (snd (unsupported_property lb h streamlit_app property s)) =
           trace s @ [Call streamlit_app ''warning''
             [PStr (''The type of the following property is currently not supported: '' @ t)] []]
       \<and> (\<forall>v. h (Call streamlit_app ''warning''
             [PStr (''The type of the following property is currently not supported: '' @ t)] []) = Inr v
           \<longrightarrow> fst (unsupported_property lb h streamlit_app property s) = Inl UnsupportedProperty)"
  using assms
  by (auto simp: unsupported_property_def seq_def lift_def widget_def throw_def
      split: sum.splits prod.splits)


text \<open>
  C4. Within the recursion limit \<^verbatim>\<open>_render_property\<close> is a dispatch on the shape of
  the property with a fixed priority: of the thirteen shape tests, taken in the order
  single enum, multi enum, single file, multi file, datetime, boolean, dict, number,
  string, single object, object list, property list, single reference, the first that
  holds selects the renderer, and exactly that renderer is run. When no test holds the
  call ends in an exception; when the title has a text, the warning that names the
  property is the one call made before it, and the exception is the one the function
  raises itself unless the host raised on the warning.
\<close>

theorem render_property_dispatch:
  "render_property ui h (Suc depth) streamlit_app key property =
     (case first_true (shape_tests ui property) of
        Some i \<Rightarrow> shape_renderers ui h depth streamlit_app key property ! i
      | None \<Rightarrow> unsupported_property (library ui) h streamlit_app property)
   \<and> (\<forall>i. first_true (shape_tests ui property) = Some i \<longleftrightarrow>
          i < 13 \<and> shape_tests ui property ! i \<and> (\<forall>j<i. \<not> shape_tests ui property ! j))
   \<and> (first_true (shape_tests ui property) = None \<longleftrightarrow>
          (\<forall>b \<in> set (shape_tests ui property). \<not> b))
   \<and> (\<exists>e s'. unsupported_property (library ui) h streamlit_app property s = (Inl e, s'))
   \<and> (\<forall>t. py_str (library ui) (prop_get property ''title'') = Inr t \<longrightarrow>
          trace (snd (unsupported_property (library ui) h streamlit_app property s)) =
            trace s @ [Call streamlit_app ''warning''
              [PStr (''The type of the following property is currently not supported: '' @ t)] []]
          \<and> (\<forall>v. h (Call streamlit_app ''warning''
              [PStr (''The type of the following property is currently not supported: '' @ t)] [])
                = Inr v
              \<longrightarrow> fst (unsupported_property (library ui) h streamlit_app property s)
                    = Inl UnsupportedProperty))"
proof -
  have len: "length (shape_tests ui property) = 13"
    by (simp add: shape_tests_def)
  have 2: "\<forall>i. first_true (shape_tests ui property) = Some i \<longleftrightarrow>
          i < 13 \<and> shape_tests ui property ! i \<and> (\<forall>j<i. \<not> shape_tests ui property ! j)"
    using first_true_Some [of "shape_tests ui property"] len by simp
  show ?thesis
    using render_property_table [of ui h depth streamlit_app key property] 2
      first_true_None [of "shape_tests ui property"]
      unsupported_property_raises [of "library ui" h streamlit_app property s]
      unsupported_property_warns [of "library ui" property _ h streamlit_app s]
    by blast
qed

theorem render_property_dispatch_witness:
  "first_true (shape_tests (new_input_ui no_lib plain_utils \<lparr>class_schema = [], render_input_ui = None\<rparr>)
       [(''title'', PStr ''When''), (''type'', PStr ''string''), (''format'', PStr ''time'')]) = Some 4
   \<and> render_property (new_input_ui no_lib plain_utils \<lparr>class_schema = [], render_input_ui = None\<rparr>)
       quiet_host (Suc 0) Sidebar ''when''
       [(''title'', PStr ''When''), (''type'', PStr ''string''), (''format'', PStr ''time'')]
     = render_single_datetime_input
         (new_input_ui no_lib plain_utils \<lparr>class_schema = [], render_input_ui = None\<rparr>)
         quiet_host Sidebar ''when''
         [(''title'', PStr ''When''), (''type'', PStr ''string''), (''format'', PStr ''time'')]
   \<and> first_true (shape_tests (new_input_ui no_lib plain_utils \<lparr>class_schema = [], render_input_ui = None\<rparr>)
       [(''title'', PStr ''Odd''), (''type'', PStr ''null'')]) = None
   \<and> render_property (new_input_ui no_lib plain_utils \<lparr>class_schema = [], render_input_ui = None\<rparr>)
       quiet_host (Suc 0) St ''odd'' [(''title'', PStr ''Odd''), (''type'', PStr ''null'')] start_state
     = (Inl UnsupportedProperty,
        start_state\<lparr>trace := [Call St ''warning''
          [PStr ''The type of the following property is currently not supported: Odd''] []]\<rparr>)"
proof -
  let ?ui = "new_input_ui no_lib plain_utils \<lparr>class_schema = [], render_input_ui = None\<rparr>"
  let ?p = "[(''title'', PStr ''When''), (''type'', PStr ''string''), (''format'', PStr ''time'')]"
  let ?q = "[(''title'', PStr ''Odd''), (''type'', PStr ''null'')]"
  have a: "first_true (shape_tests ?ui ?p) = Some 4"
    by (simp add: shape_tests_def new_input_ui_def plain_utils_def prop_get_def dict_get_def)
  have b: "first_true (shape_tests ?ui ?q) = None"
    by (simp add: shape_tests_def new_input_ui_def plain_utils_def prop_get_def dict_get_def)
  have c: "shape_renderers ?ui quiet_host 0 Sidebar ''when'' ?p ! 4
             = render_single_datetime_input ?ui quiet_host Sidebar ''when'' ?p"
    by (simp add: shape_renderers_def)
  have d: "unsupported_property (library ?ui) quiet_host St ?q start_state
     = (Inl UnsupportedProperty,
        start_state\<lparr>trace := [Call St ''warning''
          [PStr ''The type of the following property is currently not supported: Odd''] []]\<rparr>)"
    by (simp add: unsupported_property_def seq_def lift_def widget_def throw_def quiet_host_def
        start_state_def prop_get_def dict_get_def)
  from render_property_dispatch [of ?ui quiet_host 0 Sidebar "''when''" ?p]
    render_property_dispatch [of ?ui quiet_host 0 St "''odd''" ?q]
    a b c d
  show ?thesis by simp
qed

text \<open>
  C5, amended: \<^verbatim>\<open>OutputUI.render_ui\<close> renders a model instance by
  \<^verbatim>\<open>_render_single_output\<close> and a list by \<^verbatim>\<open>_render_list_output\<close> (an exception of
  either is shown, followed by the output as JSON); for a value that is neither it
  makes no call on the host and returns.
\<close>

theorem output_render_ui_dispatch:
  "(case ui_output_data ui of
      PModel c fs \<Rightarrow>
        output_render_ui ui h depth s =
          attempt (render_single_output ui h depth (ui_output_data ui)) (render_exception ui h) s
    | PList xs \<Rightarrow>
        output_render_ui ui h depth s =
          attempt (render_list_output ui h (ui_output_data ui)) (render_exception ui h) s
    | _ \<Rightarrow> output_render_ui ui h depth s = (Inr (), s))"
  by (cases "ui_output_data ui")
     (simp_all add: output_render_ui_def attempt_def ret_def)

text \<open>
  C5, as stated: every output value is rendered. For the output
  \<^verbatim>\<open>{"text": "done"}\<close>, a dict, \<^verbatim>\<open>OutputUI.render_ui\<close> returns without a single call
  on the host.
\<close>

theorem output_render_ui_other_counterexample:
  "output_render_ui
     \<lparr>out_library = no_lib, out_utils = plain_utils, out_env = plain_env,
      ui_output_data = PDict [(''text'', PStr ''done'')], ui_input_data = PNone\<rparr>
     quiet_host 10 start_state
   = (Inr (), start_state)
   \<and> trace start_state = []"
  by (simp add: output_render_ui_def attempt_def ret_def start_state_def)


lemma execute_unfold:
  assumes "h (Call St ''spinner'' [PStr ''Executing operation. Please wait...''] []) = Inr spinner"
    and "is_object spinner"
    and "h (Call (Obj spinner) ''__enter__'' [] []) = Inr x"
  shows "execute op h s =
     (case attempt_validation
             (seq (\<lambda>s. (parse_obj_as op (input_data s), s)) (\<lambda>input_data_obj.
              seq (operation op h input_data_obj) (\<lambda>out.
              (\<lambda>s. (Inr (), s\<lparr>output_data := out, latest_operation_input := input_data_obj\<rparr>)))))
             (\<lambda>ex. seq (widget h St ''error'' [exn_obj ex] []) (\<lambda>_. ret ()))
             (s\<lparr>trace := trace s @
                 [Call St ''spinner'' [PStr ''Executing operation. Please wait...''] [],
                  Call (Obj spinner) ''__enter__'' [] []]\<rparr>) of
        (r, s') \<Rightarrow>
          (case widget h (Obj spinner) ''__exit__'' [] [] s' of
             (Inl e, s'') \<Rightarrow> (Inl e, s'')
           | (Inr _, s'') \<Rightarrow> (r, s'')))"
  using assms by (simp add: execute_def with_cm_def seq_def widget_def)

lemma execute_invalid_state:
  assumes "parse_obj_as op (input_data s) = Inl ValidationError"
  shows "\<exists>r t. execute op h s = (r, s\<lparr>trace := t\<rparr>)
           \<and> (\<forall>f. execute (op\<lparr>operation := f\<rparr>) h s = (r, s\<lparr>trace := t\<rparr>))"
proof (cases "h (Call St ''spinner'' [PStr ''Executing operation. Please wait...''] [])")
  case (Inl e)
  then show ?thesis
    by (auto simp: execute_def seq_def widget_def)
next
  case (Inr spinner)
  show ?thesis
  proof (cases "is_object spinner")
    case False
    with Inr show ?thesis
      by (auto simp: execute_def seq_def widget_def with_cm_def throw_def)
  next
    case True
    show ?thesis
    proof (cases "h (Call (Obj spinner) ''__enter__'' [] [])")
      case (Inl e)
      with Inr True show ?thesis
        by (auto simp: execute_def seq_def widget_def with_cm_def)
    next
      case enter: (Inr x)
      have "\<And>op'. parse_obj_as op' = parse_obj_as op \<Longrightarrow>
         execute op' h s =
           (case h (Call St ''error'' [PObj ''ValidationError''] []) of
              Inl e \<Rightarrow>
                (case h (Call (Obj spinner) ''__exit__'' [] []) of
                   Inl e' \<Rightarrow> Inl e' | Inr _ \<Rightarrow> Inl e)
            | Inr _ \<Rightarrow>
                (case h (Call (Obj spinner) ''__exit__'' [] []) of
                   Inl e' \<Rightarrow> Inl e' | Inr _ \<Rightarrow> Inr ()),
            s\<lparr>trace := trace s @ [Call St ''spinner'' [PStr ''Executing operation. Please wait...''] [],
                          Call (Obj spinner) ''__enter__'' [] [],
                          Call St ''error'' [PObj ''ValidationError''] [],
                          Call (Obj spinner) ''__exit__'' [] []]\<rparr>)"
        using assms
        by (simp add: execute_unfold [OF Inr True enter] attempt_validation_def seq_def widget_def
            ret_def split: sum.splits)
      from this [of op] this [of "op\<lparr>operation := f\<rparr>" for f] show ?thesis by auto
    qed
  qed
qed

text \<open>
  C10. When Execute is selected and parsing the session input data raises
  \<^verbatim>\<open>ValidationError\<close>, the output data, the latest operation input, the input data and
  the run id of the session keep their values, whatever the host answers, and the
  operation is not invoked: the outcome is the same for any operation put in its
  place. The error is displayed: when \<^verbatim>\<open>st.spinner\<close> gives an object that can be
  entered, the calls of the block are the spinner, its \<^verbatim>\<open>__enter__\<close>, \<^verbatim>\<open>st.error\<close> with
  the exception, and \<^verbatim>\<open>__exit__\<close>.
\<close>

theorem execute_validation_error:
  assumes "parse_obj_as op (input_data s) = Inl ValidationError"
  shows "output_data (snd (execute op h s)) = output_data s
       \<and> latest_operation_input (snd (execute op h s)) = latest_operation_input s
       \<and> input_data (snd (execute op h s)) = input_data s
       \<and> run_id (snd (execute op h s)) = run_id s
       \<and> (\<forall>f. execute (op\<lparr>operation := f\<rparr>) h s = execute op h s)
       \<and> (\<forall>spinner x.
            h (Call St ''spinner'' [PStr ''Executing operation. Please wait...''] []) = Inr spinner
            \<and> is_object spinner
            \<and> h (Call (Obj spinner) ''__enter__'' [] []) = Inr x \<longrightarrow>
            trace (snd (execute op h s)) =
              trace s @ [Call St ''spinner'' [PStr ''Executing operation. Please wait...''] [],
                         Call (Obj spinner) ''__enter__'' [] [],
                         Call St ''error'' [PObj ''ValidationError''] [],
                         Call (Obj spinner) ''__exit__'' [] []])"
proof -
  from execute_invalid_state [OF assms, of h]
  obtain r t where run: "execute op h s = (r, s\<lparr>trace := t\<rparr>)"
    and same: "\<And>f. execute (op\<lparr>operation := f\<rparr>) h s = (r, s\<lparr>trace := t\<rparr>)"
    by blast
  have shown: "trace (snd (execute op h s)) =
              trace s @ [Call St ''spinner'' [PStr ''Executing operation. Please wait...''] [],
                         Call (Obj spinner) ''__enter__'' [] [],
                         Call St ''error'' [PObj ''ValidationError''] [],
                         Call (Obj spinner) ''__exit__'' [] []]"
    if "h (Call St ''spinner'' [PStr ''Executing operation. Please wait...''] []) = Inr spinner"
      and "is_object spinner"
      and "h (Call (Obj spinner) ''__enter__'' [] []) = Inr x"
    for spinner x
    using assms
    by (simp add: execute_unfold [OF that] attempt_validation_def seq_def widget_def ret_def
        split: sum.splits)
  from run same shown show ?thesis by simp
qed

theorem execute_validation_error_witness:
  "parse_obj_as echo_op (input_data start_state) = Inl ValidationError
   \<and> page_host (Call St ''spinner'' [PStr ''Executing operation. Please wait...''] [])
       = Inr (PObj ''spinner'')
   \<and> is_object (PObj ''spinner'')
   \<and> page_host (Call (Obj (PObj ''spinner'')) ''__enter__'' [] []) = Inr PNone
   \<and> trace (snd (execute echo_op page_host start_state)) =
         [Call St ''spinner'' [PStr ''Executing operation. Please wait...''] [],
          Call (Obj (PObj ''spinner'')) ''__enter__'' [] [],
          Call St ''error'' [PObj ''ValidationError''] [],
          Call (Obj (PObj ''spinner'')) ''__exit__'' [] []]
   \<and> output_data (snd (execute echo_op page_host start_state)) = PNone
   \<and> latest_operation_input (snd (execute echo_op page_host start_state)) = PNone
   \<and> input_data (snd (execute echo_op page_host start_state)) = PDict []"
proof -
  have a: "parse_obj_as echo_op (input_data start_state) = Inl ValidationError"
    by (simp add: echo_op_def start_state_def dict_has_def dict_get_def)
  have b: "page_host (Call St ''spinner'' [PStr ''Executing operation. Please wait...''] [])
       = Inr (PObj ''spinner'')"
    by simp
  have c: "page_host (Call (Obj (PObj ''spinner'')) ''__enter__'' [] []) = Inr PNone"
    by simp
  from execute_validation_error [OF a, of page_host] a b c show ?thesis
    by (simp add: start_state_def)
qed

text \<open>
  C1, amended: when Execute is selected, \<^verbatim>\<open>st.spinner\<close> gives an object that can be
  entered and left, the session input data parses into the input model and the
  operation, called with the parsed object, returns, then the result is stored as the
  output data of the session and the parsed object as its latest operation input; the
  stored result is rendered (\<^verbatim>\<open>OutputUI.render_ui\<close> on the result and the parsed
  object, then the JSON button) when it is true as a condition, and nothing more is
  rendered when it is not (\<^verbatim>\<open>None\<close>, an empty list).
\<close>

theorem execute_and_show_success:
  assumes "py_truthy execute_selected"
    and "h (Call St ''spinner'' [PStr ''Executing operation. Please wait...''] []) = Inr spinner"
    and "is_object spinner"
    and "h (Call (Obj spinner) ''__enter__'' [] []) = Inr x"
    and "parse_obj_as op (input_data s) = Inr obj"
    and "operation op h obj
           (s\<lparr>trace := trace s @
               [Call St ''spinner'' [PStr ''Executing operation. Please wait...''] [],
                Call (Obj spinner) ''__enter__'' [] []]\<rparr>) = (Inr out, s2)"
    and "h (Call (Obj spinner) ''__exit__'' [] []) = Inr y"
  shows "execute_and_show a op h execute_selected s =
     (if py_truthy out
      then seq (output_render_ui (new_output_ui a out obj) h (recursion_limit a))
             (\<lambda>_. show_json_button a h)
             (s2\<lparr>output_data := out, latest_operation_input := obj,
                 trace := trace s2 @ [Call (Obj spinner) ''__exit__'' [] []]\<rparr>)
      else (Inr (),
            s2\<lparr>output_data := out, latest_operation_input := obj,
                trace := trace s2 @ [Call (Obj spinner) ''__exit__'' [] []]\<rparr>))"
  using assms
  by (simp add: execute_and_show_def execute_unfold [OF assms(2,3,4)] attempt_validation_def seq_def
      widget_def show_output_def)

theorem execute_and_show_success_witness:
  "py_truthy (PBool True)
   \<and> page_host (Call St ''spinner'' [PStr ''Executing operation. Please wait...''] [])
       = Inr (PObj ''spinner'')
   \<and> is_object (PObj ''spinner'')
   \<and> parse_obj_as echo_op (input_data (start_state\<lparr>input_data := PDict [(''text'', PStr ''hi'')]\<rparr>))
       = Inr (PModel ''Input'' [(''text'', PStr ''hi'')])
   \<and> execute_and_show plain_app echo_op page_host (PBool True)
         (start_state\<lparr>input_data := PDict [(''text'', PStr ''hi'')]\<rparr>)
     = seq (output_render_ui
              (new_output_ui plain_app (PModel ''Output'' [(''text'', PStr ''ok'')])
                 (PModel ''Input'' [(''text'', PStr ''hi'')]))
              page_host (recursion_limit plain_app))
         (\<lambda>_. show_json_button plain_app page_host)
         \<lparr>input_data = PDict [(''text'', PStr ''hi'')],
          output_data = PModel ''Output'' [(''text'', PStr ''ok'')],
          latest_operation_input = PModel ''Input'' [(''text'', PStr ''hi'')],
          run_id = PInt 0,
          trace = [Call St ''spinner'' [PStr ''Executing operation. Please wait...''] [],
                   Call (Obj (PObj ''spinner'')) ''__enter__'' [] [],
                   Call (Obj (PObj ''spinner'')) ''__exit__'' [] []]\<rparr>"
proof -
  let ?s = "start_state\<lparr>input_data := PDict [(''text'', PStr ''hi'')]\<rparr>"
  have a: "py_truthy (PBool True)" by simp
  have b: "page_host (Call St ''spinner'' [PStr ''Executing operation. Please wait...''] [])
       = Inr (PObj ''spinner'')"
    by simp
  have o: "is_object (PObj ''spinner'')" by simp
  have c: "page_host (Call (Obj (PObj ''spinner'')) ''__enter__'' [] []) = Inr PNone"
    by simp
  have d: "parse_obj_as echo_op (input_data ?s) = Inr (PModel ''Input'' [(''text'', PStr ''hi'')])"
    by (simp add: echo_op_def start_state_def dict_has_def dict_get_def)
  have e: "operation echo_op page_host (PModel ''Input'' [(''text'', PStr ''hi'')])
           (?s\<lparr>trace := trace ?s @
               [Call St ''spinner'' [PStr ''Executing operation. Please wait...''] [],
                Call (Obj (PObj ''spinner'')) ''__enter__'' [] []]\<rparr>)
         = (Inr (PModel ''Output'' [(''text'', PStr ''ok'')]),
            ?s\<lparr>trace := trace ?s @
               [Call St ''spinner'' [PStr ''Executing operation. Please wait...''] [],
                Call (Obj (PObj ''spinner'')) ''__enter__'' [] []]\<rparr>)"
    by (simp add: echo_op_def ret_def)
  have f: "page_host (Call (Obj (PObj ''spinner'')) ''__exit__'' [] []) = Inr PNone"
    by simp
  from execute_and_show_success [OF a b o c d e f, of plain_app] b d show ?thesis
    by (simp add: start_state_def)
qed

text \<open>
  C1, as stated: the stored response is then rendered. An operation that returns the
  empty list has its result stored, and after the spinner no call on the host follows:
  \<^verbatim>\<open>if session_state.output_data:\<close> is false for it.
\<close>

theorem execute_and_show_empty_list_counterexample:
  "execute_and_show plain_app (echo_op\<lparr>operation := (\<lambda>h obj. ret (PList []))\<rparr>) page_host (PBool True)
     (start_state\<lparr>input_data := PDict [(''text'', PStr ''hi'')]\<rparr>)
   = (Inr (),
      \<lparr>input_data = PDict [(''text'', PStr ''hi'')],
       output_data = PList [],
       latest_operation_input = PModel ''Input'' [(''text'', PStr ''hi'')],
       run_id = PInt 0,
       trace = [Call St ''spinner'' [PStr ''Executing operation. Please wait...''] [],
                Call (Obj (PObj ''spinner'')) ''__enter__'' [] [],
                Call (Obj (PObj ''spinner'')) ''__exit__'' [] []]\<rparr>)"
  by (simp add: execute_and_show_def execute_def with_cm_def attempt_validation_def seq_def
      widget_def ret_def echo_op_def start_state_def dict_has_def dict_get_def)

section \<open>What rendering a property leaves alone\<close>

lemma keeps_ret [keeps_intros]: "keeps K (ret x)"
  by (simp add: keeps_def ret_def)

lemma keeps_throw [keeps_intros]: "keeps K (throw e)"
  by (simp add: keeps_def throw_def)

lemma keeps_lift [keeps_intros]: "keeps K (lift r)"
  by (simp add: keeps_def lift_def)

lemma keeps_widget [keeps_intros]: "keeps K (widget h r m args kw)"
  by (auto simp: keeps_def widget_def)

lemma keeps_read [keeps_intros]: "keeps K (\<lambda>s. (f s, s))"
  by (simp add: keeps_def)

lemma keeps_seq [keeps_intros]:
  assumes "keeps K m" "\<And>x. keeps K (f x)"
  shows "keeps K (seq m f)"
  unfolding keeps_def
proof (intro allI impI)
  fix s r s'
  assume run: "seq m f s = (r, s')" and d: "is_dict (input_data s)"
  obtain r1 s1 where m: "m s = (r1, s1)" by (cases "m s")
  from assms(1) m d have k1: "is_dict (input_data s1)"
    "\<forall>k. k \<notin> K \<longrightarrow> lookup_path (input_data s1) [k] = lookup_path (input_data s) [k]"
    "output_data s1 = output_data s" "latest_operation_input s1 = latest_operation_input s"
    "run_id s1 = run_id s"
    unfolding keeps_def by blast+
  show "is_dict (input_data s') \<and>
        (\<forall>k. k \<notin> K \<longrightarrow> lookup_path (input_data s') [k] = lookup_path (input_data s) [k]) \<and>
        output_data s' = output_data s \<and>
        latest_operation_input s' = latest_operation_input s \<and>
        run_id s' = run_id s"
  proof (cases r1)
    case (Inl e)
    with run m have "s' = s1" by (simp add: seq_def)
    with k1 show ?thesis by simp
  next
    case (Inr x)
    with run m have "f x s1 = (r, s')" by (simp add: seq_def)
    with assms(2) [of x] k1(1) have "is_dict (input_data s')"
      "\<forall>k. k \<notin> K \<longrightarrow> lookup_path (input_data s') [k] = lookup_path (input_data s1) [k]"
      "output_data s' = output_data s1" "latest_operation_input s' = latest_operation_input s1"
      "run_id s' = run_id s1"
      unfolding keeps_def by blast+
    with k1 show ?thesis by simp
  qed
qed

lemma keeps_attempt [keeps_intros]:
  assumes "keeps K m" "\<And>e. keeps K (f e)"
  shows "keeps K (attempt m f)"
  unfolding keeps_def
proof (intro allI impI)
  fix s r s'
  assume run: "attempt m f s = (r, s')" and d: "is_dict (input_data s)"
  obtain r1 s1 where m: "m s = (r1, s1)" by (cases "m s")
  from assms(1) m d have k1: "is_dict (input_data s1)"
    "\<forall>k. k \<notin> K \<longrightarrow> lookup_path (input_data s1) [k] = lookup_path (input_data s) [k]"
    "output_data s1 = output_data s" "latest_operation_input s1 = latest_operation_input s"
    "run_id s1 = run_id s"
    unfolding keeps_def by blast+
  show "is_dict (input_data s') \<and>
        (\<forall>k. k \<notin> K \<longrightarrow> lookup_path (input_data s') [k] = lookup_path (input_data s) [k]) \<and>
        output_data s' = output_data s \<and>
        latest_operation_input s' = latest_operation_input s \<and>
        run_id s' = run_id s"
  proof (cases "\<exists>e. r1 = Inl e \<and> is_exception e")
    case True
    then obtain e where e: "r1 = Inl e" "is_exception e" by blast
    with run m have "f e s1 = (r, s')" by (simp add: attempt_def)
    with assms(2) [of e] k1(1) have "is_dict (input_data s')"
      "\<forall>k. k \<notin> K \<longrightarrow> lookup_path (input_data s') [k] = lookup_path (input_data s1) [k]"
      "output_data s' = output_data s1" "latest_operation_input s' = latest_operation_input s1"
      "run_id s' = run_id s1"
      unfolding keeps_def by blast+
    with k1 show ?thesis by simp
  next
    case False
    with run m have "s' = s1" by (cases r1) (auto simp: attempt_def split: if_splits)
    with k1 show ?thesis by simp
  qed
qed

lemma keeps_if [keeps_intros]:
  "keeps K m \<Longrightarrow> keeps K n \<Longrightarrow> keeps K (if b then m else n)"
  by simp

lemma keeps_case_prod [keeps_intros]:
  "(\<And>a b. keeps K (f a b)) \<Longrightarrow> keeps K (case p of (a, b) \<Rightarrow> f a b)"
  by (cases p) simp

lemma keeps_let [keeps_intros]:
  "(\<And>x. keeps K (f x)) \<Longrightarrow> keeps K (let x = v in f x)"
  by simp

lemma keeps_call_method [keeps_intros]: "keeps K (call_method h obj m args kw)"
  unfolding call_method_def by (intro keeps_intros)

lemma keeps_with_cm [keeps_intros]:
  assumes "keeps K body"
  shows "keeps K (with_cm h cm body)"
proof -
  have "keeps K (\<lambda>s. case body s of
         (r, s') \<Rightarrow>
           (case widget h (Obj cm) ''__exit__'' [] [] s' of
              (Inl e, s'') \<Rightarrow> (Inl e, s'')
            | (Inr _, s'') \<Rightarrow> (r, s'')))"
    using assms unfolding keeps_def
    by (auto simp: widget_def split: prod.splits sum.splits)
  then show ?thesis
    unfolding with_cm_def by (intro keeps_intros)
qed

lemma get_loop_top:
  assumes "is_dict d" "get_loop d (k # ks) = (r, d')"
  shows "is_dict d' \<and> (\<forall>k'. k' \<noteq> k \<longrightarrow> lookup_path d' [k'] = lookup_path d [k'])"
  using assms
  by (cases d)
     (auto simp: dict_has_def dict_get_set_other split: if_splits sum.splits prod.splits option.splits)

lemma store_loop_top:
  assumes "is_dict d" "store_loop d (k # ks) v = (r, d')"
  shows "is_dict d' \<and> (\<forall>k'. k' \<noteq> k \<longrightarrow> lookup_path d' [k'] = lookup_path d [k'])"
  using assms
  by (cases d)
     (auto simp: dict_has_def dict_get_set_other split: if_splits sum.splits prod.splits option.splits)

lemma keeps_get_value_act [keeps_intros]:
  assumes "hd (str_split key) \<in> K"
  shows "keeps K (get_value_act key)"
  unfolding keeps_def
proof (intro allI impI)
  fix s r s'
  assume run: "get_value_act key s = (r, s')" and d: "is_dict (input_data s)"
  obtain k ks where sp: "str_split key = k # ks"
    using str_split_nonempty [of key] by (cases "str_split key") auto
  obtain r1 d1 where g: "get_loop (input_data s) (k # ks) = (r1, d1)"
    by (cases "get_loop (input_data s) (k # ks)")
  from run g have s': "s' = s\<lparr>input_data := d1\<rparr>"
    by (simp add: get_value_act_def get_value_def sp)
  from get_loop_top [OF d g] assms
  have "is_dict d1 \<and> (\<forall>k. k \<notin> K \<longrightarrow> lookup_path d1 [k] = lookup_path (input_data s) [k])"
    by (auto simp: sp simp del: lookup_path.simps)
  then show "is_dict (input_data s') \<and>
        (\<forall>k. k \<notin> K \<longrightarrow> lookup_path (input_data s') [k] = lookup_path (input_data s) [k]) \<and>
        output_data s' = output_data s \<and>
        latest_operation_input s' = latest_operation_input s \<and>
        run_id s' = run_id s"
    by (simp add: s' del: lookup_path.simps)
qed

lemma store_value_top:
  assumes "is_dict d"
  shows "is_dict (snd (store_value d key v)) \<and>
     (\<forall>k. k \<noteq> hd (str_split key) \<longrightarrow>
        lookup_path (snd (store_value d key v)) [k] = lookup_path d [k])"
proof -
  obtain k ks where sp: "str_split key = k # ks"
    using str_split_nonempty [of key] by (cases "str_split key") auto
  obtain r1 d1 where g: "store_loop d (k # ks) v = (r1, d1)"
    by (cases "store_loop d (k # ks) v")
  then have "snd (store_value d key v) = d1"
    by (simp add: store_value_def sp)
  with store_loop_top [OF assms g] show ?thesis
    by (simp add: sp del: lookup_path.simps)
qed

lemma keeps_store_value_act [keeps_intros]:
  assumes "hd (str_split key) \<in> K"
  shows "keeps K (store_value_act key v)"
  unfolding keeps_def
proof (intro allI impI)
  fix s r s'
  assume run: "store_value_act key v s = (r, s')" and d: "is_dict (input_data s)"
  obtain r1 d1 where st: "store_value (input_data s) key v = (r1, d1)"
    by (cases "store_value (input_data s) key v")
  from run st have s': "s' = s\<lparr>input_data := d1\<rparr>"
    by (simp add: store_value_act_def)
  have a: "is_dict d1"
    using store_value_top [OF d, of key v] st by simp
  have b: "\<And>k. k \<noteq> hd (str_split key) \<Longrightarrow> lookup_path d1 [k] = lookup_path (input_data s) [k]"
    using store_value_top [OF d, of key v] st by (simp del: lookup_path.simps)
  have c: "\<And>k. k \<notin> K \<Longrightarrow> k \<noteq> hd (str_split key)"
    using assms by blast
  from a b c
  have "is_dict d1 \<and> (\<forall>k. k \<notin> K \<longrightarrow> lookup_path d1 [k] = lookup_path (input_data s) [k])"
    by blast
  then show "is_dict (input_data s') \<and>
        (\<forall>k. k \<notin> K \<longrightarrow> lookup_path (input_data s') [k] = lookup_path (input_data s) [k]) \<and>
        output_data s' = output_data s \<and>
        latest_operation_input s' = latest_operation_input s \<and>
        run_id s' = run_id s"
    by (simp add: s' del: lookup_path.simps)
qed

lemma keeps_deref [keeps_intros]: "keeps K (deref key cur)"
  by (cases cur) (simp_all add: deref_def keeps_def ret_def)

lemma keeps_update:
  assumes "\<And>d. is_dict d \<Longrightarrow>
     is_dict (g d) \<and> (\<forall>k. k \<notin> K \<longrightarrow> lookup_path (g d) [k] = lookup_path d [k])"
  shows "keeps K (\<lambda>s. (x, s\<lparr>input_data := g (input_data s)\<rparr>))"
  unfolding keeps_def
proof (intro allI impI)
  fix s r s'
  assume run: "(x, s\<lparr>input_data := g (input_data s)\<rparr>) = (r, s')"
    and d: "is_dict (input_data s)"
  from run have s': "s' = s\<lparr>input_data := g (input_data s)\<rparr>"
    by (simp only: prod.inject)
  have i: "input_data s' = g (input_data s)" "output_data s' = output_data s"
    "latest_operation_input s' = latest_operation_input s" "run_id s' = run_id s"
    unfolding s' by simp_all
  from assms [OF d] show "is_dict (input_data s') \<and>
        (\<forall>k. k \<notin> K \<longrightarrow> lookup_path (input_data s') [k] = lookup_path (input_data s) [k]) \<and>
        output_data s' = output_data s \<and>
        latest_operation_input s' = latest_operation_input s \<and>
        run_id s' = run_id s"
    unfolding i by blast
qed

lemma store_value_top_set:
  assumes "hd (str_split key) \<in> K" "is_dict d"
  shows "is_dict (snd (store_value d key v)) \<and>
     (\<forall>k. k \<notin> K \<longrightarrow> lookup_path (snd (store_value d key v)) [k] = lookup_path d [k])"
proof -
  note t = store_value_top [OF assms(2), of key v]
  from t have a: "is_dict (snd (store_value d key v))" by (rule conjunct1)
  from t have b: "\<forall>k. k \<noteq> hd (str_split key) \<longrightarrow>
        lookup_path (snd (store_value d key v)) [k] = lookup_path d [k]" by (rule conjunct2)
  have c: "lookup_path (snd (store_value d key v)) [k] = lookup_path d [k]" if "k \<notin> K" for k
  proof -
    from that assms(1) have "k \<noteq> hd (str_split key)" by auto
    with b show ?thesis by (simp del: lookup_path.simps)
  qed
  from a c show ?thesis by (intro conjI allI impI)
qed

lemma keeps_assign [keeps_intros]:
  assumes "hd (str_split key) \<in> K"
  shows "keeps K (assign key cur v)"
proof (cases cur)
  case Stored
  have "\<And>d. is_dict d \<Longrightarrow> is_dict (snd (store_value d key v)) \<and>
     (\<forall>k. k \<notin> K \<longrightarrow> lookup_path (snd (store_value d key v)) [k] = lookup_path d [k])"
    by (rule store_value_top_set [OF assms])
  then have "keeps K (\<lambda>s. (Inr Stored, s\<lparr>input_data := snd (store_value (input_data s) key v)\<rparr>))"
    by (rule keeps_update)
  moreover have "assign key Stored v =
     (\<lambda>s. (Inr Stored, s\<lparr>input_data := snd (store_value (input_data s) key v)\<rparr>))"
    unfolding assign_def by simp
  ultimately show ?thesis unfolding Stored by (simp only:)
next
  case (Fresh x)
  have "assign key (Fresh x) v = ret (Fresh v)"
    unfolding assign_def by simp
  then show ?thesis unfolding Fresh by (simp only: keeps_ret)
qed

lemma keeps_set_item [keeps_intros]:
  "hd (str_split key) \<in> K \<Longrightarrow> keeps K (set_item key cur k v)"
  unfolding set_item_def by (intro keeps_intros)

lemma keeps_append_item [keeps_intros]:
  "hd (str_split key) \<in> K \<Longrightarrow> keeps K (append_item key cur v)"
  unfolding append_item_def by (intro keeps_intros)

lemma keeps_get_default_kwargs [keeps_intros]:
  "keeps K (get_default_streamlit_input_kwargs lb key property)"
  unfolding get_default_streamlit_input_kwargs_def by (rule keeps_read)

lemma keeps_default_from_iso [keeps_intros]: "keeps K (default_from_iso lb f property kw)"
  unfolding default_from_iso_def by (intro keeps_intros)

lemma keeps_part_of_value [keeps_intros]: "keeps K (part_of_value lb f kw kw')"
  unfolding part_of_value_def by (intro keeps_intros)

lemma keeps_render_single_datetime_input [keeps_intros]:
  "keeps K (render_single_datetime_input ui h streamlit_app key property)"
  unfolding render_single_datetime_input_def by (intro keeps_intros)

lemma keeps_render_single_file_input [keeps_intros]:
  "keeps K (render_single_file_input ui h streamlit_app key property)"
  unfolding render_single_file_input_def by (intro keeps_intros)

lemma keeps_render_single_string_input [keeps_intros]:
  "keeps K (render_single_string_input ui h streamlit_app key property)"
  unfolding render_single_string_input_def by (intro keeps_intros)

lemma keeps_render_multi_enum_input [keeps_intros]:
  "keeps K (render_multi_enum_input ui h streamlit_app key property)"
  unfolding render_multi_enum_input_def by (intro keeps_intros)

lemma keeps_render_single_enum_input [keeps_intros]:
  "keeps K (render_single_enum_input ui h streamlit_app key property)"
  unfolding render_single_enum_input_def by (intro keeps_intros)

lemma keeps_new_value_input [keeps_intros]:
  "keeps K (new_value_input h streamlit_app key item_type)"
  unfolding new_value_input_def by (intro keeps_intros)

lemma keeps_render_heading [keeps_intros]: "keeps K (render_heading h streamlit_app property)"
  unfolding render_heading_def by (intro keeps_intros)

lemma keeps_render_rule [keeps_intros]: "keeps K (render_rule h streamlit_app)"
  unfolding render_rule_def by (intro keeps_intros)

lemma keeps_current_or [keeps_intros]:
  "hd (str_split key) \<in> K \<Longrightarrow> keeps K (current_or key fresh)"
  unfolding current_or_def by (intro keeps_intros)

lemma keeps_item_buttons [keeps_intros]:
  "(\<And>c. keeps K (add c)) \<Longrightarrow> keeps K (item_buttons h streamlit_app key current0 fresh cond add)"
  unfolding item_buttons_def by (intro keeps_intros)

lemma keeps_write_current [keeps_intros]: "keeps K (write_current h streamlit_app key current)"
  unfolding write_current_def by (intro keeps_intros)

lemma keeps_render_single_dict_input [keeps_intros]:
  "hd (str_split key) \<in> K \<Longrightarrow> keeps K (render_single_dict_input ui h streamlit_app key property)"
  unfolding render_single_dict_input_def by (intro keeps_intros)

lemma keeps_render_single_boolean_input [keeps_intros]:
  "keeps K (render_single_boolean_input ui h streamlit_app key property)"
  unfolding render_single_boolean_input_def by (intro keeps_intros)

lemma keeps_read_files [keeps_intros]: "keeps K (read_files h files)"
  by (induction files) (auto intro!: keeps_intros)

lemma keeps_render_multi_file_input [keeps_intros]:
  "keeps K (render_multi_file_input ui h streamlit_app key property)"
  unfolding render_multi_file_input_def by (intro keeps_intros)

lemma keeps_render_single_number_input [keeps_intros]:
  "keeps K (render_single_number_input lb h streamlit_app key property)"
  unfolding render_single_number_input_def by (intro keeps_intros)

lemma keeps_render_property_list_input [keeps_intros]:
  "hd (str_split key) \<in> K \<Longrightarrow> keeps K (render_property_list_input ui h streamlit_app key property)"
  unfolding render_property_list_input_def by (intro keeps_intros)


lemma hd_str_split_append: "hd (str_split (key @ CHR ''.'' # x)) = hd (str_split key)"
proof (induction key)
  case Nil
  then show ?case by simp
next
  case (Cons c cs)
  show ?case
  proof (cases "c = CHR ''.''")
    case True
    then show ?thesis by simp
  next
    case False
    obtain a as where a: "str_split (cs @ CHR ''.'' # x) = a # as"
      using str_split_nonempty [of "cs @ CHR ''.'' # x"] by (cases "str_split (cs @ CHR ''.'' # x)") auto
    obtain b bs where b: "str_split cs = b # bs"
      using str_split_nonempty [of cs] by (cases "str_split cs") auto
    from Cons.IH a b have "a = b" by simp
    with False a b show ?thesis by simp
  qed
qed

lemma keeps_render_object_properties [keeps_intros]:
  assumes "\<And>app key' p. hd (str_split key') \<in> K \<Longrightarrow> keeps K (rp app key' p)"
    and "hd (str_split key) \<in> K"
  shows "keeps K (render_object_properties lb rp streamlit_app key properties keys object_inputs)"
proof (induction keys arbitrary: object_inputs)
  case Nil
  then show ?case by (simp add: keeps_ret)
next
  case (Cons property_key rest)
  have "hd (str_split (key @ ''.'' @ property_key)) \<in> K"
    using assms(2) hd_str_split_append [of key property_key] by simp
  with assms(1) Cons.IH show ?case
    by (auto intro!: keeps_intros)
qed

lemma keeps_render_object_input [keeps_intros]:
  assumes "\<And>app key' p. hd (str_split key') \<in> K \<Longrightarrow> keeps K (rp app key' p)"
    and "hd (str_split key) \<in> K"
  shows "keeps K (render_object_input lb rp streamlit_app key property)"
  unfolding render_object_input_def
  using assms
  by (auto intro!: keeps_intros keeps_render_object_properties split: pyval.splits)

lemma keeps_render_single_object_input [keeps_intros]:
  assumes "\<And>app key' p. hd (str_split key') \<in> K \<Longrightarrow> keeps K (rp app key' p)"
    and "hd (str_split key) \<in> K"
  shows "keeps K (render_single_object_input ui rp h streamlit_app key property)"
  unfolding render_single_object_input_def
  using assms by (auto intro!: keeps_intros)

lemma keeps_render_single_reference [keeps_intros]:
  assumes "\<And>app key' p. hd (str_split key') \<in> K \<Longrightarrow> keeps K (rp app key' p)"
    and "hd (str_split key) \<in> K"
  shows "keeps K (render_single_reference ui rp streamlit_app key property)"
  unfolding render_single_reference_def
  using assms by (auto intro!: keeps_intros)

lemma keeps_render_object_list_input [keeps_intros]:
  assumes "\<And>app key' p. hd (str_split key') \<in> K \<Longrightarrow> keeps K (rp app key' p)"
    and "hd (str_split key) \<in> K"
  shows "keeps K (render_object_list_input ui rp h streamlit_app key property)"
  unfolding render_object_list_input_def
  using assms by (auto intro!: keeps_intros)

lemma keeps_unsupported_property [keeps_intros]:
  "keeps K (unsupported_property lb h streamlit_app property)"
  unfolding unsupported_property_def by (intro keeps_intros)

lemma keeps_render_property:
  "hd (str_split key) \<in> K \<Longrightarrow> keeps K (render_property ui h depth streamlit_app key property)"
proof (induction depth arbitrary: streamlit_app key property)
  case 0
  then show ?case by (simp add: keeps_throw)
next
  case (Suc depth)
  then show ?case
    by (auto intro!: keeps_intros)
qed

lemma keeps_render_ui_property:
  "hd (str_split property_key) \<in> K \<Longrightarrow>
   keeps K (render_ui_property ui h depth required_properties property_key)"
  unfolding render_ui_property_def
  by (auto intro!: keeps_intros keeps_render_property)

lemma keeps_render_ui_loop:
  "(\<forall>k \<in> set keys. hd (str_split k) \<in> K) \<Longrightarrow>
   keeps K (render_ui_loop ui h depth required_properties keys)"
  by (induction keys) (auto intro!: keeps_intros keeps_render_ui_property)


lemma store_loop_lookup:
  "prefixes_ok d ks \<Longrightarrow> ks \<noteq> [] \<Longrightarrow>
   \<exists>d'. store_loop d ks v = (Inr (), d') \<and> lookup_path d' ks = Some v"
proof (induction ks arbitrary: d)
  case Nil
  then show ?case by simp
next
  case (Cons k ks)
  from Cons.prems obtain kvs where d: "d = PDict kvs"
    by (cases d) auto
  show ?case
  proof (cases "ks = []")
    case True
    then show ?thesis
      by (simp add: d dict_get_set_same)
  next
    case False
    show ?thesis
    proof (cases "dict_get kvs k")
      case None
      from Cons.IH [OF prefixes_ok_empty_dict False]
      obtain c' where c': "store_loop (PDict []) ks v = (Inr (), c')" "lookup_path c' ks = Some v"
        by blast
      then show ?thesis using False None
        by (simp add: d dict_has_def dict_get_set_same dict_set_twice)
    next
      case (Some c)
      with Cons.prems False have "prefixes_ok c ks" by (simp add: d)
      from Cons.IH [OF this False]
      obtain c' where c': "store_loop c ks v = (Inr (), c')" "lookup_path c' ks = Some v"
        by blast
      then show ?thesis using False Some
        by (simp add: d dict_has_def dict_get_set_same)
    qed
  qed
qed

lemma store_loop_error_unchanged:
  "store_loop d ks v = (Inl e, d') \<Longrightarrow> d' = d"
proof (induction ks arbitrary: d d')
  case Nil
  then show ?case by simp
next
  case (Cons k ks)
  show ?case
  proof (cases "ks = []")
    case True
    with Cons.prems show ?thesis
      by (auto split: sum.splits)
  next
    case False
    show ?thesis
    proof (cases d)
      case (PDict kvs)
      show ?thesis
      proof (cases "dict_get kvs k")
        case None
        obtain r c' where st: "store_loop (PDict []) ks v = (r, c')"
          by (cases "store_loop (PDict []) ks v")
        from store_loop_lookup [OF prefixes_ok_empty_dict False, of v] st
        have "r = Inr ()" by auto
        with Cons.prems False None st show ?thesis
          by (simp add: PDict dict_has_def dict_get_set_same)
      next
        case (Some c)
        obtain r c' where st: "store_loop c ks v = (r, c')"
          by (cases "store_loop c ks v")
        with Cons.prems False Some have r: "r = Inl e" and d': "d' = PDict (dict_set k c' kvs)"
          by (auto simp: PDict dict_has_def)
        from Cons.IH [OF st [unfolded r]] have "c' = c" .
        with d' Some show ?thesis
          by (simp add: PDict dict_set_same)
      qed
    qed (use Cons.prems False in \<open>auto split: sum.splits if_splits\<close>)
  qed
qed

lemma lookup_path_top:
  "lookup_path d (k # ks) = (case lookup_path d [k] of None \<Rightarrow> None | Some c \<Rightarrow> lookup_path c ks)"
  by (cases d) (auto split: option.splits)

lemma render_ui_loop_append:
  assumes "render_ui_loop ui h depth req pre s0 = (Inr (), s)"
  shows "render_ui_loop ui h depth req (pre @ keys) s0 = render_ui_loop ui h depth req keys s"
  using assms
proof (induction pre arbitrary: s0)
  case Nil
  then show ?case by (simp add: ret_def)
next
  case (Cons k pre)
  obtain r1 s1 where t: "render_ui_property ui h depth req k s0 = (r1, s1)"
    by (cases "render_ui_property ui h depth req k s0")
  with Cons.prems have r1: "r1 = Inr ()" and l: "render_ui_loop ui h depth req pre s1 = (Inr (), s)"
    by (auto simp: seq_def split: sum.splits)
  from Cons.IH [OF l] t r1 show ?case
    by (simp add: seq_def)
qed

lemma hd_str_split_plain: "CHR ''.'' \<notin> set key \<Longrightarrow> str_split key = [key]"
  by (induction key) auto


lemma keepsD:
  assumes "keeps K m" "m s = (r, s')" "is_dict (input_data s)"
  shows "is_dict (input_data s')"
    and "\<And>k. k \<notin> K \<Longrightarrow> lookup_path (input_data s') [k] = lookup_path (input_data s) [k]"
    and "output_data s' = output_data s"
    and "latest_operation_input s' = latest_operation_input s"
    and "run_id s' = run_id s"
  using assms unfolding keeps_def by blast+

lemma render_ui_property_unfold:
  assumes "py_getitem (schema_properties ui) property_key = Inr (PDict property0)"
    and "title_fallback (library ui) property_key property0 = Inr property"
    and "py_contains required_properties property_key = Inr required"
  shows "render_ui_property ui h depth required_properties property_key s =
     attempt
       (seq (render_property ui h depth (if required then St else Sidebar) property_key property)
          (\<lambda>v. store_value_act property_key v))
       (\<lambda>e. ret ()) s"
  using assms by (simp add: render_ui_property_def seq_def lift_def ebind_def)

lemma render_ui_turn_stores:
  assumes d: "is_dict (input_data s)"
    and p: "py_getitem (schema_properties ui) property_key = Inr (PDict property0)"
      "title_fallback (library ui) property_key property0 = Inr property"
      "py_contains required_properties property_key = Inr required"
    and rp: "render_property ui h depth (if required then St else Sidebar) property_key property s
               = (Inr v, s1)"
    and ok: "prefixes_ok (input_data s1) (str_split property_key)"
  shows "render_ui_property ui h depth required_properties property_key s
           = (Inr (), s1\<lparr>input_data := snd (store_value (input_data s1) property_key v)\<rparr>)"
    and "is_dict (snd (store_value (input_data s1) property_key v))"
    and "lookup_path (snd (store_value (input_data s1) property_key v)) (str_split property_key)
           = Some v"
proof -
  from store_loop_lookup [OF ok str_split_nonempty, of v]
  obtain d2 where st: "store_value (input_data s1) property_key v = (Inr (), d2)"
    and l: "lookup_path d2 (str_split property_key) = Some v"
    unfolding store_value_def by blast
  show "render_ui_property ui h depth required_properties property_key s
     = (Inr (), s1\<lparr>input_data := snd (store_value (input_data s1) property_key v)\<rparr>)"
    using rp st
    by (simp add: render_ui_property_unfold [OF p] attempt_def seq_def store_value_act_def)
  have "keeps UNIV (render_property ui h depth (if required then St else Sidebar) property_key property)"
    by (rule keeps_render_property) simp
  from keepsD(1) [OF this rp d] have d1: "is_dict (input_data s1)" .
  from store_value_top [OF d1, of property_key v]
  show "is_dict (snd (store_value (input_data s1) property_key v))" by simp
  from l st show "lookup_path (snd (store_value (input_data s1) property_key v))
     (str_split property_key) = Some v" by simp
qed

lemma render_ui_property_unsupported:
  assumes p: "py_getitem (schema_properties ui) property_key = Inr (PDict property0)"
      "title_fallback (library ui) property_key property0 = Inr property"
      "py_contains required_properties property_key = Inr required"
    and none: "first_true (shape_tests ui property) = None"
    and t: "py_str (library ui) (prop_get property ''title'') = Inr t"
  shows "snd (render_ui_property ui h (Suc n) required_properties property_key s) =
     s\<lparr>trace := trace s @ [Call (if required then St else Sidebar) ''warning''
        [PStr (''The type of the following property is currently not supported: '' @ t)] []]\<rparr>"
proof -
  have "render_property ui h (Suc n) (if required then St else Sidebar) property_key property
      = unsupported_property (library ui) h (if required then St else Sidebar) property"
    using render_property_table [of ui h n _ property_key property] none by simp
  then show ?thesis
    using t
    by (simp add: render_ui_property_unfold [OF p] attempt_def seq_def lift_def widget_def
        throw_def ret_def unsupported_property_def split: sum.splits)
qed

lemma render_ui_loop_keeps_value:
  assumes "render_ui_loop ui h depth required_properties rest s2 = (r, s_end)"
    and "is_dict (input_data s2)"
    and "\<forall>k \<in> set rest. hd (str_split k) \<noteq> hd (str_split property_key)"
  shows "lookup_path (input_data s_end) (str_split property_key)
           = lookup_path (input_data s2) (str_split property_key)"
proof -
  let ?K = "{k. k \<noteq> hd (str_split property_key)}"
  have "keeps ?K (render_ui_loop ui h depth required_properties rest)"
    by (rule keeps_render_ui_loop) (use assms(3) in simp)
  from keepsD(2) [OF this assms(1,2), of "hd (str_split property_key)"]
  have t: "lookup_path (input_data s_end) [hd (str_split property_key)]
             = lookup_path (input_data s2) [hd (str_split property_key)]"
    by simp
  obtain k ks where sp: "str_split property_key = k # ks"
    using str_split_nonempty [of property_key] by (cases "str_split property_key") auto
  from t show ?thesis
    unfolding sp using lookup_path_top [of "input_data s_end" k ks]
      lookup_path_top [of "input_data s2" k ks]
    by (simp del: lookup_path.simps)
qed

lemma render_ui_is_loop:
  assumes "render_input_ui (input_cls ui) = None" "schema_properties ui = PDict props"
  shows "render_ui ui h depth =
     render_ui_loop ui h depth
       (dict_get_default (class_schema (input_cls ui)) ''required'' (PList [])) (map fst props)"
  using assms by (simp add: render_ui_def seq_def lift_def fun_eq_iff)

lemma title_fallback_facts:
  assumes "title_fallback lb property_key property0 = Inr property"
  shows "(if py_truthy (prop_get property0 ''title'') then property = property0
          else \<exists>t. lb NameToTitle [PStr property_key] = Inr t \<and>
                 property = dict_set ''title'' t property0 \<and> prop_get property ''title'' = t)"
  using assms
  by (auto simp: title_fallback_def ebind_Inr_iff prop_get_def dict_get_set_same split: if_splits)



subsection \<open>Where a renderer draws\<close>

lemma draws_onI:
  assumes "\<And>s. \<exists>cs. trace (snd (m s)) = trace s @ cs \<and> (\<forall>c \<in> set cs. on_receiver R c)"
  shows "draws_on R m"
  using assms unfolding draws_on_def by blast

lemma draws_onD:
  assumes "draws_on R m"
  shows "\<exists>cs. trace (snd (m s)) = trace s @ cs \<and> (\<forall>c \<in> set cs. on_receiver R c)"
  using assms unfolding draws_on_def by blast

lemma draws_on_pure:
  assumes "\<And>s. trace (snd (m s)) = trace s"
  shows "draws_on R m"
  by (rule draws_onI) (simp add: assms)

lemma draws_on_ret [draws_intros]: "draws_on R (ret x)"
  by (rule draws_on_pure) (simp add: ret_def)

lemma draws_on_throw [draws_intros]: "draws_on R (throw e)"
  by (rule draws_on_pure) (simp add: throw_def)

lemma draws_on_lift [draws_intros]: "draws_on R (lift r)"
  by (rule draws_on_pure) (simp add: lift_def)

lemma draws_on_read [draws_intros]: "draws_on R (\<lambda>s. (f s, s))"
  by (rule draws_on_pure) simp

lemma draws_on_widget [draws_intros]: "draws_on R (widget h R m args kw)"
  by (rule draws_onI) (simp add: widget_def)

lemma draws_on_widget_obj [draws_intros]: "draws_on R (widget h (Obj v) m args kw)"
  by (rule draws_onI) (simp add: widget_def)

lemma draws_on_then:
  assumes "draws_on R m" "\<And>r. draws_on R (f r)"
  shows "draws_on R (\<lambda>s. case m s of (r, s') \<Rightarrow> f r s')"
proof (rule draws_onI)
  fix s
  obtain r1 s1 where m1: "m s = (r1, s1)" by (cases "m s")
  from draws_onD [OF assms(1), of s]
  obtain cs1 where c1: "trace (snd (m s)) = trace s @ cs1" and a1: "\<forall>c \<in> set cs1. on_receiver R c"
    by blast
  from draws_onD [OF assms(2) [of r1], of s1]
  obtain cs2 where c2: "trace (snd (f r1 s1)) = trace s1 @ cs2"
    and a2: "\<forall>c \<in> set cs2. on_receiver R c"
    by blast
  from m1 c1 have t1: "trace s1 = trace s @ cs1" by simp
  show "\<exists>cs. trace (snd (case m s of (r, s') \<Rightarrow> f r s')) = trace s @ cs \<and>
        (\<forall>c \<in> set cs. on_receiver R c)"
  proof (intro exI [of _ "cs1 @ cs2"] conjI)
    show "trace (snd (case m s of (r, s') \<Rightarrow> f r s')) = trace s @ cs1 @ cs2"
      using m1 c2 t1 by simp
    show "\<forall>c \<in> set (cs1 @ cs2). on_receiver R c"
      using a1 a2 by auto
  qed
qed

lemma draws_on_seq [draws_intros]:
  assumes "draws_on R m" "\<And>x. draws_on R (f x)"
  shows "draws_on R (seq m f)"
proof -
  have "draws_on R (case r of Inl e \<Rightarrow> throw e | Inr x \<Rightarrow> f x)" for r
    by (cases r) (simp_all add: draws_on_throw assms(2))
  from draws_on_then [OF assms(1) this]
  have "draws_on R (\<lambda>s. case m s of (r, s') \<Rightarrow> (case r of Inl e \<Rightarrow> throw e | Inr x \<Rightarrow> f x) s')" .
  moreover have "seq m f = (\<lambda>s. case m s of (r, s') \<Rightarrow> (case r of Inl e \<Rightarrow> throw e | Inr x \<Rightarrow> f x) s')"
    by (intro ext) (simp add: seq_def throw_def split: prod.splits sum.splits)
  ultimately show ?thesis by simp
qed

lemma draws_on_attempt [draws_intros]:
  assumes "draws_on R m" "\<And>e. draws_on R (f e)"
  shows "draws_on R (attempt m f)"
proof -
  have "draws_on R (case r of Inl e \<Rightarrow> (if is_exception e then f e else throw e) | Inr x \<Rightarrow> ret x)"
    for r
    by (cases r) (simp_all add: draws_on_throw draws_on_ret assms(2))
  from draws_on_then [OF assms(1) this]
  have "draws_on R (\<lambda>s. case m s of (r, s') \<Rightarrow>
     (case r of Inl e \<Rightarrow> (if is_exception e then f e else throw e) | Inr x \<Rightarrow> ret x) s')" .
  moreover have "attempt m f = (\<lambda>s. case m s of (r, s') \<Rightarrow>
     (case r of Inl e \<Rightarrow> (if is_exception e then f e else throw e) | Inr x \<Rightarrow> ret x) s')"
    by (intro ext) (simp add: attempt_def throw_def ret_def split: prod.splits sum.splits)
  ultimately show ?thesis by simp
qed

lemma draws_on_if [draws_intros]:
  "draws_on R m \<Longrightarrow> draws_on R n \<Longrightarrow> draws_on R (if b then m else n)"
  by simp

lemma draws_on_case_prod [draws_intros]:
  "(\<And>a b. draws_on R (f a b)) \<Longrightarrow> draws_on R (case p of (a, b) \<Rightarrow> f a b)"
  by (cases p) simp

lemma draws_on_let [draws_intros]:
  "(\<And>x. draws_on R (f x)) \<Longrightarrow> draws_on R (let x = v in f x)"
  by simp

lemma draws_on_call_method [draws_intros]: "draws_on R (call_method h obj m args kw)"
  unfolding call_method_def by (intro draws_intros)

lemma draws_on_with_cm [draws_intros]:
  assumes "draws_on R body"
  shows "draws_on R (with_cm h cm body)"
proof -
  have e: "draws_on R (seq (widget h (Obj cm) ''__exit__'' [] []) (\<lambda>_. lift r))" for r :: "exn + 'a"
    by (intro draws_intros)
  have "draws_on R (\<lambda>s. case body s of
          (r, s') \<Rightarrow> seq (widget h (Obj cm) ''__exit__'' [] []) (\<lambda>_. lift r) s')"
    using assms e by (rule draws_on_then)
  moreover have "(\<lambda>s. case body s of
          (r, s') \<Rightarrow> seq (widget h (Obj cm) ''__exit__'' [] []) (\<lambda>_. lift r) s')
     = (\<lambda>s. case body s of
         (r, s') \<Rightarrow>
           (case widget h (Obj cm) ''__exit__'' [] [] s' of
              (Inl e, s'') \<Rightarrow> (Inl e, s'')
            | (Inr _, s'') \<Rightarrow> (r, s'')))"
    by (intro ext) (simp add: seq_def lift_def split: prod.splits sum.splits)
  ultimately have "draws_on R (\<lambda>s. case body s of
         (r, s') \<Rightarrow>
           (case widget h (Obj cm) ''__exit__'' [] [] s' of
              (Inl e, s'') \<Rightarrow> (Inl e, s'')
            | (Inr _, s'') \<Rightarrow> (r, s'')))"
    by simp
  then show ?thesis
    unfolding with_cm_def by (intro draws_intros)
qed

lemma draws_on_get_value_act [draws_intros]: "draws_on R (get_value_act key)"
  by (rule draws_on_pure) (simp add: get_value_act_def split: prod.splits)

lemma draws_on_store_value_act [draws_intros]: "draws_on R (store_value_act key v)"
  by (rule draws_on_pure) (simp add: store_value_act_def split: prod.splits)

lemma draws_on_deref [draws_intros]: "draws_on R (deref key cur)"
  by (rule draws_on_pure) (cases cur; simp add: deref_def ret_def)

lemma draws_on_assign [draws_intros]: "draws_on R (assign key cur v)"
  by (rule draws_on_pure) (cases cur; simp add: assign_def ret_def)

lemma draws_on_set_item [draws_intros]: "draws_on R (set_item key cur k v)"
  unfolding set_item_def by (intro draws_intros)

lemma draws_on_append_item [draws_intros]: "draws_on R (append_item key cur v)"
  unfolding append_item_def by (intro draws_intros)

lemma draws_on_get_default_kwargs [draws_intros]:
  "draws_on R (get_default_streamlit_input_kwargs lb key property)"
  unfolding get_default_streamlit_input_kwargs_def by (rule draws_on_read)

lemma draws_on_default_from_iso [draws_intros]: "draws_on R (default_from_iso lb f property kw)"
  unfolding default_from_iso_def by (intro draws_intros)

lemma draws_on_part_of_value [draws_intros]: "draws_on R (part_of_value lb f kw kw')"
  unfolding part_of_value_def by (intro draws_intros)

lemma draws_on_if_guard:
  "(b \<Longrightarrow> draws_on R m) \<Longrightarrow> (\<not> b \<Longrightarrow> draws_on R n) \<Longrightarrow> draws_on R (if b then m else n)"
  by simp

lemma draws_on_render_single_datetime_input:
  assumes "prop_get property ''format'' \<noteq> PStr ''date-time''"
  shows "draws_on R (render_single_datetime_input ui h R key property)"
  unfolding render_single_datetime_input_def
proof (intro draws_on_seq draws_on_get_default_kwargs draws_on_if_guard)
  fix kw
  show "draws_on R (default_from_iso (library ui) TimeFromIso property kw)"
    "draws_on R (default_from_iso (library ui) DateFromIso property kw)"
    by (intro draws_intros)+
  show "draws_on R (widget h R ''time_input'' [] x)" "draws_on R (widget h R ''date_input'' [] x)"
    for x
    by (intro draws_intros)+
  show "draws_on R (lift (py_str (library ui) (prop_get property ''format'')))"
    by (intro draws_intros)
  show "draws_on R (widget h R ''warning'' [PStr (''Date format is not supported: '' @ fmt)] [])"
    for fmt
    by (intro draws_intros)
  show "draws_on R (ret PNone)"
    by (intro draws_intros)
qed (use assms in simp_all)

lemma draws_on_render_date_time:
  assumes "prop_get property ''format'' = PStr ''date-time''"
  shows "draws_on St (render_single_datetime_input ui h R key property)"
proof -
  have "render_single_datetime_input ui h R key property =
     seq (get_default_streamlit_input_kwargs (library ui) key property) (\<lambda>kw.
         seq (default_from_iso (library ui) DatetimeFromIso property kw) (\<lambda>streamlit_kwargs.
         seq (widget h St ''beta_container'' [] []) (\<lambda>container.
         with_cm h container
           (seq (widget h St ''subheader'' [prop_get streamlit_kwargs ''label''] []) (\<lambda>_.
            seq (if py_truthy (prop_get streamlit_kwargs ''description'')
                 then widget h St ''text'' [prop_get streamlit_kwargs ''description''] []
                 else ret PNone) (\<lambda>_.
            seq (widget h St ''beta_columns'' [PInt 2] []) (\<lambda>cols.
            seq (lift (unpack2 cols)) (\<lambda>(date_col, time_col).
            seq (with_cm h date_col
                   (seq (part_of_value (library ui) DateOf streamlit_kwargs
                           [(''label'', PStr ''Date''), (''key'', PStr (key @ ''-date-input''))])
                      (\<lambda>date_kwargs. widget h St ''date_input'' [] date_kwargs))) (\<lambda>selected_date.
            seq (with_cm h time_col
                   (seq (part_of_value (library ui) TimeOf streamlit_kwargs
                           [(''label'', PStr ''Time''), (''key'', PStr (key @ ''-time-input''))])
                      (\<lambda>time_kwargs. widget h St ''time_input'' [] time_kwargs))) (\<lambda>selected_time.
            lift (library ui DatetimeCombine [selected_date, selected_time])))))))))))"
    unfolding render_single_datetime_input_def using assms by simp
  then show ?thesis
    by (simp only:) (intro draws_intros)
qed

lemma draws_on_render_single_file_input:
  "draws_on R (render_single_file_input ui h R key property)"
  unfolding render_single_file_input_def by (intro draws_intros)

lemma draws_on_render_single_string_input:
  "draws_on R (render_single_string_input ui h R key property)"
  unfolding render_single_string_input_def by (intro draws_intros)

lemma draws_on_render_multi_enum_input:
  "draws_on R (render_multi_enum_input ui h R key property)"
  unfolding render_multi_enum_input_def by (intro draws_intros)

lemma draws_on_render_single_enum_input:
  "draws_on R (render_single_enum_input ui h R key property)"
  unfolding render_single_enum_input_def by (intro draws_intros)

lemma draws_on_new_value_input [draws_intros]:
  "draws_on R (new_value_input h R key item_type)"
  unfolding new_value_input_def by (intro draws_intros)

lemma draws_on_render_heading [draws_intros]: "draws_on R (render_heading h R property)"
  unfolding render_heading_def by (intro draws_intros)

lemma draws_on_render_rule [draws_intros]: "draws_on R (render_rule h R)"
  unfolding render_rule_def by (intro draws_intros)

lemma draws_on_current_or [draws_intros]: "draws_on R (current_or key fresh)"
  unfolding current_or_def by (intro draws_intros)

lemma draws_on_item_buttons [draws_intros]:
  "(\<And>c. draws_on R (add c)) \<Longrightarrow> draws_on R (item_buttons h R key current0 fresh cond add)"
  unfolding item_buttons_def by (intro draws_intros)

lemma draws_on_write_current [draws_intros]: "draws_on R (write_current h R key current)"
  unfolding write_current_def by (intro draws_intros)

lemma draws_on_render_single_dict_input:
  "draws_on R (render_single_dict_input ui h R key property)"
  unfolding render_single_dict_input_def by (intro draws_intros)

lemma draws_on_render_single_boolean_input:
  "draws_on R (render_single_boolean_input ui h R key property)"
  unfolding render_single_boolean_input_def by (intro draws_intros)

lemma draws_on_read_files [draws_intros]: "draws_on R (read_files h files)"
  by (induction files) (auto intro!: draws_intros)

lemma draws_on_render_multi_file_input:
  "draws_on R (render_multi_file_input ui h R key property)"
  unfolding render_multi_file_input_def by (intro draws_intros)

lemma draws_on_render_single_number_input:
  "draws_on R (render_single_number_input lb h R key property)"
  unfolding render_single_number_input_def by (intro draws_intros)

lemma draws_on_render_property_list_input:
  "draws_on R (render_property_list_input ui h R key property)"
  unfolding render_property_list_input_def by (intro draws_intros)

lemma draws_on_render_property_leaf:
  assumes "first_true (shape_tests ui property) = Some i"
    and "i \<in> set [0, 1, 2, 3, 5, 6, 7, 8, 11]
         \<or> i = 4 \<and> prop_get property ''format'' \<noteq> PStr ''date-time''"
  shows "draws_on R (render_property ui h depth R key property)"
proof (cases depth)
  case 0
  then show ?thesis by (simp add: draws_on_throw)
next
  case (Suc n)
  have r: "render_property ui h depth R key property = shape_renderers ui h n R key property ! i"
    unfolding Suc using render_property_table [of ui h n R key property] assms(1) by simp
  from assms(2) consider "i = 0" | "i = 1" | "i = 2" | "i = 3" | "i = 5" | "i = 6" | "i = 7"
    | "i = 8" | "i = 11" | "i = 4" "prop_get property ''format'' \<noteq> PStr ''date-time''"
    by auto
  then show ?thesis
  proof cases
    case 1
    then show ?thesis unfolding r
      by (simp add: shape_renderers_def draws_on_render_single_enum_input)
  next
    case 2
    then show ?thesis unfolding r
      by (simp add: shape_renderers_def draws_on_render_multi_enum_input)
  next
    case 3
    then show ?thesis unfolding r
      by (simp add: shape_renderers_def draws_on_render_single_file_input)
  next
    case 4
    then show ?thesis unfolding r
      by (simp add: shape_renderers_def draws_on_render_multi_file_input)
  next
    case 5
    then show ?thesis unfolding r
      by (simp add: shape_renderers_def draws_on_render_single_boolean_input)
  next
    case 6
    then show ?thesis unfolding r
      by (simp add: shape_renderers_def draws_on_render_single_dict_input)
  next
    case 7
    then show ?thesis unfolding r
      by (simp add: shape_renderers_def draws_on_render_single_number_input)
  next
    case 8
    then show ?thesis unfolding r
      by (simp add: shape_renderers_def draws_on_render_single_string_input)
  next
    case 9
    then show ?thesis unfolding r
      by (simp add: shape_renderers_def draws_on_render_property_list_input)
  next
    case 10
    then show ?thesis unfolding r
      by (simp add: shape_renderers_def draws_on_render_single_datetime_input)
  qed
qed

lemma draws_on_render_property_date_time:
  assumes "first_true (shape_tests ui property) = Some 4"
    and "prop_get property ''format'' = PStr ''date-time''"
  shows "draws_on St (render_property ui h depth R key property)"
proof (cases depth)
  case 0
  then show ?thesis by (simp add: draws_on_throw)
next
  case (Suc n)
  have "render_property ui h depth R key property = shape_renderers ui h n R key property ! 4"
    unfolding Suc using render_property_table [of ui h n R key property] assms(1) by simp
  then show ?thesis
    by (simp add: shape_renderers_def draws_on_render_date_time [OF assms(2)])
qed


text \<open>
  C9, amended. Failure isolation in the loop of \<^verbatim>\<open>InputUI.render_ui\<close>, in a session whose
  input data is a dict: when rendering or storing a property raises an exception that
  \<^verbatim>\<open>except Exception\<close> catches, the exception is discarded and the loop goes on with the
  remaining properties from the state reached at the raise; an exception that it does
  not catch (a signal of the host, derived from \<^verbatim>\<open>BaseException\<close>) ends the loop. In the
  state reached at the raise every entry of the session input data whose key is not
  the first piece of the failing key is what it was before the turn (for a key without
  a dot: every entry under another key), and the output data, the latest operation
  input and the run id are unchanged; a store that raises changes nothing, so the
  state is the one the rendering left. Nothing is said of the entry under the first
  piece of the failing key: the rendering may have changed it before the raise.
\<close>

theorem render_ui_failure_isolation:
  assumes "is_dict (input_data s)"
    and "py_getitem (schema_properties ui) property_key = Inr (PDict property0)"
    and "title_fallback (library ui) property_key property0 = Inr property"
    and "py_contains required_properties property_key = Inr required"
    and "seq (render_property ui h depth (if required then St else Sidebar) property_key property)
           (\<lambda>v. store_value_act property_key v) s = (Inl e, s1)"
  shows "(is_exception e \<longrightarrow>
            render_ui_loop ui h depth required_properties (property_key # rest) s
              = render_ui_loop ui h depth required_properties rest s1)
     \<and> (\<not> is_exception e \<longrightarrow>
            render_ui_loop ui h depth required_properties (property_key # rest) s = (Inl e, s1))
     \<and> is_dict (input_data s1)
     \<and> (\<forall>k. k \<noteq> hd (str_split property_key) \<longrightarrow>
            lookup_path (input_data s1) [k] = lookup_path (input_data s) [k])
     \<and> output_data s1 = output_data s
     \<and> latest_operation_input s1 = latest_operation_input s
     \<and> run_id s1 = run_id s
     \<and> (\<forall>v s'. render_property ui h depth (if required then St else Sidebar) property_key property s
                   = (Inr v, s') \<longrightarrow> s1 = s')
     \<and> (\<forall>e' s'. render_property ui h depth (if required then St else Sidebar) property_key property s
                   = (Inl e', s') \<longrightarrow> s1 = s' \<and> e' = e)
     \<and> (CHR ''.'' \<notin> set property_key \<longrightarrow> hd (str_split property_key) = property_key)"
proof -
  let ?body = "seq (render_property ui h depth (if required then St else Sidebar) property_key property)
           (\<lambda>v. store_value_act property_key v)"
  have 1: "is_exception e \<longrightarrow>
           render_ui_loop ui h depth required_properties (property_key # rest) s
           = render_ui_loop ui h depth required_properties rest s1"
    using assms(5)
    by (simp add: render_ui_property_unfold [OF assms(2,3,4)] attempt_def seq_def ret_def)
  have 2: "\<not> is_exception e \<longrightarrow>
           render_ui_loop ui h depth required_properties (property_key # rest) s = (Inl e, s1)"
    using assms(5)
    by (simp add: render_ui_property_unfold [OF assms(2,3,4)] attempt_def seq_def ret_def)
  have k: "keeps {hd (str_split property_key)} ?body"
    by (intro keeps_intros keeps_render_property) simp_all
  note f = keepsD [OF k assms(5) assms(1)]
  have 3: "\<forall>k. k \<noteq> hd (str_split property_key) \<longrightarrow>
            lookup_path (input_data s1) [k] = lookup_path (input_data s) [k]"
    using f(2) by (simp del: lookup_path.simps)
  have 7: "\<forall>v s'. render_property ui h depth (if required then St else Sidebar) property_key property s
                   = (Inr v, s') \<longrightarrow> s1 = s'"
  proof (intro allI impI)
    fix v s'
    assume rp: "render_property ui h depth (if required then St else Sidebar) property_key property s
                   = (Inr v, s')"
    obtain r2 d2 where st: "store_value (input_data s') property_key v = (r2, d2)"
      by (cases "store_value (input_data s') property_key v")
    from assms(5) rp st have r2: "r2 = Inl e" and s1: "s1 = s'\<lparr>input_data := d2\<rparr>"
      by (auto simp: seq_def store_value_act_def)
    from st r2 have "d2 = input_data s'"
      unfolding store_value_def by (auto dest: store_loop_error_unchanged)
    with s1 show "s1 = s'" by simp
  qed
  have 8: "\<forall>e' s'. render_property ui h depth (if required then St else Sidebar) property_key property s
                   = (Inl e', s') \<longrightarrow> s1 = s' \<and> e' = e"
    using assms(5) by (auto simp: seq_def)
  have 9: "CHR ''.'' \<notin> set property_key \<longrightarrow> hd (str_split property_key) = property_key"
    by (simp add: hd_str_split_plain)
  from 1 2 f(1) 3 f(3) f(4) f(5) 7 8 9 show ?thesis by blast
qed

lemmas run_simps =
  render_ui_def render_ui_property_def seq_def lift_def ebind_def attempt_def ret_def throw_def
  widget_def plain_utils_def new_input_ui_def demo_class_def demo_lib_def
  unsupported_property_def render_single_string_input_def
  get_default_streamlit_input_kwargs_def default_kwargs_def wants_text_input_def
  title_fallback_def store_value_act_def store_value_def prop_get_def dict_get_def dict_has_def
  dict_get_default_def str_of_int_def start_state_def Let_def



theorem render_ui_failure_isolation_witness:
  "render_ui_loop (new_input_ui demo_lib plain_utils demo_class) demo_host (Suc 0)
     (PList [PStr ''text'']) [''odd'', ''text'']
     (start_state\<lparr>input_data := PDict [(''seen'', PInt 1)]\<rparr>)
   = render_ui_loop (new_input_ui demo_lib plain_utils demo_class) demo_host (Suc 0)
     (PList [PStr ''text'']) [''text'']
     (start_state\<lparr>input_data := PDict [(''seen'', PInt 1)],
        trace := [Call Sidebar ''warning''
          [PStr ''The type of the following property is currently not supported: Odd''] []]\<rparr>)
   \<and> render_ui_loop (new_input_ui demo_lib plain_utils demo_class) demo_host (Suc 0)
     (PList [PStr ''text'']) [''odd'', ''text'']
     (start_state\<lparr>input_data := PDict [(''seen'', PInt 1)]\<rparr>)
   = (Inr (),
      start_state\<lparr>input_data := PDict [(''seen'', PInt 1), (''text'', PStr ''hello'')],
        trace := [Call Sidebar ''warning''
          [PStr ''The type of the following property is currently not supported: Odd''] [],
          Call St ''text_area'' [] [(''label'', PStr ''Text''), (''key'', PStr ''0-text'')]]\<rparr>)"
proof -
  let ?ui = "new_input_ui demo_lib plain_utils demo_class"
  let ?s = "start_state\<lparr>input_data := PDict [(''seen'', PInt 1)]\<rparr>"
  let ?s1 = "start_state\<lparr>input_data := PDict [(''seen'', PInt 1)],
        trace := [Call Sidebar ''warning''
          [PStr ''The type of the following property is currently not supported: Odd''] []]\<rparr>"
  let ?p = "[(''title'', PStr ''Odd''), (''type'', PStr ''null'')]"
  have 1: "is_dict (input_data ?s)"
    by (simp add: run_simps)
  have 2: "py_getitem (schema_properties ?ui) ''odd'' = Inr (PDict ?p)"
    by (simp add: run_simps)
  have 3: "title_fallback (library ?ui) ''odd'' ?p = Inr ?p"
    by (simp add: run_simps)
  have 4: "py_contains (PList [PStr ''text'']) ''odd'' = Inr False"
    by simp
  have 5: "seq (render_property ?ui demo_host (Suc 0) (if False then St else Sidebar) ''odd'' ?p)
             (\<lambda>v. store_value_act ''odd'' v) ?s = (Inl UnsupportedProperty, ?s1)"
    by (simp add: run_simps)
  have 6: "is_exception UnsupportedProperty"
    by simp
  have 7: "render_ui_loop ?ui demo_host (Suc 0) (PList [PStr ''text'']) [''text''] ?s1
     = (Inr (),
      start_state\<lparr>input_data := PDict [(''seen'', PInt 1), (''text'', PStr ''hello'')],
        trace := [Call Sidebar ''warning''
          [PStr ''The type of the following property is currently not supported: Odd''] [],
          Call St ''text_area'' [] [(''label'', PStr ''Text''), (''key'', PStr ''0-text'')]]\<rparr>)"
    by (simp add: run_simps)
  note a = render_ui_failure_isolation [OF 1 2 3 4 5, of "[''text'']", THEN conjunct1, THEN mp, OF 6]
  show ?thesis
    by (rule conjI, rule a, unfold a, rule 7)
qed

lemmas dict_simps =
  dict_utils_def nested_class_def render_single_dict_input_def render_heading_def render_rule_def
  current_or_def get_value_act_def get_value_def with_cm_def new_value_input_def item_buttons_def
  write_current_def deref_def dict_item_def unpack2_def assign_def set_item_def

text \<open>
  C9, as stated: the values already stored for the properties processed before are
  unchanged. The input class has the dict properties \<^verbatim>\<open>a\<close> and \<^verbatim>\<open>a.b.c\<close>. The first is
  rendered and the empty dict it returns is stored under \<^verbatim>\<open>a\<close>. The renderer of the
  second looks up \<^verbatim>\<open>a.b.c\<close>, which puts an empty dict \<^verbatim>\<open>b\<close> into the dict stored under
  \<^verbatim>\<open>a\<close>, and then raises \<^verbatim>\<open>AttributeError\<close> on its \<^verbatim>\<open>additionalProperties\<close>, which
  is \<^verbatim>\<open>true\<close>; the exception is discarded, and the value stored for \<^verbatim>\<open>a\<close> is no longer
  what was stored.
\<close>

theorem render_ui_failure_changes_stored_counterexample:
  "input_data (snd (render_ui_loop (new_input_ui no_lib dict_utils nested_class) page_host (Suc 0)
       (PList []) [''a''] start_state))
     = PDict [(''a'', PDict [])]
   \<and> fst (render_property (new_input_ui no_lib dict_utils nested_class) page_host (Suc 0) Sidebar
       ''a.b.c''
       [(''title'', PStr ''C''), (''type'', PStr ''object''), (''additionalProperties'', PBool True)]
       (snd (render_ui_loop (new_input_ui no_lib dict_utils nested_class) page_host (Suc 0)
          (PList []) [''a''] start_state)))
     = Inl AttributeError
   \<and> fst (render_ui (new_input_ui no_lib dict_utils nested_class) page_host (Suc 0) start_state)
     = Inr ()
   \<and> input_data (snd (render_ui (new_input_ui no_lib dict_utils nested_class) page_host (Suc 0)
       start_state))
     = PDict [(''a'', PDict [(''b'', PDict [])])]"
  by (simp add: run_simps dict_simps)

section \<open>Runs and the answers of the host\<close>

lemma host_localI:
  assumes "\<And>h1 h2 s. \<exists>cs. trace (snd (m h1 s)) = trace s @ cs \<and>
        ((\<forall>c \<in> set cs. h1 c = h2 c) \<longrightarrow> m h2 s = m h1 s)"
  shows "host_local m"
  using assms unfolding host_local_def by blast

lemma host_localD:
  assumes "host_local m"
  shows "\<exists>cs. trace (snd (m h1 s)) = trace s @ cs \<and>
        ((\<forall>c \<in> set cs. h1 c = h2 c) \<longrightarrow> m h2 s = m h1 s)"
  using assms unfolding host_local_def by blast

lemma host_local_pure:
  assumes "\<And>s. trace (snd (m s)) = trace s"
  shows "host_local (\<lambda>h. m)"
  by (rule host_localI) (simp add: assms)

lemma host_local_ret [local_intros]: "host_local (\<lambda>h. ret x)"
  by (rule host_local_pure) (simp add: ret_def)

lemma host_local_throw [local_intros]: "host_local (\<lambda>h. throw e)"
  by (rule host_local_pure) (simp add: throw_def)

lemma host_local_lift [local_intros]: "host_local (\<lambda>h. lift r)"
  by (rule host_local_pure) (simp add: lift_def)

lemma host_local_read [local_intros]: "host_local (\<lambda>h. (\<lambda>s. (f s, s)))"
  by (rule host_local_pure) simp

lemma host_local_widget [local_intros]: "host_local (\<lambda>h. widget h r m args kw)"
  by (rule host_localI) (simp add: widget_def)

lemma host_local_seq [local_intros]:
  assumes "host_local m" "\<And>x. host_local (\<lambda>h. f x h)"
  shows "host_local (\<lambda>h. seq (m h) (\<lambda>x. f x h))"
proof (rule host_localI)
  fix h1 h2 s
  obtain r1 s1 where m1: "m h1 s = (r1, s1)" by (cases "m h1 s")
  from host_localD [OF assms(1), of h1 s h2]
  obtain cs1 where c1: "trace (snd (m h1 s)) = trace s @ cs1"
    and a1: "(\<forall>c \<in> set cs1. h1 c = h2 c) \<Longrightarrow> m h2 s = m h1 s"
    by blast
  show "\<exists>cs. trace (snd (seq (m h1) (\<lambda>x. f x h1) s)) = trace s @ cs \<and>
        ((\<forall>c \<in> set cs. h1 c = h2 c) \<longrightarrow>
           seq (m h2) (\<lambda>x. f x h2) s = seq (m h1) (\<lambda>x. f x h1) s)"
  proof (cases r1)
    case (Inl e)
    with m1 c1 a1 show ?thesis
      by (intro exI [of _ cs1]) (simp add: seq_def)
  next
    case (Inr x)
    from host_localD [OF assms(2) [of x], of h1 s1 h2]
    obtain cs2 where c2: "trace (snd (f x h1 s1)) = trace s1 @ cs2"
      and a2: "(\<forall>c \<in> set cs2. h1 c = h2 c) \<Longrightarrow> f x h2 s1 = f x h1 s1"
      by blast
    from m1 c1 have t1: "trace s1 = trace s @ cs1" by simp
    show ?thesis
    proof (intro exI [of _ "cs1 @ cs2"] conjI impI)
      show "trace (snd (seq (m h1) (\<lambda>x. f x h1) s)) = trace s @ cs1 @ cs2"
        using m1 Inr c2 t1 by (simp add: seq_def)
    next
      assume ag: "\<forall>c \<in> set (cs1 @ cs2). h1 c = h2 c"
      then have "m h2 s = m h1 s" "f x h2 s1 = f x h1 s1"
        using a1 a2 by auto
      with m1 Inr show "seq (m h2) (\<lambda>x. f x h2) s = seq (m h1) (\<lambda>x. f x h1) s"
        by (simp add: seq_def)
    qed
  qed
qed

lemma host_local_attempt [local_intros]:
  assumes "host_local m" "\<And>e. host_local (\<lambda>h. f e h)"
  shows "host_local (\<lambda>h. attempt (m h) (\<lambda>e. f e h))"
proof (rule host_localI)
  fix h1 h2 s
  obtain r1 s1 where m1: "m h1 s = (r1, s1)" by (cases "m h1 s")
  from host_localD [OF assms(1), of h1 s h2]
  obtain cs1 where c1: "trace (snd (m h1 s)) = trace s @ cs1"
    and a1: "(\<forall>c \<in> set cs1. h1 c = h2 c) \<Longrightarrow> m h2 s = m h1 s"
    by blast
  show "\<exists>cs. trace (snd (attempt (m h1) (\<lambda>e. f e h1) s)) = trace s @ cs \<and>
        ((\<forall>c \<in> set cs. h1 c = h2 c) \<longrightarrow>
           attempt (m h2) (\<lambda>e. f e h2) s = attempt (m h1) (\<lambda>e. f e h1) s)"
  proof (cases "\<exists>e. r1 = Inl e \<and> is_exception e")
    case False
    with m1 c1 a1 show ?thesis
      by (intro exI [of _ cs1]) (cases r1; auto simp: attempt_def)
  next
    case True
    then obtain e where e: "r1 = Inl e" "is_exception e" by blast
    from host_localD [OF assms(2) [of e], of h1 s1 h2]
    obtain cs2 where c2: "trace (snd (f e h1 s1)) = trace s1 @ cs2"
      and a2: "(\<forall>c \<in> set cs2. h1 c = h2 c) \<Longrightarrow> f e h2 s1 = f e h1 s1"
      by blast
    from m1 c1 have t1: "trace s1 = trace s @ cs1" by simp
    show ?thesis
    proof (intro exI [of _ "cs1 @ cs2"] conjI impI)
      show "trace (snd (attempt (m h1) (\<lambda>e. f e h1) s)) = trace s @ cs1 @ cs2"
        using m1 e c2 t1 by (simp add: attempt_def)
    next
      assume ag: "\<forall>c \<in> set (cs1 @ cs2). h1 c = h2 c"
      then have "m h2 s = m h1 s" "f e h2 s1 = f e h1 s1"
        using a1 a2 by auto
      with m1 e show "attempt (m h2) (\<lambda>e. f e h2) s = attempt (m h1) (\<lambda>e. f e h1) s"
        by (simp add: attempt_def)
    qed
  qed
qed

lemma host_local_attempt_validation [local_intros]:
  assumes "host_local m" "\<And>e. host_local (\<lambda>h. f e h)"
  shows "host_local (\<lambda>h. attempt_validation (m h) (\<lambda>e. f e h))"
proof (rule host_localI)
  fix h1 h2 s
  obtain r1 s1 where m1: "m h1 s = (r1, s1)" by (cases "m h1 s")
  from host_localD [OF assms(1), of h1 s h2]
  obtain cs1 where c1: "trace (snd (m h1 s)) = trace s @ cs1"
    and a1: "(\<forall>c \<in> set cs1. h1 c = h2 c) \<Longrightarrow> m h2 s = m h1 s"
    by blast
  show "\<exists>cs. trace (snd (attempt_validation (m h1) (\<lambda>e. f e h1) s)) = trace s @ cs \<and>
        ((\<forall>c \<in> set cs. h1 c = h2 c) \<longrightarrow>
           attempt_validation (m h2) (\<lambda>e. f e h2) s = attempt_validation (m h1) (\<lambda>e. f e h1) s)"
  proof (cases "r1 = Inl ValidationError")
    case False
    with m1 c1 a1 show ?thesis
      by (intro exI [of _ cs1]) (cases r1; auto simp: attempt_validation_def)
  next
    case True
    from host_localD [OF assms(2) [of ValidationError], of h1 s1 h2]
    obtain cs2
      where c2: "trace (snd (f ValidationError h1 s1)) = trace s1 @ cs2"
      and a2: "(\<forall>c \<in> set cs2. h1 c = h2 c) \<Longrightarrow> f ValidationError h2 s1 = f ValidationError h1 s1"
      by blast
    from m1 c1 have t1: "trace s1 = trace s @ cs1" by simp
    show ?thesis
    proof (intro exI [of _ "cs1 @ cs2"] conjI impI)
      show "trace (snd (attempt_validation (m h1) (\<lambda>e. f e h1) s)) = trace s @ cs1 @ cs2"
        using m1 True c2 t1 by (simp add: attempt_validation_def)
    next
      assume ag: "\<forall>c \<in> set (cs1 @ cs2). h1 c = h2 c"
      then have "m h2 s = m h1 s" "f ValidationError h2 s1 = f ValidationError h1 s1"
        using a1 a2 by auto
      with m1 True show "attempt_validation (m h2) (\<lambda>e. f e h2) s
          = attempt_validation (m h1) (\<lambda>e. f e h1) s"
        by (simp add: attempt_validation_def)
    qed
  qed
qed

lemma host_local_if [local_intros]:
  "host_local m \<Longrightarrow> host_local n \<Longrightarrow> host_local (\<lambda>h. if b then m h else n h)"
  by (cases b) simp_all

lemma host_local_case_prod [local_intros]:
  "(\<And>a b. host_local (\<lambda>h. f a b h)) \<Longrightarrow> host_local (\<lambda>h. case p of (a, b) \<Rightarrow> f a b h)"
  by (cases p) simp

lemma host_local_let [local_intros]:
  "(\<And>x. host_local (\<lambda>h. f x h)) \<Longrightarrow> host_local (\<lambda>h. let x = v in f x h)"
  by simp

lemma host_local_then:
  assumes "host_local m" "\<And>r. host_local (\<lambda>h. f r h)"
  shows "host_local (\<lambda>h s. case m h s of (r, s') \<Rightarrow> f r h s')"
proof (rule host_localI)
  fix h1 h2 s
  obtain r1 s1 where m1: "m h1 s = (r1, s1)" by (cases "m h1 s")
  from host_localD [OF assms(1), of h1 s h2]
  obtain cs1 where c1: "trace (snd (m h1 s)) = trace s @ cs1"
    and a1: "(\<forall>c \<in> set cs1. h1 c = h2 c) \<Longrightarrow> m h2 s = m h1 s"
    by blast
  from host_localD [OF assms(2) [of r1], of h1 s1 h2]
  obtain cs2 where c2: "trace (snd (f r1 h1 s1)) = trace s1 @ cs2"
    and a2: "(\<forall>c \<in> set cs2. h1 c = h2 c) \<Longrightarrow> f r1 h2 s1 = f r1 h1 s1"
    by blast
  from m1 c1 have t1: "trace s1 = trace s @ cs1" by simp
  show "\<exists>cs. trace (snd (case m h1 s of (r, s') \<Rightarrow> f r h1 s')) = trace s @ cs \<and>
        ((\<forall>c \<in> set cs. h1 c = h2 c) \<longrightarrow>
           (case m h2 s of (r, s') \<Rightarrow> f r h2 s') = (case m h1 s of (r, s') \<Rightarrow> f r h1 s'))"
  proof (intro exI [of _ "cs1 @ cs2"] conjI impI)
    show "trace (snd (case m h1 s of (r, s') \<Rightarrow> f r h1 s')) = trace s @ cs1 @ cs2"
      using m1 c2 t1 by simp
  next
    assume ag: "\<forall>c \<in> set (cs1 @ cs2). h1 c = h2 c"
    then have "m h2 s = m h1 s" "f r1 h2 s1 = f r1 h1 s1"
      using a1 a2 by auto
    with m1 show "(case m h2 s of (r, s') \<Rightarrow> f r h2 s') = (case m h1 s of (r, s') \<Rightarrow> f r h1 s')"
      by simp
  qed
qed

lemma host_local_state:
  assumes "\<And>x. host_local (\<lambda>h. g x h)"
  shows "host_local (\<lambda>h s. g (r s) h s)"
proof (rule host_localI)
  fix h1 h2 s
  from host_localD [OF assms [of "r s"], of h1 s h2]
  show "\<exists>cs. trace (snd (g (r s) h1 s)) = trace s @ cs \<and>
        ((\<forall>c \<in> set cs. h1 c = h2 c) \<longrightarrow> g (r s) h2 s = g (r s) h1 s)" .
qed

lemma host_local_call_method [local_intros]: "host_local (\<lambda>h. call_method h obj m args kw)"
  unfolding call_method_def by (intro local_intros)

lemma host_local_with_cm [local_intros]:
  assumes "host_local body"
  shows "host_local (\<lambda>h. with_cm h cm (body h))"
proof -
  have e: "host_local (\<lambda>h. seq (widget h (Obj cm) ''__exit__'' [] []) (\<lambda>_. lift r))" for r :: "exn + 'a"
    by (intro local_intros)
  have "host_local (\<lambda>h s. case body h s of
          (r, s') \<Rightarrow> seq (widget h (Obj cm) ''__exit__'' [] []) (\<lambda>_. lift r) s')"
    using assms e by (rule host_local_then)
  moreover have "(\<lambda>h s. case body h s of
          (r, s') \<Rightarrow> seq (widget h (Obj cm) ''__exit__'' [] []) (\<lambda>_. lift r) s')
     = (\<lambda>h s. case body h s of
         (r, s') \<Rightarrow>
           (case widget h (Obj cm) ''__exit__'' [] [] s' of
              (Inl e, s'') \<Rightarrow> (Inl e, s'')
            | (Inr _, s'') \<Rightarrow> (r, s'')))"
    by (intro ext) (simp add: seq_def lift_def split: prod.splits sum.splits)
  ultimately have "host_local (\<lambda>h s. case body h s of
         (r, s') \<Rightarrow>
           (case widget h (Obj cm) ''__exit__'' [] [] s' of
              (Inl e, s'') \<Rightarrow> (Inl e, s'')
            | (Inr _, s'') \<Rightarrow> (r, s'')))"
    by simp
  then show ?thesis
    unfolding with_cm_def by (intro local_intros)
qed

lemma host_local_get_value_act [local_intros]: "host_local (\<lambda>h. get_value_act key)"
  by (rule host_local_pure) (simp add: get_value_act_def split: prod.splits)

lemma host_local_store_value_act [local_intros]: "host_local (\<lambda>h. store_value_act key v)"
  by (rule host_local_pure) (simp add: store_value_act_def split: prod.splits)

lemma host_local_deref [local_intros]: "host_local (\<lambda>h. deref key cur)"
  by (rule host_local_pure) (cases cur; simp add: deref_def ret_def)

lemma host_local_assign [local_intros]: "host_local (\<lambda>h. assign key cur v)"
  by (rule host_local_pure) (cases cur; simp add: assign_def ret_def)

lemma host_local_set_input_data [local_intros]: "host_local (\<lambda>h. set_input_data d)"
  by (rule host_local_pure) (simp add: set_input_data_def)

lemma host_local_set_item [local_intros]: "host_local (\<lambda>h. set_item key cur k v)"
  unfolding set_item_def by (intro local_intros)

lemma host_local_append_item [local_intros]: "host_local (\<lambda>h. append_item key cur v)"
  unfolding append_item_def by (intro local_intros)

lemma host_local_get_default_kwargs [local_intros]:
  "host_local (\<lambda>h. get_default_streamlit_input_kwargs lb key property)"
  unfolding get_default_streamlit_input_kwargs_def by (rule host_local_read)

lemma host_local_default_from_iso [local_intros]:
  "host_local (\<lambda>h. default_from_iso lb f property kw)"
  unfolding default_from_iso_def by (intro local_intros)

lemma host_local_part_of_value [local_intros]:
  "host_local (\<lambda>h. part_of_value lb f kw kw')"
  unfolding part_of_value_def by (intro local_intros)

lemma host_local_render_single_datetime_input [local_intros]:
  "host_local (\<lambda>h. render_single_datetime_input ui h streamlit_app key property)"
  unfolding render_single_datetime_input_def by (intro local_intros)

lemma host_local_render_single_file_input [local_intros]:
  "host_local (\<lambda>h. render_single_file_input ui h streamlit_app key property)"
  unfolding render_single_file_input_def by (intro local_intros)

lemma host_local_render_single_string_input [local_intros]:
  "host_local (\<lambda>h. render_single_string_input ui h streamlit_app key property)"
  unfolding render_single_string_input_def by (intro local_intros)

lemma host_local_render_multi_enum_input [local_intros]:
  "host_local (\<lambda>h. render_multi_enum_input ui h streamlit_app key property)"
  unfolding render_multi_enum_input_def by (intro local_intros)

lemma host_local_render_single_enum_input [local_intros]:
  "host_local (\<lambda>h. render_single_enum_input ui h streamlit_app key property)"
  unfolding render_single_enum_input_def by (intro local_intros)

lemma host_local_new_value_input [local_intros]:
  "host_local (\<lambda>h. new_value_input h streamlit_app key item_type)"
  unfolding new_value_input_def by (intro local_intros)

lemma host_local_render_heading [local_intros]:
  "host_local (\<lambda>h. render_heading h streamlit_app property)"
  unfolding render_heading_def by (intro local_intros)

lemma host_local_render_rule [local_intros]: "host_local (\<lambda>h. render_rule h streamlit_app)"
  unfolding render_rule_def by (intro local_intros)

lemma host_local_current_or [local_intros]: "host_local (\<lambda>h. current_or key fresh)"
  unfolding current_or_def by (intro local_intros)

lemma host_local_item_buttons [local_intros]:
  "(\<And>c. host_local (\<lambda>h. add c h)) \<Longrightarrow>
   host_local (\<lambda>h. item_buttons h streamlit_app key current0 fresh cond (\<lambda>c. add c h))"
  unfolding item_buttons_def by (intro local_intros)

lemma host_local_write_current [local_intros]:
  "host_local (\<lambda>h. write_current h streamlit_app key current)"
  unfolding write_current_def by (intro local_intros)

lemma host_local_render_single_dict_input [local_intros]:
  "host_local (\<lambda>h. render_single_dict_input ui h streamlit_app key property)"
  unfolding render_single_dict_input_def by (intro local_intros)

lemma host_local_render_single_boolean_input [local_intros]:
  "host_local (\<lambda>h. render_single_boolean_input ui h streamlit_app key property)"
  unfolding render_single_boolean_input_def by (intro local_intros)

lemma host_local_read_files [local_intros]: "host_local (\<lambda>h. read_files h files)"
  by (induction files) (auto intro!: local_intros)

lemma host_local_render_multi_file_input [local_intros]:
  "host_local (\<lambda>h. render_multi_file_input ui h streamlit_app key property)"
  unfolding render_multi_file_input_def by (intro local_intros)

lemma host_local_render_single_number_input [local_intros]:
  "host_local (\<lambda>h. render_single_number_input lb h streamlit_app key property)"
  unfolding render_single_number_input_def by (intro local_intros)

lemma host_local_render_property_list_input [local_intros]:
  "host_local (\<lambda>h. render_property_list_input ui h streamlit_app key property)"
  unfolding render_property_list_input_def by (intro local_intros)

lemma host_local_render_object_properties:
  assumes "\<And>app key' p. host_local (\<lambda>h. rp h app key' p)"
  shows "host_local (\<lambda>h. render_object_properties lb (rp h) streamlit_app key properties keys
           object_inputs)"
proof (induction keys arbitrary: object_inputs)
  case Nil
  show ?case by (simp add: host_local_ret)
next
  case (Cons property_key rest)
  show ?case
    unfolding render_object_properties.simps
    by (intro local_intros assms Cons.IH)
qed

lemma host_local_render_object_input:
  assumes "\<And>app key' p. host_local (\<lambda>h. rp h app key' p)"
  shows "host_local (\<lambda>h. render_object_input lb (rp h) streamlit_app key property)"
  unfolding render_object_input_def
proof (intro local_intros)
  fix properties
  show "host_local (\<lambda>h. case properties of
           PDict kvs \<Rightarrow>
             render_object_properties lb (rp h) streamlit_app key properties (map fst kvs) []
         | _ \<Rightarrow>
             seq (lift (py_iter properties)) (\<lambda>xs.
               if xs = [] then ret (PDict []) else throw TypeError))"
    by (cases properties)
       (simp_all add: host_local_render_object_properties [OF assms], (intro local_intros)+)
qed

lemma host_local_render_single_object_input:
  assumes "\<And>app key' p. host_local (\<lambda>h. rp h app key' p)"
  shows "host_local (\<lambda>h. render_single_object_input ui (rp h) h streamlit_app key property)"
  unfolding render_single_object_input_def
  by (intro local_intros host_local_render_object_input assms)

lemma host_local_render_single_reference:
  assumes "\<And>app key' p. host_local (\<lambda>h. rp h app key' p)"
  shows "host_local (\<lambda>h. render_single_reference ui (rp h) streamlit_app key property)"
  unfolding render_single_reference_def
  by (intro local_intros assms)

lemma host_local_render_object_list_input:
  assumes "\<And>app key' p. host_local (\<lambda>h. rp h app key' p)"
  shows "host_local (\<lambda>h. render_object_list_input ui (rp h) h streamlit_app key property)"
  unfolding render_object_list_input_def
  by (intro local_intros host_local_render_object_input assms)

lemma host_local_unsupported_property [local_intros]:
  "host_local (\<lambda>h. unsupported_property lb h streamlit_app property)"
  unfolding unsupported_property_def by (intro local_intros)

lemma host_local_render_property:
  "host_local (\<lambda>h. render_property ui h depth streamlit_app key property)"
proof (induction depth arbitrary: streamlit_app key property)
  case 0
  show ?case by (simp add: host_local_throw)
next
  case (Suc depth)
  show ?case
    unfolding render_property.simps
    by (intro local_intros host_local_render_single_object_input
        host_local_render_object_list_input host_local_render_single_reference Suc.IH)
qed

lemma host_local_render_ui_property:
  "host_local (\<lambda>h. render_ui_property ui h depth required_properties property_key)"
  unfolding render_ui_property_def
  by (intro local_intros host_local_render_property)

lemma host_local_render_ui_loop:
  "host_local (\<lambda>h. render_ui_loop ui h depth required_properties keys)"
proof (induction keys)
  case Nil
  show ?case by (simp add: host_local_ret)
next
  case (Cons property_key rest)
  show ?case
    unfolding render_ui_loop.simps
    by (intro local_intros host_local_render_ui_property Cons.IH)
qed

lemma host_local_render_ui:
  assumes "\<And>f d. render_input_ui (input_cls ui) = Some f \<Longrightarrow> host_local (\<lambda>h. f h d)"
  shows "host_local (\<lambda>h. render_ui ui h depth)"
proof (cases "render_input_ui (input_cls ui)")
  case None
  show ?thesis
    unfolding render_ui_def None option.case
    by (intro local_intros host_local_render_ui_loop)
next
  case (Some f)
  have "host_local (\<lambda>h s. f h (input_data s) s)"
    by (rule host_local_state [where g = "\<lambda>d h. f h d"]) (rule assms [OF Some])
  then show ?thesis
    unfolding render_ui_def Some option.case
    by (intro local_intros)
qed

lemma host_local_render_single_text_property [local_intros]:
  "host_local (\<lambda>h. render_single_text_property lb h property_schema v)"
  unfolding render_single_text_property_def by (intro local_intros)

lemma host_local_render_single_file_property [local_intros]:
  "host_local (\<lambda>h. render_single_file_property lb h property_schema v)"
  unfolding render_single_file_property_def by (intro local_intros)

lemma host_local_render_single_complex_property [local_intros]:
  "host_local (\<lambda>h. render_single_complex_property lb h property_schema v)"
  unfolding render_single_complex_property_def by (intro local_intros)

lemma host_local_render_output_property [local_intros]:
  "host_local (\<lambda>h. render_output_property ui h definitions property_schema v)"
  unfolding render_output_property_def by (intro local_intros)

lemma host_local_render_custom_output:
  assumes "\<And>v f i. output_renderer (out_env ui) v = Some f \<Longrightarrow> host_local (\<lambda>h. f h i)"
  shows "host_local (\<lambda>h. render_custom_output ui h data)"
proof (cases "output_renderer (out_env ui) data")
  case None
  show ?thesis
    unfolding render_custom_output_def None option.case
    by (intro local_intros)
next
  case (Some f)
  show ?thesis
    unfolding render_custom_output_def Some option.case
    by (intro local_intros assms [OF Some])
qed

lemma host_local_render_output_fields:
  assumes out: "\<And>v f i. output_renderer (out_env ui) v = Some f \<Longrightarrow> host_local (\<lambda>h. f h i)"
    and rso: "\<And>v. host_local (\<lambda>h. rso h v)"
  shows "host_local (\<lambda>h. render_output_fields ui h (rso h) model_properties definitions fs)"
proof (induction fs)
  case Nil
  show ?case by (simp add: host_local_ret)
next
  case (Cons field rest)
  obtain property_key v where field: "field = (property_key, v)" by (cases field)
  have one: "host_local (\<lambda>h. case output_renderer (out_env ui) v of
              Some render \<Rightarrow> seq (render h None) (\<lambda>_. ret ())
            | None \<Rightarrow>
               (case v of
                  PModel c fs \<Rightarrow>
                    seq (render_heading h St property_schema) (\<lambda>_. rso h v)
                | _ \<Rightarrow> render_output_property ui h definitions property_schema v))"
    for property_schema
  proof (cases "output_renderer (out_env ui) v")
    case (Some f)
    show ?thesis
      unfolding Some option.case by (intro local_intros out [OF Some])
  next
    case None
    show ?thesis
      unfolding None option.case
      by (cases v) (simp_all add: host_local_render_output_property, intro local_intros rso)
  qed
  show ?case
    unfolding field render_output_fields.simps
    by (intro local_intros one Cons.IH)
qed

lemma host_local_update:
  "host_local (\<lambda>h s. (x, s\<lparr>output_data := a, latest_operation_input := b\<rparr>))"
  by (rule host_local_pure) simp

lemma host_local_render_single_output:
  assumes out: "\<And>v f i. output_renderer (out_env ui) v = Some f \<Longrightarrow> host_local (\<lambda>h. f h i)"
  shows "host_local (\<lambda>h. render_single_output ui h depth data)"
proof (induction depth arbitrary: data)
  case 0
  show ?case by (simp add: host_local_throw)
next
  case (Suc depth)
  have inner: "host_local (\<lambda>h. render_output_fields ui h (render_single_output ui h depth)
                    model_properties definitions fs)" for model_properties definitions fs
    by (rule host_local_render_output_fields) (erule out, rule Suc.IH)
  have fields: "host_local (\<lambda>h. case data of
                PModel c fs \<Rightarrow>
                  render_output_fields ui h (render_single_output ui h depth)
                    (prop_get schema ''properties'') (prop_get schema ''definitions'') fs
              | _ \<Rightarrow> throw AttributeError)" for schema
    by (cases data) (simp_all add: host_local_throw inner)
  show ?case
    unfolding render_single_output.simps
    by (intro local_intros host_local_render_custom_output out fields)
qed

lemma host_local_collect_list_items:
  assumes out: "\<And>v f i. output_renderer (out_env ui) v = Some f \<Longrightarrow> host_local (\<lambda>h. f h i)"
  shows "host_local (\<lambda>h. collect_list_items ui h items data_items)"
proof (induction items arbitrary: data_items)
  case Nil
  show ?case by (simp add: host_local_ret)
next
  case (Cons data_item rest)
  show ?case
  proof (cases "output_renderer (out_env ui) data_item")
    case None
    show ?thesis
      unfolding collect_list_items.simps None option.case
      by (intro local_intros Cons.IH)
  next
    case (Some f)
    show ?thesis
      unfolding collect_list_items.simps Some option.case
      by (intro local_intros Cons.IH out [OF Some])
  qed
qed

lemma host_local_render_list_output:
  assumes out: "\<And>v f i. output_renderer (out_env ui) v = Some f \<Longrightarrow> host_local (\<lambda>h. f h i)"
  shows "host_local (\<lambda>h. render_list_output ui h data)"
  unfolding render_list_output_def
  by (intro local_intros host_local_collect_list_items out)

lemma host_local_render_exception [local_intros]:
  "host_local (\<lambda>h. render_exception ui h ex)"
  unfolding render_exception_def by (intro local_intros)

lemma host_local_output_render_ui:
  assumes out: "\<And>v f i. output_renderer (out_env ui) v = Some f \<Longrightarrow> host_local (\<lambda>h. f h i)"
  shows "host_local (\<lambda>h. output_render_ui ui h depth)"
proof -
  have single: "host_local (\<lambda>h. render_single_output ui h depth data)" for data
    by (rule host_local_render_single_output) (erule out)
  have lst: "host_local (\<lambda>h. render_list_output ui h data)" for data
    by (rule host_local_render_list_output) (erule out)
  have "host_local (\<lambda>h. case ui_output_data ui of
          PModel c fs \<Rightarrow> render_single_output ui h depth (ui_output_data ui)
        | PList xs \<Rightarrow> render_list_output ui h (ui_output_data ui)
        | _ \<Rightarrow> ret ())"
    by (cases "ui_output_data ui") (simp_all add: host_local_ret single lst)
  then show ?thesis
    unfolding output_render_ui_def
    by (intro local_intros)
qed

lemma host_local_execute:
  assumes "\<And>obj. host_local (\<lambda>h. operation op h obj)"
  shows "host_local (\<lambda>h. execute op h)"
  unfolding execute_def
  by (intro local_intros host_local_update assms)

lemma host_local_show_json_button [local_intros]:
  "host_local (\<lambda>h. show_json_button a h)"
  unfolding show_json_button_def by (intro local_intros)

lemma host_local_show_output:
  assumes out: "\<And>v f i. output_renderer (app_env a) v = Some f \<Longrightarrow> host_local (\<lambda>h. f h i)"
  shows "host_local (\<lambda>h. show_output a h)"
proof -
  have "host_local (\<lambda>h. output_render_ui (new_output_ui a (fst x) (snd x)) h (recursion_limit a))"
    for x
    by (rule host_local_output_render_ui) (simp add: new_output_ui_def out)
  from host_local_state [where g = "\<lambda>x h. output_render_ui (new_output_ui a (fst x) (snd x)) h
         (recursion_limit a)" and r = "\<lambda>s. (output_data s, latest_operation_input s)", OF this]
  have "host_local (\<lambda>h s. output_render_ui
          (new_output_ui a (output_data s) (latest_operation_input s)) h (recursion_limit a) s)"
    by simp
  then show ?thesis
    unfolding show_output_def by (intro local_intros)
qed

lemma host_local_execute_and_show:
  assumes out: "\<And>v f i. output_renderer (app_env a) v = Some f \<Longrightarrow> host_local (\<lambda>h. f h i)"
    and op: "\<And>obj. host_local (\<lambda>h. operation op h obj)"
  shows "host_local (\<lambda>h. execute_and_show a op h execute_selected)"
proof -
  have "host_local (\<lambda>h. if b then show_output a h else ret ())" for b
    by (intro local_intros host_local_show_output out)
  from host_local_state [where g = "\<lambda>b h. if b then show_output a h else ret ()"
      and r = "\<lambda>s. py_truthy (output_data s)", OF this]
  have "host_local (\<lambda>h s. if py_truthy (output_data s) then show_output a h s else (Inr (), s))"
    by (simp add: ret_def if_distrib [of "\<lambda>f. f _"] cong: if_cong)
  then show ?thesis
    unfolding execute_and_show_def
    by (intro local_intros host_local_execute op)
qed

lemma host_local_session_clear:
  "host_local (\<lambda>h s. (Inr (), (session_clear a s)\<lparr>trace := trace s\<rparr>))"
  by (rule host_local_pure) simp

lemma host_local_render_streamlit_ui:
  assumes "user_code_local a op"
  shows "host_local (\<lambda>h. render_streamlit_ui a op h)"
proof -
  from assms have inp: "\<And>f d. render_input_ui (input_type op) = Some f \<Longrightarrow> host_local (\<lambda>h. f h d)"
    and out: "\<And>v f i. output_renderer (app_env a) v = Some f \<Longrightarrow> host_local (\<lambda>h. f h i)"
    and op: "\<And>obj. host_local (\<lambda>h. operation op h obj)"
    unfolding user_code_local_def by blast+
  have ui: "host_local (\<lambda>h. render_ui (new_input_ui (app_library a) (app_utils a) (input_type op)) h
            (recursion_limit a))"
    by (rule host_local_render_ui) (simp add: new_input_ui_def inp)
  show ?thesis
    unfolding render_streamlit_ui_def
    by (intro local_intros ui host_local_session_clear host_local_execute_and_show out op)
qed

lemmas page_simps =
  render_streamlit_ui_def page_title_def page_app_def plain_app_def plain_env_def echo_op_def
  page_lib_def execute_and_show_def execute_def attempt_validation_def show_output_def
  output_render_ui_def new_output_ui_def render_custom_output_def show_json_button_def
  call_method_def eval_nat_numeral



end
